theory Spec2Isabelle
  imports Complex_Main "HOL-Library.Word" "HOL-Library.Code_Target_Numeral"
begin

unbundle bit_operations_syntax

section \<open>Conventions of the embedding\<close>

text \<open>
  The TypeScript sources are embedded as HOL functions over an explicit state.
  \<^item> A thrown value is its message (\<open>err\<close>); a function that may throw returns
    \<open>err + 'a\<close>, with \<open>Inl\<close> for the throw.
  \<^item> A JavaScript \<open>number\<close> that counts tokens is a \<open>nat\<close>; a loop counter is an
    \<open>int\<close>. Money is a \<open>jsnum\<close>: an exact \<open>real\<close> (an IEEE double in the source, rounded
    only for display) or \<open>NaN\<close>. A version number read from the relational store is a
    32-bit \<open>INTEGER\<close>; the version numbers that \<open>getNextVersion\<close> parses from strings are
    doubles, modelled with their rounding (\<open>jsint\<close>).
  \<^item> Module-level mutable state (the session ledger of \<open>usage.ts\<close>), the warn and
    error records of the loggers and the list of requests sent to the completion
    provider form the record \<open>world\<close>. Info and debug records are not kept.
  \<^item> Identifiers made by \<open>generateId\<close>, timestamps and durations come from the clock
    and the random source; the records below are modelled without these fields.
  \<^item> The external collaborators (completion provider, relational store, spreadsheet
    ledger, account registry, packaging function, text rendering of a briefing) are
    the fields of the record \<open>env\<close>; every theorem holds for every \<open>env\<close>.
\<close>

type_synonym err = string

subsection \<open>JavaScript truthiness and number rendering\<close>

definition truthy_nat :: "nat option \<Rightarrow> bool" where
  "truthy_nat x = (case x of None \<Rightarrow> False | Some n \<Rightarrow> n \<noteq> 0)"

definition truthy_real :: "real option \<Rightarrow> bool" where
  "truthy_real x = (case x of None \<Rightarrow> False | Some r \<Rightarrow> r \<noteq> 0)"

definition truthy_str :: "string option \<Rightarrow> bool" where
  "truthy_str x = (case x of None \<Rightarrow> False | Some s \<Rightarrow> s \<noteq> [])"

definition or_nat :: "nat option \<Rightarrow> nat \<Rightarrow> nat" where
  \<comment> \<open>\<open>x || d\<close> on an optional count\<close>
  "or_nat x d = (case x of None \<Rightarrow> d | Some n \<Rightarrow> if n = 0 then d else n)"

definition or_str :: "string option \<Rightarrow> string \<Rightarrow> string" where
  \<comment> \<open>\<open>x || d\<close> on an optional string\<close>
  "or_str x d = (case x of None \<Rightarrow> d | Some s \<Rightarrow> if s = [] then d else s)"

definition digit_char :: "nat \<Rightarrow> char" where
  "digit_char n = ''0123456789'' ! n"

fun string_of_nat :: "nat \<Rightarrow> string" where
  "string_of_nat n =
     (if n < 10 then [digit_char n] else string_of_nat (n div 10) @ [digit_char (n mod 10)])"

declare string_of_nat.simps [simp del]

definition string_of_int :: "int \<Rightarrow> string" where
  "string_of_int i = (if i < 0 then ''-'' @ string_of_nat (nat (- i)) else string_of_nat (nat i))"

subsection \<open>JavaScript numbers that hold money\<close>

text \<open>
  \<open>Num r\<close> is a finite number, \<open>NaN\<close> is not-a-number. A product or a sum with \<open>NaN\<close>
  is \<open>NaN\<close>. Reading a property that an object does not have gives \<open>undefined\<close>
  (\<open>None\<close>), which arithmetic converts to \<open>NaN\<close>.
\<close>

datatype jsnum = Num real | NaN

fun js_times :: "jsnum \<Rightarrow> jsnum \<Rightarrow> jsnum" where
  "js_times (Num a) (Num b) = Num (a * b)"
| "js_times _ _ = NaN"

fun js_plus :: "jsnum \<Rightarrow> jsnum \<Rightarrow> jsnum" where
  "js_plus (Num a) (Num b) = Num (a + b)"
| "js_plus _ _ = NaN"

definition to_number :: "real option \<Rightarrow> jsnum" where
  "to_number x = (case x of None \<Rightarrow> NaN | Some r \<Rightarrow> Num r)"

section \<open>Cost types (cost.types.ts)\<close>

record TokenUsage =
  inputTokens :: nat
  outputTokens :: nat
  cacheReadTokens :: "nat option"
  cacheWriteTokens :: "nat option"

record CostCalculation =
  inputCost :: jsnum
  outputCost :: jsnum
  cacheCost :: "real option"
  totalCostUsd :: jsnum

datatype CostOperation =
    generate_initial | analyze_prompt | improve_prompt | finalize_prompt
  | injection_execute | assistant_get | assistant_create | assistant_update
  | prompt_generation | prompt_analysis | prompt_improvement

datatype metaval = MStr string | MNum int

record CostEntry =
  ce_accountId :: string
  ce_assistantId :: string
  ce_operation :: CostOperation
  ce_model :: string
  ce_inputTokens :: nat
  ce_outputTokens :: nat
  ce_costUsd :: jsnum
  ce_version :: "string option"
  ce_metadata :: "(string \<times> metaval) list"

record ModelPricing =
  mp_model :: string
  inputPer1M :: real
  outputPer1M :: real
  cacheReadPer1M :: "real option"
  cacheWritePer1M :: "real option"

definition DEFAULT_MODEL :: string where
  "DEFAULT_MODEL = ''claude-opus-4-5-20251101''"

definition MODEL_PRICING :: "string \<rightharpoonup> ModelPricing" where
  "MODEL_PRICING = map_of
    [(''claude-opus-4-5-20251101'',
        \<lparr>mp_model = ''claude-opus-4-5-20251101'', inputPer1M = 15, outputPer1M = 75,
         cacheReadPer1M = Some 1.5, cacheWritePer1M = Some 18.75\<rparr>),
     (''claude-sonnet-4-20250514'',
        \<lparr>mp_model = ''claude-sonnet-4-20250514'', inputPer1M = 3, outputPer1M = 15,
         cacheReadPer1M = Some 0.3, cacheWritePer1M = Some 3.75\<rparr>),
     (''claude-3-5-sonnet-20241022'',
        \<lparr>mp_model = ''claude-3-5-sonnet-20241022'', inputPer1M = 3, outputPer1M = 15,
         cacheReadPer1M = Some 0.3, cacheWritePer1M = Some 3.75\<rparr>),
     (''claude-3-5-haiku-20241022'',
        \<lparr>mp_model = ''claude-3-5-haiku-20241022'', inputPer1M = 0.8, outputPer1M = 4,
         cacheReadPer1M = Some 0.08, cacheWritePer1M = Some 1\<rparr>)]"

text \<open>
  \<open>MODEL_PRICING\<close> is an object literal, so \<open>MODEL_PRICING[model]\<close> is a property read:
  it finds the four own keys above and, through the prototype chain, the members of
  \<open>Object.prototype\<close>. These are functions (for \<open>__proto__\<close> the prototype object
  itself): truthy values that have none of the fields of a \<open>ModelPricing\<close>. Any other
  key reads as \<open>undefined\<close> (\<open>None\<close>).
\<close>

datatype property_value = Entry ModelPricing | PrototypeMember

definition Object_prototype_keys :: "string list" where
  "Object_prototype_keys =
     [''constructor'', ''__defineGetter__'', ''__defineSetter__'', ''hasOwnProperty'',
      ''__lookupGetter__'', ''__lookupSetter__'', ''isPrototypeOf'', ''propertyIsEnumerable'',
      ''toString'', ''valueOf'', ''__proto__'', ''toLocaleString'']"

definition MODEL_PRICING_at :: "string \<Rightarrow> property_value option" where
  \<comment> \<open>\<open>MODEL_PRICING[model]\<close>\<close>
  "MODEL_PRICING_at model =
     (case MODEL_PRICING model of
        Some p \<Rightarrow> Some (Entry p)
      | None \<Rightarrow> if model \<in> set Object_prototype_keys then Some PrototypeMember else None)"

definition get_field :: "(ModelPricing \<Rightarrow> 'a) \<Rightarrow> property_value \<Rightarrow> 'a option" where
  \<comment> \<open>\<open>pricing.f\<close> for a required field \<open>f\<close> of \<open>ModelPricing\<close>\<close>
  "get_field f v = (case v of Entry p \<Rightarrow> Some (f p) | PrototypeMember \<Rightarrow> None)"

definition get_optional_field :: "(ModelPricing \<Rightarrow> 'a option) \<Rightarrow> property_value \<Rightarrow> 'a option" where
  \<comment> \<open>\<open>pricing.f\<close> for an optional field \<open>f\<close> of \<open>ModelPricing\<close>\<close>
  "get_optional_field f v = (case v of Entry p \<Rightarrow> f p | PrototypeMember \<Rightarrow> None)"

section \<open>The world: session ledger, log, completion calls\<close>

datatype level = Warn | Error

text \<open>
  The three requests of \<open>messages.ts\<close>, each one \<open>sendMessage\<close> whose text is built
  from the parameters kept here: \<open>GeneratePromptFromBriefing briefingContent
  prismaSystemPrompt\<close>, \<open>AnalyzePrompt promptContent briefingContent\<close>,
  \<open>ImprovePrompt promptContent analysisFeedback briefingContent prismaSystemPrompt\<close>.
\<close>

datatype request =
    GeneratePromptFromBriefing string string
  | AnalyzePrompt string string
  | ImprovePrompt string string string string

record world =
  sessionUsage :: TokenUsage
  sessionCosts :: "CostEntry list"
  logs :: "(level \<times> string) list"
  calls :: "request list"

definition logger_warn :: "string \<Rightarrow> world \<Rightarrow> world" where
  "logger_warn msg w = w\<lparr>logs := logs w @ [(Warn, msg)]\<rparr>"

definition logger_error :: "string \<Rightarrow> world \<Rightarrow> world" where
  "logger_error msg w = w\<lparr>logs := logs w @ [(Error, msg)]\<rparr>"

section \<open>Cost calculator (cost-tracker.ts)\<close>

definition calculateCostWithPricing :: "TokenUsage \<Rightarrow> property_value \<Rightarrow> CostCalculation" where
  "calculateCostWithPricing usage pricing =
     (let inputCost = js_times (Num (real (inputTokens usage) / 1000000))
                        (to_number (get_field inputPer1M pricing));
          outputCost = js_times (Num (real (outputTokens usage) / 1000000))
                         (to_number (get_field outputPer1M pricing));
          cacheCost0 = (0::real);
          cacheCost1 =
            (if truthy_nat (cacheReadTokens usage) \<and>
                truthy_real (get_optional_field cacheReadPer1M pricing)
             then cacheCost0 + (real (the (cacheReadTokens usage)) / 1000000)
                                 * the (get_optional_field cacheReadPer1M pricing)
             else cacheCost0);
          cacheCost2 =
            (if truthy_nat (cacheWriteTokens usage) \<and>
                truthy_real (get_optional_field cacheWritePer1M pricing)
             then cacheCost1 + (real (the (cacheWriteTokens usage)) / 1000000)
                                 * the (get_optional_field cacheWritePer1M pricing)
             else cacheCost1);
          totalCostUsd = js_plus (js_plus inputCost outputCost) (Num cacheCost2)
      in \<lparr>inputCost = inputCost, outputCost = outputCost,
          cacheCost = (if cacheCost2 > 0 then Some cacheCost2 else None),
          totalCostUsd = totalCostUsd\<rparr>)"

text \<open>
  \<open>if (!pricing)\<close> tests the value read from the table: \<open>undefined\<close> is falsy, an
  entry and a member of the prototype are truthy. Reading a field of the fallback
  entry would throw a TypeError if the table had no entry for the default model; the
  branch is kept.
\<close>

definition calculateCost :: "TokenUsage \<Rightarrow> string \<Rightarrow> world \<Rightarrow> (err + CostCalculation) \<times> world" where
  "calculateCost usage model w =
     (case MODEL_PRICING_at model of
        None \<Rightarrow>
          (let w1 = logger_warn (''Unknown model pricing: '' @ model @ '', using opus pricing'') w
           in case MODEL_PRICING_at ''claude-opus-4-5-20251101'' of
                None \<Rightarrow> (Inl ''TypeError: Cannot read properties of undefined'', w1)
              | Some opusPricing \<Rightarrow> (Inr (calculateCostWithPricing usage opusPricing), w1))
      | Some pricing \<Rightarrow> (Inr (calculateCostWithPricing usage pricing), w))"

record CostEntryParams =
  cp_accountId :: string
  cp_assistantId :: string
  cp_operation :: CostOperation
  cp_model :: "string option"
  cp_usage :: TokenUsage
  cp_version :: "string option"
  cp_metadata :: "(string \<times> metaval) list"

definition createCostEntry :: "CostEntryParams \<Rightarrow> string \<Rightarrow> world \<Rightarrow> (err + CostEntry) \<times> world" where
  \<comment> \<open>the second argument is \<open>params.model\<close>, which this function requires\<close>
  "createCostEntry params model w =
     (case calculateCost (cp_usage params) model w of
        (Inl e, w1) \<Rightarrow> (Inl e, w1)
      | (Inr cost, w1) \<Rightarrow>
          (Inr \<lparr>ce_accountId = cp_accountId params, ce_assistantId = cp_assistantId params,
                ce_operation = cp_operation params, ce_model = model,
                ce_inputTokens = inputTokens (cp_usage params),
                ce_outputTokens = outputTokens (cp_usage params),
                ce_costUsd = totalCostUsd cost, ce_version = cp_version params,
                ce_metadata = cp_metadata params\<rparr>, w1))"

section \<open>Session usage ledger (usage.ts)\<close>

definition trackUsage :: "TokenUsage \<Rightarrow> world \<Rightarrow> world" where
  "trackUsage usage w =
     w\<lparr>sessionUsage :=
         \<lparr>inputTokens = inputTokens (sessionUsage w) + inputTokens usage,
          outputTokens = outputTokens (sessionUsage w) + outputTokens usage,
          cacheReadTokens =
            Some (or_nat (cacheReadTokens (sessionUsage w)) 0 + or_nat (cacheReadTokens usage) 0),
          cacheWriteTokens =
            Some (or_nat (cacheWriteTokens (sessionUsage w)) 0 + or_nat (cacheWriteTokens usage) 0)\<rparr>\<rparr>"

definition logCost :: "CostEntryParams \<Rightarrow> world \<Rightarrow> (err + CostEntry) \<times> world" where
  "logCost params w =
     (case createCostEntry params (or_str (cp_model params) DEFAULT_MODEL) w of
        (Inl e, w1) \<Rightarrow> (Inl e, w1)
      | (Inr entry, w1) \<Rightarrow>
          (Inr entry, trackUsage (cp_usage params) (w1\<lparr>sessionCosts := sessionCosts w1 @ [entry]\<rparr>)))"

definition getSessionUsage :: "world \<Rightarrow> TokenUsage" where
  "getSessionUsage w = sessionUsage w"

definition getSessionCosts :: "world \<Rightarrow> CostEntry list" where
  "getSessionCosts w = sessionCosts w"

definition resetSession :: "world \<Rightarrow> world" where
  "resetSession w =
     w\<lparr>sessionUsage := \<lparr>inputTokens = 0, outputTokens = 0,
                         cacheReadTokens = Some 0, cacheWriteTokens = Some 0\<rparr>,
       sessionCosts := []\<rparr>"

definition getSessionTotalCost :: "world \<Rightarrow> jsnum" where
  "getSessionTotalCost w = foldl (\<lambda>total entry. js_plus total (ce_costUsd entry)) (Num 0) (sessionCosts w)"

section \<open>Prompt and briefing types\<close>

record 'fd Briefing =
  b_id :: string
  b_accountId :: string
  b_assistantId :: string
  formData :: 'fd

record 'fd PipelineBriefingInput =
  briefing :: "'fd Briefing"
  pi_accountId :: string
  pi_assistantId :: string

record MessageResponse =
  content :: string
  usage :: TokenUsage
  stopReason :: "string option"
  mr_model :: string

record SimplePromptIteration =
  iterationNumber :: int
  feedback :: string
  changes :: string
  promptSnapshot :: string

record GeneratedPrompt =
  gp_accountId :: string
  gp_assistantId :: string
  gp_content :: string
  gp_version :: string
  gp_briefingId :: string
  gp_iterations :: int
  gp_model :: string
  simpleIterations :: "SimplePromptIteration list"

record InjectionFile =
  if_accountId :: string
  if_assistantId :: string
  if_version :: string
  if_filePath :: "string option"
  if_promptContent :: "string option"

record AccountConfig =
  ac_id :: string
  ac_name :: string
  ac_assistants :: "string list"

section \<open>Relational store and spreadsheet types\<close>

record SupabaseAccount =
  sa_id :: string

record SupabaseAssistant =
  sas_id :: string

record PipelineRun =
  run_id :: string

record SupabasePipelineStep =
  sps_id :: string
  sps_step_name :: string

datatype StepStatus = pending | running | completed | failed

record 'fd PipelineRunInsert =
  pri_account_id :: string
  pri_assistant_id :: string
  pri_status :: StepStatus
  pri_briefing_data :: "'fd Briefing"

record PipelineStepInsert =
  psi_pipeline_run_id :: string
  psi_step_name :: string
  psi_step_order :: nat
  psi_status :: StepStatus

record CostEntryInsert =
  cei_pipeline_run_id :: string
  cei_pipeline_step_id :: "string option"
  cei_account_id :: string
  cei_assistant_id :: string
  cei_operation :: string
  cei_model :: string
  cei_input_tokens :: nat
  cei_output_tokens :: nat
  cei_cache_read_tokens :: nat
  cei_cache_write_tokens :: nat
  cei_cost_usd :: jsnum

record PromptVersionInsert =
  pvi_pipeline_run_id :: string
  pvi_account_id :: string
  pvi_assistant_id :: string
  pvi_version :: string
  pvi_version_number :: int
  pvi_prompt_content :: string
  pvi_prompt_hash :: string
  pvi_injection_content :: string
  pvi_injection_file_path :: "string option"
  pvi_briefing_hash :: string
  pvi_total_iterations :: nat
  pvi_status :: string

record VersionSheetRow =
  vs_account_id :: string
  vs_assistant_id :: string
  vs_version :: string
  vs_briefing_hash :: string
  vs_prompt_hash :: string
  vs_file_path :: string
  vs_status :: string

record Summary =
  totalCost :: jsnum
  totalInputTokens :: nat
  totalOutputTokens :: nat
  totalOperations :: nat

section \<open>External collaborators\<close>

text \<open>
  \<open>complete i r\<close> is the provider's answer to request \<open>r\<close> when \<open>i\<close> requests were
  sent before it, so that a provider may answer the same request differently over
  time. \<open>createSupabaseCostEntry i\<close> is the insert of the \<open>i\<close>-th entry of one flush.
  The relational store's table of prompt versions is \<open>prompt_versions\<close> (the
  \<open>version_number\<close> column of an assistant's rows); \<open>rpc_error\<close> and \<open>select_error\<close>
  are the errors that the transport of its two read paths reports. The other collaborators are functions
  of their arguments. What a collaborator writes to its own logger is not recorded.
\<close>

record 'fd env =
  complete :: "nat \<Rightarrow> request \<Rightarrow> err + MessageResponse"
  formatBriefingAsMarkdown :: "'fd Briefing \<Rightarrow> string"
  getPRISMASystemPrompt :: string
  stringify :: "'fd Briefing \<Rightarrow> string"
  loadAccountConfig :: "string \<Rightarrow> err + AccountConfig option"
  validateApiKeyConfigured :: "bool \<times> string option"
  createInjectionFromPrompt :: "GeneratedPrompt \<Rightarrow> string \<Rightarrow> err + InjectionFile"
  getSupabaseClient :: "err option"
  getOrCreateAccount :: "string \<Rightarrow> string \<Rightarrow> err + SupabaseAccount"
  getOrCreateAssistant :: "string \<Rightarrow> string \<Rightarrow> string \<Rightarrow> err + SupabaseAssistant"
  createPipelineRun :: "'fd PipelineRunInsert \<Rightarrow> err + PipelineRun"
  createPipelineSteps :: "PipelineStepInsert list \<Rightarrow> err + SupabasePipelineStep list"
  startPipelineStep :: "string \<Rightarrow> err + unit"
  completePipelineStep :: "string \<Rightarrow> err + unit"
  failPipelineStep :: "string \<Rightarrow> string \<Rightarrow> err + unit"
  createSupabaseCostEntry :: "nat \<Rightarrow> CostEntryInsert \<Rightarrow> err + unit"
  prompt_versions :: "string \<Rightarrow> 32 word list"
  rpc_error :: "string \<Rightarrow> err option"
  select_error :: "string \<Rightarrow> err option"
  createPromptVersion :: "PromptVersionInsert \<Rightarrow> err + unit"
  completePipelineRun :: "string \<Rightarrow> err + unit"
  failPipelineRun :: "string \<Rightarrow> string option \<Rightarrow> err + unit"
  findOrCreateFolder :: "string \<Rightarrow> err + string"
  findCostSpreadsheet :: "string \<Rightarrow> string \<Rightarrow> err + string option"
  createCostSpreadsheet :: "string \<Rightarrow> string \<Rightarrow> err + string"
  appendCostEntries :: "string \<Rightarrow> CostEntry list \<Rightarrow> err + unit"
  appendVersionEntries :: "string \<Rightarrow> VersionSheetRow list \<Rightarrow> err + unit"
  updateSummary :: "string \<Rightarrow> Summary \<Rightarrow> err + unit"

section \<open>Completion step runner (messages.ts, generator.ts)\<close>

definition sendMessage :: "'fd env \<Rightarrow> request \<Rightarrow> world \<Rightarrow> (err + MessageResponse) \<times> world" where
  \<comment> \<open>one request to the provider; the request is recorded whether or not it succeeds\<close>
  "sendMessage env req w = (complete env (length (calls w)) req, w\<lparr>calls := calls w @ [req]\<rparr>)"

definition generateInitialPrompt ::
  "'fd env \<Rightarrow> 'fd Briefing \<Rightarrow> string \<Rightarrow> world \<Rightarrow> (err + string \<times> TokenUsage) \<times> world" where
  "generateInitialPrompt env b accountId w =
     (let briefingContent = formatBriefingAsMarkdown env b;
          prismaSystemPrompt = getPRISMASystemPrompt env
      in case sendMessage env (GeneratePromptFromBriefing briefingContent prismaSystemPrompt) w of
           (Inl e, w1) \<Rightarrow> (Inl e, w1)
         | (Inr response, w1) \<Rightarrow>
             (case logCost \<lparr>cp_accountId = accountId, cp_assistantId = b_assistantId b,
                             cp_operation = prompt_generation, cp_model = None,
                             cp_usage = usage response, cp_version = None,
                             cp_metadata = [(''phase'', MStr ''initial'')]\<rparr> w1 of
                (Inl e, w2) \<Rightarrow> (Inl e, w2)
              | (Inr _, w2) \<Rightarrow> (Inr (content response, usage response), w2)))"

definition analyzeGeneratedPrompt ::
  "'fd env \<Rightarrow> string \<Rightarrow> 'fd Briefing \<Rightarrow> string \<Rightarrow> world \<Rightarrow> (err + string \<times> TokenUsage) \<times> world" where
  "analyzeGeneratedPrompt env promptContent b accountId w =
     (let briefingContent = formatBriefingAsMarkdown env b
      in case sendMessage env (AnalyzePrompt promptContent briefingContent) w of
           (Inl e, w1) \<Rightarrow> (Inl e, w1)
         | (Inr response, w1) \<Rightarrow>
             (case logCost \<lparr>cp_accountId = accountId, cp_assistantId = b_assistantId b,
                             cp_operation = prompt_analysis, cp_model = None,
                             cp_usage = usage response, cp_version = None,
                             cp_metadata = [(''phase'', MStr ''analysis'')]\<rparr> w1 of
                (Inl e, w2) \<Rightarrow> (Inl e, w2)
              | (Inr _, w2) \<Rightarrow> (Inr (content response, usage response), w2)))"

definition improveGeneratedPrompt ::
  "'fd env \<Rightarrow> string \<Rightarrow> string \<Rightarrow> 'fd Briefing \<Rightarrow> string \<Rightarrow> int \<Rightarrow> world
     \<Rightarrow> (err + string \<times> TokenUsage) \<times> world" where
  "improveGeneratedPrompt env promptContent analysisFeedback b accountId iteration w =
     (let briefingContent = formatBriefingAsMarkdown env b;
          prismaSystemPrompt = getPRISMASystemPrompt env
      in case sendMessage env
                (ImprovePrompt promptContent analysisFeedback briefingContent prismaSystemPrompt) w of
           (Inl e, w1) \<Rightarrow> (Inl e, w1)
         | (Inr response, w1) \<Rightarrow>
             (case logCost \<lparr>cp_accountId = accountId, cp_assistantId = b_assistantId b,
                             cp_operation = prompt_improvement, cp_model = None,
                             cp_usage = usage response, cp_version = None,
                             cp_metadata = [(''phase'', MStr ''improvement''),
                                            (''iteration'', MNum iteration)]\<rparr> w1 of
                (Inl e, w2) \<Rightarrow> (Inl e, w2)
              | (Inr _, w2) \<Rightarrow> (Inr (content response, usage response), w2)))"

section \<open>Iterative refinement loop (generator.ts)\<close>

record LoopState =
  currentPrompt :: string
  iterations :: "SimplePromptIteration list"
  totalUsage :: TokenUsage

definition addUsage :: "TokenUsage \<Rightarrow> TokenUsage \<Rightarrow> TokenUsage" where
  \<comment> \<open>\<open>totalUsage.inputTokens += u.inputTokens; totalUsage.outputTokens += u.outputTokens\<close>\<close>
  "addUsage tot u =
     tot\<lparr>inputTokens := inputTokens tot + inputTokens u,
          outputTokens := outputTokens tot + outputTokens u\<rparr>"

text \<open>The \<open>for (let i = 0; i < maxIterations; i++)\<close> loop, from counter \<open>i\<close>.\<close>

function refine ::
  "'fd env \<Rightarrow> 'fd Briefing \<Rightarrow> string \<Rightarrow> int \<Rightarrow> int \<Rightarrow> LoopState \<Rightarrow> world
     \<Rightarrow> (err + LoopState) \<times> world" where
  "refine env b accountId maxIterations i st w =
     (if i < maxIterations then
        (case analyzeGeneratedPrompt env (currentPrompt st) b accountId w of
           (Inl e, w1) \<Rightarrow> (Inl e, w1)
         | (Inr (analysis, analysisUsage), w1) \<Rightarrow>
             (case improveGeneratedPrompt env (currentPrompt st) analysis b accountId (i + 1) w1 of
                (Inl e, w2) \<Rightarrow> (Inl e, w2)
              | (Inr (improvedPrompt, improvementUsage), w2) \<Rightarrow>
                  refine env b accountId maxIterations (i + 1)
                    \<lparr>currentPrompt = improvedPrompt,
                     iterations = iterations st @
                       [\<lparr>iterationNumber = i + 1, feedback = analysis,
                         changes = ''Iteration '' @ string_of_int (i + 1) @ '' improvements applied'',
                         promptSnapshot = improvedPrompt\<rparr>],
                     totalUsage = addUsage (addUsage (totalUsage st) analysisUsage) improvementUsage\<rparr>
                    w2))
      else (Inr st, w))"
  by pat_completeness auto
termination
  by (relation "measure (\<lambda>(env, b, accountId, maxIterations, i, st, w). nat (maxIterations - i))") auto

declare refine.simps [simp del]

definition or_int :: "int option \<Rightarrow> int \<Rightarrow> int" where
  \<comment> \<open>\<open>x || d\<close> on an optional number\<close>
  "or_int x d = (case x of None \<Rightarrow> d | Some n \<Rightarrow> if n = 0 then d else n)"

definition generatePromptWithIteration ::
  "'fd env \<Rightarrow> 'fd Briefing \<Rightarrow> string \<Rightarrow> int option \<Rightarrow> world \<Rightarrow> (err + GeneratedPrompt) \<times> world" where
  "generatePromptWithIteration env b accountId maxIterationsParam w =
     (let maxIterations = or_int maxIterationsParam 1;
          totalUsage0 = \<lparr>inputTokens = 0, outputTokens = 0,
                         cacheReadTokens = None, cacheWriteTokens = None\<rparr>
      in case generateInitialPrompt env b accountId w of
           (Inl e, w1) \<Rightarrow> (Inl e, w1)
         | (Inr (initialPrompt, initialUsage), w1) \<Rightarrow>
             (case refine env b accountId maxIterations 0
                     \<lparr>currentPrompt = initialPrompt, iterations = [],
                      totalUsage = addUsage totalUsage0 initialUsage\<rparr> w1 of
                (Inl e, w2) \<Rightarrow> (Inl e, w2)
              | (Inr st, w2) \<Rightarrow>
                  (Inr \<lparr>gp_accountId = accountId, gp_assistantId = b_assistantId b,
                        gp_content = currentPrompt st, gp_version = ''draft'',
                        gp_briefingId = b_id b, gp_iterations = maxIterations,
                        gp_model = ''claude-opus-4-5-20251101'',
                        simpleIterations = iterations st\<rparr>, w2)))"

section \<open>Hashing and version tracker (validation.ts, version-tracker.ts)\<close>

text \<open>
  \<open>hashContent\<close> folds \<open>hash = (hash << 5) - hash + char; hash = hash & hash\<close> over
  the string, which is arithmetic modulo \<open>2^32\<close> read as a signed value, and prints
  the absolute value in hexadecimal, padded to eight digits. Characters are bytes
  here, UTF-16 code units in the source.
\<close>

definition hex_digit :: "nat \<Rightarrow> char" where
  "hex_digit n = ''0123456789abcdef'' ! n"

fun hex_of_nat :: "nat \<Rightarrow> string" where
  "hex_of_nat n =
     (if n < 16 then [hex_digit n] else hex_of_nat (n div 16) @ [hex_digit (n mod 16)])"

declare hex_of_nat.simps [simp del]

definition padStart :: "nat \<Rightarrow> char \<Rightarrow> string \<Rightarrow> string" where
  "padStart n c s = replicate (n - length s) c @ s"

definition hashContent :: "string \<Rightarrow> string" where
  "hashContent s =
     (let hash = foldl (\<lambda>h c. (push_bit 5 h - h) + of_nat (of_char c)) (0 :: 32 word) s
      in padStart 8 (CHR ''0'') (hex_of_nat (nat \<bar>sint hash\<bar>)))"

text \<open>
  The numbers of \<open>getNextVersion\<close> are integers held in IEEE doubles: \<open>Fin i\<close> is the
  double whose value is the integer \<open>i\<close>, beside the two infinities (negative zero is
  \<open>Fin 0\<close>: \<open>Math.max\<close> with \<open>0\<close> never returns it). \<open>to_double\<close> rounds an integer
  to the nearest double, a tie to the even significand: up to \<open>2^53\<close> every integer is a
  double, a larger one keeps its 53 leading bits, and a result of \<open>2^1024\<close> or more is
  infinite.
\<close>

datatype jsint = Fin int | PosInf | NegInf

fun bit_length :: "nat \<Rightarrow> nat" where
  "bit_length n = (if n = 0 then 0 else Suc (bit_length (n div 2)))"

declare bit_length.simps [simp del]

definition round_nat :: "nat \<Rightarrow> nat option" where
  "round_nat n =
     (if n \<le> 2 ^ 53 then Some n
      else
        (let k = bit_length n - 53;
             q = n div 2 ^ k;
             r = n mod 2 ^ k;
             h = 2 ^ (k - 1);
             q' = (if r > h \<or> (r = h \<and> odd q) then q + 1 else q)
         in if q' * 2 ^ k \<ge> 2 ^ 1024 then None else Some (q' * 2 ^ k)))"

definition to_double :: "int \<Rightarrow> jsint" where
  "to_double i =
     (case round_nat (nat \<bar>i\<bar>) of
        None \<Rightarrow> if i < 0 then NegInf else PosInf
      | Some m \<Rightarrow> Fin (if i < 0 then - int m else int m))"

fun js_max :: "jsint \<Rightarrow> jsint \<Rightarrow> jsint" where
  "js_max PosInf y = PosInf"
| "js_max x PosInf = PosInf"
| "js_max NegInf y = y"
| "js_max x NegInf = x"
| "js_max (Fin a) (Fin b) = Fin (max a b)"

definition js_add1 :: "jsint \<Rightarrow> jsint" where
  \<comment> \<open>\<open>x + 1\<close>\<close>
  "js_add1 x = (case x of Fin a \<Rightarrow> to_double (a + 1) | PosInf \<Rightarrow> PosInf | NegInf \<Rightarrow> NegInf)"

text \<open>
  The text of a number in a template literal. An integer up to \<open>2^53\<close> is printed by
  its decimal digits. A larger double \<open>n\<close> is printed by the shortest digit string \<open>s\<close>
  such that \<open>s\<close> followed by \<open>e\<close> zeros reads back as \<open>n\<close> (the nearest to \<open>n\<close> if there
  are two, the even one of two equally near): with the zeros written out when there
  are at most 21 digits in all, in exponent form otherwise. \<open>shortest n e\<close> looks for
  \<open>s\<close> from \<open>e\<close> zeros downwards.
\<close>

fun shortest :: "nat \<Rightarrow> nat \<Rightarrow> nat \<times> nat" where
  "shortest n 0 = (n, 0)"
| "shortest n (Suc e) =
     (let lo = n div 10 ^ Suc e;
          hi = lo + 1;
          okl = (lo \<noteq> 0 \<and> round_nat (lo * 10 ^ Suc e) = Some n);
          okh = (round_nat (hi * 10 ^ Suc e) = Some n)
      in if okl \<and> okh then
           (if n - lo * 10 ^ Suc e < hi * 10 ^ Suc e - n then (lo, Suc e)
            else if hi * 10 ^ Suc e - n < n - lo * 10 ^ Suc e then (hi, Suc e)
            else if even lo then (lo, Suc e) else (hi, Suc e))
         else if okl then (lo, Suc e)
         else if okh then (hi, Suc e)
         else shortest n e)"

definition number_text :: "nat \<Rightarrow> string" where
  "number_text n =
     (if n \<le> 2 ^ 53 then string_of_nat n
      else
        (let se = shortest n (length (string_of_nat n));
             ds = string_of_nat (fst se);
             k = length ds;
             e = snd se
         in if k + e \<le> 21 then ds @ replicate e (CHR ''0'')
            else [hd ds] @ (if k > 1 then ''.'' @ tl ds else []) @ ''e+'' @ string_of_nat (k + e - 1)))"

definition js_toString :: "jsint \<Rightarrow> string" where
  "js_toString x =
     (case x of
        PosInf \<Rightarrow> ''Infinity''
      | NegInf \<Rightarrow> ''-Infinity''
      | Fin i \<Rightarrow> if i < 0 then ''-'' @ number_text (nat (- i)) else number_text (nat i))"

text \<open>
  \<open>parseInt(s, 10)\<close>: leading white space is skipped, a sign is read, then the
  longest run of decimal digits, whose value is rounded to a double; no digit gives
  \<open>NaN\<close>, here \<open>None\<close>. A string of this embedding holds code units below 256; the
  white space and line terminators of ECMAScript among them are U+0009 to U+000D,
  U+0020 and U+00A0.
\<close>

definition is_space :: "char \<Rightarrow> bool" where
  "is_space c = (c \<in> set [CHR 0x09, CHR 0x0A, CHR 0x0B, CHR 0x0C, CHR 0x0D, CHR 0x20, CHR 0xA0])"

definition is_digit :: "char \<Rightarrow> bool" where
  "is_digit c = (48 \<le> (of_char c :: nat) \<and> (of_char c :: nat) \<le> 57)"

definition digit_val :: "char \<Rightarrow> nat" where
  "digit_val c = of_char c - 48"

definition parseInt10 :: "string \<Rightarrow> jsint option" where
  "parseInt10 s =
     (let s1 = dropWhile is_space s;
          sgn_rest = (case s1 of
                        [] \<Rightarrow> (1, [])
                      | c # r \<Rightarrow> if c = CHR ''-'' then (- 1, r)
                                 else if c = CHR ''+'' then (1, r) else (1 :: int, s1));
          ds = takeWhile is_digit (snd sgn_rest)
      in if ds = [] then None
         else Some (to_double (fst sgn_rest * int (foldl (\<lambda>a c. 10 * a + digit_val c) 0 ds))))"

text \<open>
  \<open>v.replace("v", "")\<close> removes the first \<open>v\<close>; \<open>filter(n => !isNaN(n))\<close> drops the
  strings without a number; \<open>Math.max(...versionNumbers, 0)\<close> is the largest of the
  numbers and \<open>0\<close>.
\<close>

definition getNextVersion :: "string list \<Rightarrow> string" where
  "getNextVersion existingVersions =
     (if length existingVersions = 0 then ''v1''
      else
        (let versionNumbers = List.map_filter (\<lambda>v. parseInt10 (remove1 (CHR ''v'') v)) existingVersions;
             maxVersion = fold js_max versionNumbers (Fin 0)
         in ''v'' @ js_toString (js_add1 maxVersion)))"

record VersionEntryParams =
  ve_accountId :: string
  ve_assistantId :: string
  ve_version :: string
  ve_briefingContent :: string
  ve_promptContent :: string
  ve_filePath :: string
  ve_status :: string

definition createVersionEntry :: "VersionEntryParams \<Rightarrow> VersionSheetRow" where
  "createVersionEntry params =
     \<lparr>vs_account_id = ve_accountId params, vs_assistant_id = ve_assistantId params,
      vs_version = ve_version params,
      vs_briefing_hash = hashContent (ve_briefingContent params),
      vs_prompt_hash = hashContent (ve_promptContent params),
      vs_file_path = ve_filePath params, vs_status = ve_status params\<rparr>"

section \<open>Durable version counter (pipeline-runs.ts and the SQL function)\<close>

text \<open>
  The column \<open>version_number\<close> is an \<open>INTEGER\<close> of the store, a 32-bit word read as a
  signed value. The SQL function computes \<open>COALESCE(MAX(version_number), 0) + 1\<close> over
  the assistant's rows in the same type, so that it fails with an overflow error when
  the largest stored number is \<open>2^31 - 1\<close>.
\<close>

definition get_next_version_number :: "32 word list \<Rightarrow> err + int" where
  "get_next_version_number rows =
     (let m = (case map sint rows of [] \<Rightarrow> 0 | r # rs \<Rightarrow> fold max rs r)
      in if m + 1 \<le> 2147483647 then Inr (m + 1) else Inl ''integer out of range'')"

definition getLatestPromptVersion :: "'fd env \<Rightarrow> string \<Rightarrow> world \<Rightarrow> (err + int option) \<times> world" where
  \<comment> \<open>the \<open>version_number\<close> of the newest row, \<open>None\<close> for no row (code PGRST116)\<close>
  "getLatestPromptVersion env assistantId w =
     (case getSupabaseClient env of
        Some e \<Rightarrow> (Inl e, w)
      | None \<Rightarrow>
          (case select_error env assistantId of
             Some e \<Rightarrow> (Inl e, logger_error ''Failed to get latest prompt version'' w)
           | None \<Rightarrow>
               (case map sint (prompt_versions env assistantId) of
                  [] \<Rightarrow> (Inr None, w)
                | r # rs \<Rightarrow> (Inr (Some (fold max rs r)), w))))"

definition rpc_get_next_version_number :: "'fd env \<Rightarrow> string \<Rightarrow> err + int" where
  \<comment> \<open>\<open>supabase.rpc("get_next_version_number", ...)\<close>: the call may fail, or the function\<close>
  "rpc_get_next_version_number env assistantId =
     (case rpc_error env assistantId of
        Some e \<Rightarrow> Inl e
      | None \<Rightarrow> get_next_version_number (prompt_versions env assistantId))"

definition getNextVersionNumber :: "'fd env \<Rightarrow> string \<Rightarrow> world \<Rightarrow> (err + int) \<times> world" where
  "getNextVersionNumber env assistantId w =
     (case getSupabaseClient env of
        Some e \<Rightarrow> (Inl e, w)
      | None \<Rightarrow>
          (case rpc_get_next_version_number env assistantId of
             Inl e \<Rightarrow>
               (case getLatestPromptVersion env assistantId
                       (logger_error ''Failed to get next version number'' w) of
                  (Inl e', w1) \<Rightarrow> (Inl e', w1)
                | (Inr latest, w1) \<Rightarrow> (Inr (or_int latest 0 + 1), w1))
           | Inr data \<Rightarrow> (Inr data, w)))"

section \<open>Pipeline orchestrator (pipeline.ts)\<close>

record PipelineConfig =
  cfg_maxIterations :: int
  enableCostTracking :: bool
  enableSupabase :: bool
  googleSpreadsheetName :: string
  googleFolderName :: string

record PartialPipelineConfig =
  part_maxIterations :: "int option"
  part_enableCostTracking :: "bool option"
  part_enableSupabase :: "bool option"
  part_googleSpreadsheetName :: "string option"
  part_googleFolderName :: "string option"

definition DEFAULT_CONFIG :: PipelineConfig where
  "DEFAULT_CONFIG =
     \<lparr>cfg_maxIterations = 1, enableCostTracking = True, enableSupabase = True,
      googleSpreadsheetName = ''Mermaid Prompt Builder - Costs'',
      googleFolderName = ''Mermaid Prompt Builder''\<rparr>"

definition mergeConfig :: "PartialPipelineConfig \<Rightarrow> PipelineConfig" where
  \<comment> \<open>\<open>{ ...DEFAULT_CONFIG, ...config }\<close>\<close>
  "mergeConfig config =
     \<lparr>cfg_maxIterations = case_option (cfg_maxIterations DEFAULT_CONFIG) id (part_maxIterations config),
      enableCostTracking = case_option (enableCostTracking DEFAULT_CONFIG) id (part_enableCostTracking config),
      enableSupabase = case_option (enableSupabase DEFAULT_CONFIG) id (part_enableSupabase config),
      googleSpreadsheetName =
        case_option (googleSpreadsheetName DEFAULT_CONFIG) id (part_googleSpreadsheetName config),
      googleFolderName = case_option (googleFolderName DEFAULT_CONFIG) id (part_googleFolderName config)\<rparr>"

record SupabaseContext =
  account :: SupabaseAccount
  assistant :: SupabaseAssistant
  pipelineRun :: PipelineRun
  stepRecords :: "string \<rightharpoonup> SupabasePipelineStep"

record PipelineStep =
  ps_name :: string
  ps_status :: StepStatus
  ps_error :: "string option"

record PipelineResult =
  pr_status :: StepStatus
  pr_accountId :: string
  pr_assistantId :: string
  generatedPrompt :: "GeneratedPrompt option"
  injectionFile :: "InjectionFile option"
  costEntries :: "CostEntry list"
  steps :: "PipelineStep list"
  pr_error :: "string option"

definition stepDefinitions :: "(string \<times> nat) list" where
  "stepDefinitions =
     [(''Load Account Config'', 1), (''Generate Prompt'', 2), (''Determine Version'', 3),
      (''Create Injection File'', 4), (''Save Prompt Version'', 5), (''Log Costs'', 6)]"

definition initializeSupabaseContext ::
  "'fd env \<Rightarrow> 'fd PipelineBriefingInput \<Rightarrow> err + SupabaseContext" where
  "initializeSupabaseContext env payload =
     (case getOrCreateAccount env (pi_accountId payload) (pi_accountId payload) of
        Inl e \<Rightarrow> Inl e
      | Inr acc \<Rightarrow>
          (case getOrCreateAssistant env (sa_id acc) (b_assistantId (briefing payload))
                  (b_assistantId (briefing payload)) of
             Inl e \<Rightarrow> Inl e
           | Inr ast \<Rightarrow>
               (case createPipelineRun env
                       \<lparr>pri_account_id = sa_id acc, pri_assistant_id = sas_id ast,
                        pri_status = running, pri_briefing_data = briefing payload\<rparr> of
                  Inl e \<Rightarrow> Inl e
                | Inr run \<Rightarrow>
                    (case createPipelineSteps env
                            (map (\<lambda>s. \<lparr>psi_pipeline_run_id = run_id run, psi_step_name = fst s,
                                        psi_step_order = snd s, psi_status = pending\<rparr>)
                               stepDefinitions) of
                       Inl e \<Rightarrow> Inl e
                     | Inr createdSteps \<Rightarrow>
                         Inr \<lparr>account = acc, assistant = ast, pipelineRun = run,
                              stepRecords =
                                foldl (\<lambda>m step. m(sps_step_name step \<mapsto> step)) Map.empty createdSteps\<rparr>))))"

text \<open>
  \<open>logStep\<close> is the closure of \<open>runPipeline\<close> over \<open>steps\<close>, \<open>supabaseContext\<close> and the
  configuration; the array \<open>steps\<close> is threaded beside the world.
\<close>

definition logStep ::
  "'fd env \<Rightarrow> PipelineConfig \<Rightarrow> SupabaseContext option \<Rightarrow> string \<Rightarrow> StepStatus \<Rightarrow> string option
     \<Rightarrow> PipelineStep list \<times> world \<Rightarrow> PipelineStep list \<times> world" where
  "logStep env pipelineConfig supabaseContext name status error sw =
     (let steps1 = fst sw @ [\<lparr>ps_name = name, ps_status = status, ps_error = error\<rparr>];
          w = snd sw
      in case supabaseContext of
           None \<Rightarrow> (steps1, w)
         | Some ctx \<Rightarrow>
             if enableSupabase pipelineConfig then
               (case stepRecords ctx name of
                  None \<Rightarrow> (steps1, w)
                | Some stepRecord \<Rightarrow>
                    (case (if status = running then startPipelineStep env (sps_id stepRecord)
                           else if status = completed then completePipelineStep env (sps_id stepRecord)
                           else if status = failed \<and> truthy_str error
                             then failPipelineStep env (sps_id stepRecord) (the error)
                           else Inr ()) of
                       Inl e \<Rightarrow> (steps1, logger_warn ''Failed to update Supabase step'' w)
                     | Inr _ \<Rightarrow> (steps1, w)))
             else (steps1, w))"

fun saveCostsLoop ::
  "'fd env \<Rightarrow> SupabaseContext \<Rightarrow> string \<Rightarrow> nat \<Rightarrow> CostEntry list \<Rightarrow> world \<Rightarrow> world" where
  "saveCostsLoop env ctx operation i [] w = w"
| "saveCostsLoop env ctx operation i (cost # rest) w =
     (case createSupabaseCostEntry env i
             \<lparr>cei_pipeline_run_id = run_id (pipelineRun ctx),
              cei_pipeline_step_id =
                (case stepRecords ctx ''Generate Prompt'' of
                   None \<Rightarrow> None
                 | Some stepRecord \<Rightarrow> if sps_id stepRecord = [] then None else Some (sps_id stepRecord)),
              cei_account_id = sa_id (account ctx), cei_assistant_id = sas_id (assistant ctx),
              cei_operation = operation, cei_model = ce_model cost,
              cei_input_tokens = ce_inputTokens cost, cei_output_tokens = ce_outputTokens cost,
              cei_cache_read_tokens = 0, cei_cache_write_tokens = 0,
              cei_cost_usd = ce_costUsd cost\<rparr> of
        Inl e \<Rightarrow>
          saveCostsLoop env ctx operation (Suc i) rest
            (logger_warn ''Failed to save cost entry to Supabase'' w)
      | Inr _ \<Rightarrow> saveCostsLoop env ctx operation (Suc i) rest w)"

definition saveCostsToSupabase :: "'fd env \<Rightarrow> SupabaseContext \<Rightarrow> string \<Rightarrow> world \<Rightarrow> world" where
  "saveCostsToSupabase env ctx operation w = saveCostsLoop env ctx operation 0 (getSessionCosts w) w"

text \<open>Step 3 of \<open>runPipeline\<close>, between its two \<open>logStep\<close> calls: the version assigner.\<close>

definition determineVersion ::
  "'fd env \<Rightarrow> PipelineConfig \<Rightarrow> SupabaseContext option \<Rightarrow> world \<Rightarrow> (string \<times> int) \<times> world" where
  "determineVersion env pipelineConfig supabaseContext w =
     (case supabaseContext of
        None \<Rightarrow> ((''v1'', 1), w)
      | Some ctx \<Rightarrow>
          if enableSupabase pipelineConfig then
            (case getNextVersionNumber env (sas_id (assistant ctx)) w of
               (Inl e, w1) \<Rightarrow>
                 ((''v1'', 1), logger_warn ''Failed to get next version from Supabase, using v1'' w1)
             | (Inr versionNumber, w1) \<Rightarrow> ((''v'' @ string_of_int versionNumber, versionNumber), w1))
          else ((''v1'', 1), w))"

definition createFailedResult ::
  "'fd env \<Rightarrow> 'fd PipelineBriefingInput \<Rightarrow> PipelineStep list \<Rightarrow> string option
     \<Rightarrow> SupabaseContext option \<Rightarrow> world \<Rightarrow> PipelineResult \<times> world" where
  "createFailedResult env payload steps0 error supabaseContext w =
     (let w1 = (case supabaseContext of
                  None \<Rightarrow> w
                | Some ctx \<Rightarrow>
                    (case failPipelineRun env (run_id (pipelineRun ctx)) error of
                       Inl e \<Rightarrow> logger_warn ''Failed to mark pipeline run as failed in Supabase'' w
                     | Inr _ \<Rightarrow> w))
      in (\<lparr>pr_status = failed, pr_accountId = pi_accountId payload,
           pr_assistantId = b_assistantId (briefing payload),
           generatedPrompt = None, injectionFile = None,
           costEntries = getSessionCosts w1, steps = steps0, pr_error = error\<rparr>, w1))"

definition logCostsToSheets ::
  "'fd env \<Rightarrow> string \<Rightarrow> string \<Rightarrow> PipelineConfig \<Rightarrow> string \<Rightarrow> 'fd Briefing \<Rightarrow> string \<Rightarrow> world
     \<Rightarrow> err + unit" where
  "logCostsToSheets env accountId assistantId config version b promptContent w =
     (case findOrCreateFolder env (googleFolderName config) of
        Inl e \<Rightarrow> Inl e
      | Inr folderId \<Rightarrow>
          (case findCostSpreadsheet env (googleSpreadsheetName config) folderId of
             Inl e \<Rightarrow> Inl e
           | Inr found \<Rightarrow>
               (case (if truthy_str found then Inr (the found)
                      else createCostSpreadsheet env (googleSpreadsheetName config) folderId) of
                  Inl e \<Rightarrow> Inl e
                | Inr spreadsheetId \<Rightarrow>
                    (let costs = getSessionCosts w
                     in case (if length costs > 0 then appendCostEntries env spreadsheetId costs
                              else Inr ()) of
                          Inl e \<Rightarrow> Inl e
                        | Inr _ \<Rightarrow>
                            (let versionEntry = createVersionEntry
                                   \<lparr>ve_accountId = accountId, ve_assistantId = assistantId,
                                    ve_version = version, ve_briefingContent = stringify env b,
                                    ve_promptContent = promptContent,
                                    ve_filePath = ''lib/accounts/'' @ accountId @ ''/assistants/''
                                       @ assistantId @ ''/'' @ version @ ''/injection.ts'',
                                    ve_status = ''final''\<rparr>
                             in case appendVersionEntries env spreadsheetId [versionEntry] of
                                  Inl e \<Rightarrow> Inl e
                                | Inr _ \<Rightarrow>
                                    updateSummary env spreadsheetId
                                      \<lparr>totalCost = foldl (\<lambda>sum c. js_plus sum (ce_costUsd c)) (Num 0) costs,
                                       totalInputTokens = foldl (\<lambda>sum c. sum + ce_inputTokens c) 0 costs,
                                       totalOutputTokens = foldl (\<lambda>sum c. sum + ce_outputTokens c) 0 costs,
                                       totalOperations = length costs\<rparr>)))))"

text \<open>
  The blocks of \<open>runPipeline\<close>, in the order of the source: step 0 (the
  durable-persistence context), step 5 (save the prompt version), step 6 (log the
  costs), the completion of the durable run, and the outer \<open>catch\<close>.
\<close>

definition initContext ::
  "'fd env \<Rightarrow> PipelineConfig \<Rightarrow> 'fd PipelineBriefingInput \<Rightarrow> world
     \<Rightarrow> SupabaseContext option \<times> world" where
  "initContext env pipelineConfig payload w =
     (if enableSupabase pipelineConfig then
        (case initializeSupabaseContext env payload of
           Inl e \<Rightarrow>
             (None, logger_warn
                ''Failed to initialize Supabase context, continuing without persistence'' w)
         | Inr ctx \<Rightarrow> (Some ctx, w))
      else (None, w))"

definition promptVersionRow ::
  "'fd env \<Rightarrow> SupabaseContext \<Rightarrow> 'fd PipelineBriefingInput \<Rightarrow> GeneratedPrompt \<Rightarrow> InjectionFile
     \<Rightarrow> string \<Rightarrow> int \<Rightarrow> PromptVersionInsert" where
  \<comment> \<open>the row that step 5 passes to \<open>createPromptVersion\<close>\<close>
  "promptVersionRow env ctx payload gp injFile version versionNumber =
     \<lparr>pvi_pipeline_run_id = run_id (pipelineRun ctx),
      pvi_account_id = sa_id (account ctx),
      pvi_assistant_id = sas_id (assistant ctx),
      pvi_version = version, pvi_version_number = versionNumber,
      pvi_prompt_content = gp_content gp,
      pvi_prompt_hash = hashContent (gp_content gp),
      pvi_injection_content = or_str (if_promptContent injFile) (gp_content gp),
      pvi_injection_file_path =
        (if truthy_str (if_filePath injFile) then if_filePath injFile else None),
      pvi_briefing_hash = hashContent (stringify env (briefing payload)),
      pvi_total_iterations = 1, pvi_status = ''final''\<rparr>"

definition stepSavePromptVersion ::
  "'fd env \<Rightarrow> PipelineConfig \<Rightarrow> SupabaseContext option \<Rightarrow> 'fd PipelineBriefingInput
     \<Rightarrow> GeneratedPrompt \<Rightarrow> InjectionFile \<Rightarrow> string \<Rightarrow> int
     \<Rightarrow> PipelineStep list \<times> world \<Rightarrow> PipelineStep list \<times> world" where
  "stepSavePromptVersion env pipelineConfig supabaseContext payload gp injFile version versionNumber sw =
     (case supabaseContext of
        None \<Rightarrow> sw
      | Some ctx \<Rightarrow>
          if enableSupabase pipelineConfig then
            (let sw1 = logStep env pipelineConfig supabaseContext ''Save Prompt Version'' running None sw
             in case createPromptVersion env
                       (promptVersionRow env ctx payload gp injFile version versionNumber) of
                  Inl e \<Rightarrow>
                    logStep env pipelineConfig supabaseContext ''Save Prompt Version'' failed
                      (Some ''Failed to save to Supabase (non-fatal)'')
                      (fst sw1, logger_warn ''Failed to save prompt version to Supabase'' (snd sw1))
                | Inr _ \<Rightarrow>
                    logStep env pipelineConfig supabaseContext ''Save Prompt Version'' completed None sw1)
          else sw)"

definition stepLogCosts ::
  "'fd env \<Rightarrow> PipelineConfig \<Rightarrow> SupabaseContext option \<Rightarrow> 'fd PipelineBriefingInput
     \<Rightarrow> GeneratedPrompt \<Rightarrow> string \<Rightarrow> PipelineStep list \<times> world \<Rightarrow> PipelineStep list \<times> world" where
  "stepLogCosts env pipelineConfig supabaseContext payload gp version sw =
     (if enableCostTracking pipelineConfig then
        (let sw1 = logStep env pipelineConfig supabaseContext ''Log Costs'' running None sw
         in case logCostsToSheets env (pi_accountId payload) (b_assistantId (briefing payload))
                   pipelineConfig version (briefing payload) (gp_content gp) (snd sw1) of
              Inl e \<Rightarrow>
                logStep env pipelineConfig supabaseContext ''Log Costs'' failed
                  (Some ''Failed to log to Google Sheets (non-fatal)'')
                  (fst sw1, logger_warn ''Failed to log costs to Google Sheets'' (snd sw1))
            | Inr _ \<Rightarrow> logStep env pipelineConfig supabaseContext ''Log Costs'' completed None sw1)
      else sw)"

definition completeRun ::
  "'fd env \<Rightarrow> PipelineConfig \<Rightarrow> SupabaseContext option \<Rightarrow> world \<Rightarrow> world" where
  "completeRun env pipelineConfig supabaseContext w =
     (case supabaseContext of
        None \<Rightarrow> w
      | Some ctx \<Rightarrow>
          if enableSupabase pipelineConfig then
            (case completePipelineRun env (run_id (pipelineRun ctx)) of
               Inl e \<Rightarrow> logger_warn ''Failed to complete pipeline run in Supabase'' w
             | Inr _ \<Rightarrow> w)
          else w)"

definition catchFatal ::
  "'fd env \<Rightarrow> 'fd PipelineBriefingInput \<Rightarrow> PipelineStep list \<Rightarrow> err
     \<Rightarrow> SupabaseContext option \<Rightarrow> world \<Rightarrow> PipelineResult \<times> world" where
  \<comment> \<open>the outer \<open>catch (error)\<close> of \<open>runPipeline\<close>\<close>
  "catchFatal env payload steps0 errorMessage supabaseContext w =
     createFailedResult env payload steps0 (Some errorMessage) supabaseContext
       (logger_error ''Pipeline failed'' w)"

definition runPipeline ::
  "'fd env \<Rightarrow> 'fd PipelineBriefingInput \<Rightarrow> PartialPipelineConfig \<Rightarrow> world
     \<Rightarrow> PipelineResult \<times> world" where
  "runPipeline env payload config w0 =
     (let pipelineConfig = mergeConfig config;
          cw = initContext env pipelineConfig payload (resetSession w0);
          supabaseContext = fst cw;
          sw1 = logStep env pipelineConfig supabaseContext ''Load Account Config'' running None
                  ([], snd cw)
      in case loadAccountConfig env (pi_accountId payload) of
           Inl e \<Rightarrow> catchFatal env payload (fst sw1) e supabaseContext (snd sw1)
         | Inr None \<Rightarrow>
             (let sw2 = logStep env pipelineConfig supabaseContext ''Load Account Config'' failed
                          (Some ''Account not found'') sw1
              in createFailedResult env payload (fst sw2) (Some ''Account not found'')
                   supabaseContext (snd sw2))
         | Inr (Some accountConfig) \<Rightarrow>
             if \<not> fst (validateApiKeyConfigured env) then
               (let sw2 = logStep env pipelineConfig supabaseContext ''Load Account Config'' failed
                            (snd (validateApiKeyConfigured env)) sw1
                in createFailedResult env payload (fst sw2) (snd (validateApiKeyConfigured env))
                     supabaseContext (snd sw2))
             else
               (let sw2 = logStep env pipelineConfig supabaseContext ''Load Account Config'' completed
                            None sw1;
                    sw3 = logStep env pipelineConfig supabaseContext ''Generate Prompt'' running None sw2
                in case generatePromptWithIteration env (briefing payload) (pi_accountId payload)
                          (Some (cfg_maxIterations pipelineConfig)) (snd sw3) of
                     (Inl e, w4) \<Rightarrow> catchFatal env payload (fst sw3) e supabaseContext w4
                   | (Inr gp, w4) \<Rightarrow>
                       (let sw5 = logStep env pipelineConfig supabaseContext ''Generate Prompt''
                                    completed None (fst sw3, w4);
                            w6 = (case supabaseContext of
                                    None \<Rightarrow> snd sw5
                                  | Some ctx \<Rightarrow>
                                      if enableSupabase pipelineConfig
                                      then saveCostsToSupabase env ctx ''prompt_generation'' (snd sw5)
                                      else snd sw5);
                            sw7 = logStep env pipelineConfig supabaseContext ''Determine Version''
                                    running None (fst sw5, w6);
                            vw = determineVersion env pipelineConfig supabaseContext (snd sw7);
                            version = fst (fst vw);
                            versionNumber = snd (fst vw);
                            sw8 = logStep env pipelineConfig supabaseContext ''Determine Version''
                                    completed None (fst sw7, snd vw);
                            sw9 = logStep env pipelineConfig supabaseContext ''Create Injection File''
                                    running None sw8
                        in case createInjectionFromPrompt env gp version of
                             Inl e \<Rightarrow> catchFatal env payload (fst sw9) e supabaseContext (snd sw9)
                           | Inr injFile \<Rightarrow>
                               (let sw10 = logStep env pipelineConfig supabaseContext
                                             ''Create Injection File'' completed None sw9;
                                    sw11 = stepSavePromptVersion env pipelineConfig supabaseContext
                                             payload gp injFile version versionNumber sw10;
                                    sw12 = stepLogCosts env pipelineConfig supabaseContext payload
                                             gp version sw11;
                                    w13 = completeRun env pipelineConfig supabaseContext (snd sw12)
                                in (\<lparr>pr_status = completed, pr_accountId = pi_accountId payload,
                                     pr_assistantId = b_assistantId (briefing payload),
                                     generatedPrompt = Some gp, injectionFile = Some injFile,
                                     costEntries = getSessionCosts w13, steps = fst sw12,
                                     pr_error = None\<rparr>, w13)))))"

section \<open>A stub environment\<close>

text \<open>
  A completion provider that echoes fixed strings and reports 100 input and 50
  output tokens on every call, with collaborators that all succeed.
\<close>

definition stub_complete :: "nat \<Rightarrow> request \<Rightarrow> err + MessageResponse" where
  "stub_complete i req =
     Inr \<lparr>content = (case req of
                       GeneratePromptFromBriefing _ _ \<Rightarrow> ''PROMPT''
                     | AnalyzePrompt _ _ \<Rightarrow> ''FEEDBACK''
                     | ImprovePrompt _ _ _ _ \<Rightarrow> ''IMPROVED''),
          usage = \<lparr>inputTokens = 100, outputTokens = 50,
                   cacheReadTokens = None, cacheWriteTokens = None\<rparr>,
          stopReason = Some ''end_turn'', mr_model = ''claude-opus-4-5-20251101''\<rparr>"

definition stub_env :: "unit env" where
  "stub_env =
     \<lparr>complete = stub_complete,
      formatBriefingAsMarkdown = (\<lambda>b. ''# Briefing''),
      getPRISMASystemPrompt = ''PRISMA'',
      stringify = (\<lambda>b. ''{}''),
      loadAccountConfig = (\<lambda>a. Inr (Some \<lparr>ac_id = a, ac_name = a, ac_assistants = []\<rparr>)),
      validateApiKeyConfigured = (True, None),
      createInjectionFromPrompt = (\<lambda>gp v.
         Inr \<lparr>if_accountId = gp_accountId gp, if_assistantId = gp_assistantId gp, if_version = v,
              if_filePath = Some ''injection.ts'', if_promptContent = Some (gp_content gp)\<rparr>),
      getSupabaseClient = None,
      getOrCreateAccount = (\<lambda>slug name. Inr \<lparr>sa_id = ''acc-uuid''\<rparr>),
      getOrCreateAssistant = (\<lambda>a e n. Inr \<lparr>sas_id = ''ast-uuid''\<rparr>),
      createPipelineRun = (\<lambda>r. Inr \<lparr>run_id = ''run-uuid''\<rparr>),
      createPipelineSteps = (\<lambda>ss. Inr (map (\<lambda>s. \<lparr>sps_id = ''step-'' @ psi_step_name s,
                                                  sps_step_name = psi_step_name s\<rparr>) ss)),
      startPipelineStep = (\<lambda>i. Inr ()),
      completePipelineStep = (\<lambda>i. Inr ()),
      failPipelineStep = (\<lambda>i e. Inr ()),
      createSupabaseCostEntry = (\<lambda>i c. Inr ()),
      prompt_versions = (\<lambda>a. []),
      rpc_error = (\<lambda>a. None),
      select_error = (\<lambda>a. None),
      createPromptVersion = (\<lambda>v. Inr ()),
      completePipelineRun = (\<lambda>i. Inr ()),
      failPipelineRun = (\<lambda>i e. Inr ()),
      findOrCreateFolder = (\<lambda>n. Inr ''folder''),
      findCostSpreadsheet = (\<lambda>n f. Inr (Some ''sheet'')),
      createCostSpreadsheet = (\<lambda>n f. Inr ''sheet''),
      appendCostEntries = (\<lambda>s cs. Inr ()),
      appendVersionEntries = (\<lambda>s vs. Inr ()),
      updateSummary = (\<lambda>s sm. Inr ())\<rparr>"

definition stub_briefing :: "unit Briefing" where
  "stub_briefing = \<lparr>b_id = ''b1'', b_accountId = ''acme'', b_assistantId = ''bot'', formData = ()\<rparr>"

definition stub_payload :: "unit PipelineBriefingInput" where
  "stub_payload = \<lparr>briefing = stub_briefing, pi_accountId = ''acme'', pi_assistantId = ''bot''\<rparr>"

definition no_config :: PartialPipelineConfig where
  "no_config = \<lparr>part_maxIterations = None, part_enableCostTracking = None,
                part_enableSupabase = None, part_googleSpreadsheetName = None,
                part_googleFolderName = None\<rparr>"

definition world0 :: world where
  "world0 = \<lparr>sessionUsage = \<lparr>inputTokens = 0, outputTokens = 0,
                              cacheReadTokens = Some 0, cacheWriteTokens = Some 0\<rparr>,
             sessionCosts = [], logs = [], calls = []\<rparr>"

section \<open>Predicates used to state the properties\<close>

definition request_operation :: "request \<Rightarrow> CostOperation" where
  "request_operation req =
     (case req of
        GeneratePromptFromBriefing _ _ \<Rightarrow> prompt_generation
      | AnalyzePrompt _ _ \<Rightarrow> prompt_analysis
      | ImprovePrompt _ _ _ _ \<Rightarrow> prompt_improvement)"

text \<open>
  \<open>charged op u w w'\<close>: from \<open>w\<close> to \<open>w'\<close> exactly one cost entry of operation \<open>op\<close> with
  the token counts of \<open>u\<close> was appended to the ledger and \<open>u\<close> was added to the totals;
  the log and the calls are unchanged. \<open>step_effect env req w res w'\<close>: the request
  \<open>req\<close> was sent from \<open>w\<close>; a provider error is the result and nothing is charged, an
  answer is returned as text and usage and is charged.
\<close>


definition charged :: "CostOperation \<Rightarrow> TokenUsage \<Rightarrow> world \<Rightarrow> world \<Rightarrow> bool" where
  "charged op u w w' \<longleftrightarrow>
     calls w' = calls w \<and> logs w' = logs w \<and>
     (\<exists>entry. sessionCosts w' = sessionCosts w @ [entry] \<and> ce_operation entry = op \<and>
        ce_inputTokens entry = inputTokens u \<and> ce_outputTokens entry = outputTokens u) \<and>
     inputTokens (sessionUsage w') = inputTokens (sessionUsage w) + inputTokens u \<and>
     outputTokens (sessionUsage w') = outputTokens (sessionUsage w) + outputTokens u"

definition step_effect ::
  "'fd env \<Rightarrow> request \<Rightarrow> world \<Rightarrow> (err + string \<times> TokenUsage) \<Rightarrow> world \<Rightarrow> bool" where
  "step_effect env req w res w' \<longleftrightarrow>
     (case complete env (length (calls w)) req of
        Inl e \<Rightarrow> res = Inl e \<and> w' = w\<lparr>calls := calls w @ [req]\<rparr>
      | Inr r \<Rightarrow> res = Inr (content r, usage r) \<and>
          charged (request_operation req) (usage r) (w\<lparr>calls := calls w @ [req]\<rparr>) w')"

definition frame :: "world \<Rightarrow> world \<Rightarrow> bool" where
  "frame w w' \<longleftrightarrow>
     sessionCosts w' = sessionCosts w \<and> sessionUsage w' = sessionUsage w \<and>
     calls w' = calls w \<and> (\<exists>l. logs w' = logs w @ l)"

definition modlogs :: "world \<Rightarrow> world \<Rightarrow> bool" where
  "modlogs w v \<longleftrightarrow>
     sessionUsage v = sessionUsage w \<and> sessionCosts v = sessionCosts w \<and> calls v = calls w"

definition failing_second :: "nat \<Rightarrow> request \<Rightarrow> err + MessageResponse" where
  "failing_second i req = (if i = 1 then Inl ''overloaded'' else stub_complete i req)"

definition flaky_env :: "unit env" where
  "flaky_env = stub_env\<lparr>complete := failing_second\<rparr>"

text \<open>
  Sinks that fail on what this run sends them: the insert of a prompt version is
  refused for version number 1 (as for a duplicate), and appending the cost rows to
  the spreadsheet fails while the rest of the spreadsheet flush would succeed.
\<close>

definition broken_sinks_env :: "unit env" where
  "broken_sinks_env =
     stub_env\<lparr>createPromptVersion :=
                 (\<lambda>row. if pvi_version_number row = 1 then Inl ''duplicate key'' else Inr ()),
              appendCostEntries := (\<lambda>s cs. Inl ''quota exceeded'')\<rparr>"

definition stub_prompt :: GeneratedPrompt where
  "stub_prompt =
     \<lparr>gp_accountId = ''acme'', gp_assistantId = ''bot'', gp_content = ''IMPROVED'',
      gp_version = ''draft'', gp_briefingId = ''b1'', gp_iterations = 1,
      gp_model = ''claude-opus-4-5-20251101'',
      simpleIterations =
        [\<lparr>iterationNumber = 1, feedback = ''FEEDBACK'',
          changes = ''Iteration 1 improvements applied'', promptSnapshot = ''IMPROVED''\<rparr>]\<rparr>"

fun well_sequenced :: "string list \<Rightarrow> PipelineStep list \<Rightarrow> bool" where
  "well_sequenced names [] = True"
| "well_sequenced [] (s # ss) = False"
| "well_sequenced (n # names) (s # ss) =
     (if ps_name s = n then
        ps_status s = running \<and>
        (case ss of
           [] \<Rightarrow> True
         | t # ts \<Rightarrow> ps_name t = n \<and> (ps_status t = completed \<or> ps_status t = failed) \<and>
                     well_sequenced names ts)
      else well_sequenced names (s # ss))"

definition no_db_env :: "unit env" where
  "no_db_env = stub_env\<lparr>getOrCreateAccount := (\<lambda>slug name. Inl ''db down'')\<rparr>"

definition stub_ctx :: SupabaseContext where
  "stub_ctx = \<lparr>account = \<lparr>sa_id = ''acc-uuid''\<rparr>, assistant = \<lparr>sas_id = ''ast-uuid''\<rparr>,
               pipelineRun = \<lparr>run_id = ''run-uuid''\<rparr>, stepRecords = Map.empty\<rparr>"

definition versions_env :: "unit env" where
  "versions_env = stub_env\<lparr>prompt_versions := (\<lambda>a. [1, 2])\<rparr>"

definition unreadable_env :: "unit env" where
  "unreadable_env = stub_env\<lparr>rpc_error := (\<lambda>a. Some ''rpc failed''),
                              select_error := (\<lambda>a. Some ''select failed'')\<rparr>"

definition rpc_down_env :: "unit env" where
  "rpc_down_env = stub_env\<lparr>prompt_versions := (\<lambda>a. [1, 2]),
                            rpc_error := (\<lambda>a. Some ''rpc failed'')\<rparr>"

text \<open>
  After the refinement loop, what a run passes to its collaborators depends on the
  world only through the session ledger: \<open>durableContext\<close> is the context that step 0
  establishes, \<open>assignedVersion\<close> the version and version number that step 3 assigns,
  and \<open>ledgerWorld\<close> the world in which the refinement loop, started from the reset
  ledger, leaves the ledger (lemmas \<open>initContext_fst\<close>, \<open>determineVersion_fst\<close>,
  \<open>runPipeline_after_generation\<close>).
\<close>

definition durableContext ::
  "'fd env \<Rightarrow> 'fd PipelineBriefingInput \<Rightarrow> PartialPipelineConfig \<Rightarrow> SupabaseContext option" where
  "durableContext env payload config = fst (initContext env (mergeConfig config) payload world0)"

definition assignedVersion ::
  "'fd env \<Rightarrow> 'fd PipelineBriefingInput \<Rightarrow> PartialPipelineConfig \<Rightarrow> string \<times> int" where
  "assignedVersion env payload config =
     fst (determineVersion env (mergeConfig config) (durableContext env payload config) world0)"

definition ledgerWorld ::
  "'fd env \<Rightarrow> 'fd PipelineBriefingInput \<Rightarrow> PartialPipelineConfig \<Rightarrow> world \<Rightarrow> world" where
  "ledgerWorld env payload config w0 =
     snd (generatePromptWithIteration env (briefing payload) (pi_accountId payload)
            (Some (cfg_maxIterations (mergeConfig config))) (resetSession w0))"

text \<open>
  The entries that \<open>logStep\<close> pushes. \<open>passed name\<close> is the block of a step that ran to
  its end; \<open>save_trace\<close> and \<open>log_trace\<close> are the blocks of steps 5 and 6, absent when
  the step is switched off, ending in \<open>failed\<close> when the sink of the step refused what
  this run sent it. \<open>step_trace\<close> is the whole array: a step is entered only when all
  steps before it came to their end, and the four steps before Save Prompt Version end
  the run when they fail.
\<close>

definition step_entry :: "string \<Rightarrow> StepStatus \<Rightarrow> string option \<Rightarrow> PipelineStep" where
  "step_entry name status error = \<lparr>ps_name = name, ps_status = status, ps_error = error\<rparr>"

definition passed :: "string \<Rightarrow> PipelineStep list" where
  "passed name = [step_entry name running None, step_entry name completed None]"

definition save_trace ::
  "'fd env \<Rightarrow> 'fd PipelineBriefingInput \<Rightarrow> PartialPipelineConfig \<Rightarrow> GeneratedPrompt \<Rightarrow> InjectionFile
     \<Rightarrow> PipelineStep list" where
  "save_trace env payload config gp f =
     (case durableContext env payload config of
        None \<Rightarrow> []
      | Some ctx \<Rightarrow>
          [step_entry ''Save Prompt Version'' running None,
           (case createPromptVersion env
                   (promptVersionRow env ctx payload gp f (fst (assignedVersion env payload config))
                      (snd (assignedVersion env payload config))) of
              Inl e \<Rightarrow> step_entry ''Save Prompt Version'' failed
                         (Some ''Failed to save to Supabase (non-fatal)'')
            | Inr _ \<Rightarrow> step_entry ''Save Prompt Version'' completed None)])"

definition log_trace ::
  "'fd env \<Rightarrow> 'fd PipelineBriefingInput \<Rightarrow> PartialPipelineConfig \<Rightarrow> GeneratedPrompt \<Rightarrow> world
     \<Rightarrow> PipelineStep list" where
  "log_trace env payload config gp w0 =
     (if enableCostTracking (mergeConfig config) then
        [step_entry ''Log Costs'' running None,
         (case logCostsToSheets env (pi_accountId payload) (b_assistantId (briefing payload))
                 (mergeConfig config) (fst (assignedVersion env payload config))
                 (briefing payload) (gp_content gp) (ledgerWorld env payload config w0) of
            Inl e \<Rightarrow> step_entry ''Log Costs'' failed
                       (Some ''Failed to log to Google Sheets (non-fatal)'')
          | Inr _ \<Rightarrow> step_entry ''Log Costs'' completed None)]
      else [])"

definition step_trace ::
  "'fd env \<Rightarrow> 'fd PipelineBriefingInput \<Rightarrow> PartialPipelineConfig \<Rightarrow> world \<Rightarrow> PipelineStep list" where
  "step_trace env payload config w0 =
     (case loadAccountConfig env (pi_accountId payload) of
        Inl e \<Rightarrow> [step_entry ''Load Account Config'' running None]
      | Inr None \<Rightarrow>
          [step_entry ''Load Account Config'' running None,
           step_entry ''Load Account Config'' failed (Some ''Account not found'')]
      | Inr (Some accountConfig) \<Rightarrow>
          if fst (validateApiKeyConfigured env) then
            passed ''Load Account Config'' @
            (case fst (generatePromptWithIteration env (briefing payload) (pi_accountId payload)
                         (Some (cfg_maxIterations (mergeConfig config))) w0) of
               Inl e \<Rightarrow> [step_entry ''Generate Prompt'' running None]
             | Inr gp \<Rightarrow>
                 passed ''Generate Prompt'' @ passed ''Determine Version'' @
                 (case createInjectionFromPrompt env gp (fst (assignedVersion env payload config)) of
                    Inl e \<Rightarrow> [step_entry ''Create Injection File'' running None]
                  | Inr f \<Rightarrow>
                      passed ''Create Injection File'' @ save_trace env payload config gp f @
                      log_trace env payload config gp w0))
          else
            [step_entry ''Load Account Config'' running None,
             step_entry ''Load Account Config'' failed (snd (validateApiKeyConfigured env))])"

section \<open>The cost calculator\<close>

lemma MODEL_PRICING_rates:
  "MODEL_PRICING M = Some q \<Longrightarrow>
     0 \<le> inputPer1M q \<and> 0 \<le> outputPer1M q \<and>
     cacheReadPer1M q = Some (the (cacheReadPer1M q)) \<and> 0 < the (cacheReadPer1M q) \<and>
     cacheWritePer1M q = Some (the (cacheWritePer1M q)) \<and> 0 < the (cacheWritePer1M q)"
  by (auto simp: MODEL_PRICING_def split: if_splits)

lemma MODEL_PRICING_default:
  "\<exists>q. MODEL_PRICING DEFAULT_MODEL = Some q"
  by (simp add: MODEL_PRICING_def DEFAULT_MODEL_def)

lemma calculateCostWithPricing_eq:
  assumes "cacheReadPer1M p = Some rr" "0 < rr" "cacheWritePer1M p = Some rw" "0 < rw"
  shows "calculateCostWithPricing U (Entry p) =
     \<lparr>inputCost = Num (real (inputTokens U) * (inputPer1M p / 1000000)),
      outputCost = Num (real (outputTokens U) * (outputPer1M p / 1000000)),
      cacheCost =
        (if 0 < real (or_nat (cacheReadTokens U) 0) * (rr / 1000000)
               + real (or_nat (cacheWriteTokens U) 0) * (rw / 1000000)
         then Some (real (or_nat (cacheReadTokens U) 0) * (rr / 1000000)
               + real (or_nat (cacheWriteTokens U) 0) * (rw / 1000000))
         else None),
      totalCostUsd = Num (real (inputTokens U) * (inputPer1M p / 1000000)
         + real (outputTokens U) * (outputPer1M p / 1000000)
         + (real (or_nat (cacheReadTokens U) 0) * (rr / 1000000)
            + real (or_nat (cacheWriteTokens U) 0) * (rw / 1000000)))\<rparr>"
proof (cases "cacheReadTokens U")
  case None
  show ?thesis
  proof (cases "cacheWriteTokens U")
    case None
    with \<open>cacheReadTokens U = None\<close> assms show ?thesis
      by (simp add: calculateCostWithPricing_def Let_def truthy_nat_def truthy_real_def or_nat_def
          get_field_def get_optional_field_def to_number_def)
  next
    case (Some b)
    with \<open>cacheReadTokens U = None\<close> assms show ?thesis
      by (simp add: calculateCostWithPricing_def Let_def truthy_nat_def truthy_real_def or_nat_def
          get_field_def get_optional_field_def to_number_def)
  qed
next
  case (Some a)
  show ?thesis
  proof (cases "cacheWriteTokens U")
    case None
    with \<open>cacheReadTokens U = Some a\<close> assms show ?thesis
      by (simp add: calculateCostWithPricing_def Let_def truthy_nat_def truthy_real_def or_nat_def
          get_field_def get_optional_field_def to_number_def)
  next
    case (Some b)
    with \<open>cacheReadTokens U = Some a\<close> assms show ?thesis
      by (simp add: calculateCostWithPricing_def Let_def truthy_nat_def truthy_real_def or_nat_def
          get_field_def get_optional_field_def to_number_def)
  qed
qed

text \<open>
  For a model identifier that is not the name of a member of \<open>Object.prototype\<close>,
  \<open>calculateCost\<close> returns a breakdown of finite costs whose total is the sum of the
  input, output and cache costs; each component is the token count times a rate fixed
  by the price-table entry in force, and is non-negative; an identifier outside the
  table gives the default model's result.
\<close>

lemma calculateCost_priced:
  assumes "M \<notin> set Object_prototype_keys"
  shows "\<exists>c p i out. fst (calculateCost U M w) = Inr c \<and>
     p = (case MODEL_PRICING M of Some q \<Rightarrow> q | None \<Rightarrow> the (MODEL_PRICING DEFAULT_MODEL)) \<and>
     inputCost c = Num i \<and> outputCost c = Num out \<and>
     totalCostUsd c = Num (i + out + (case cacheCost c of None \<Rightarrow> 0 | Some x \<Rightarrow> x)) \<and>
     i = real (inputTokens U) * (inputPer1M p / 1000000) \<and>
     out = real (outputTokens U) * (outputPer1M p / 1000000) \<and>
     (case cacheCost c of None \<Rightarrow> 0 | Some x \<Rightarrow> x) =
        real (or_nat (cacheReadTokens U) 0) * (the (cacheReadPer1M p) / 1000000)
        + real (or_nat (cacheWriteTokens U) 0) * (the (cacheWritePer1M p) / 1000000) \<and>
     0 \<le> i \<and> 0 \<le> out \<and> 0 \<le> (case cacheCost c of None \<Rightarrow> 0 | Some x \<Rightarrow> x) \<and>
     (MODEL_PRICING M = None \<longrightarrow>
        fst (calculateCost U M w) = fst (calculateCost U DEFAULT_MODEL w))"
proof -
  define p where "p = (case MODEL_PRICING M of Some q \<Rightarrow> q | None \<Rightarrow> the (MODEL_PRICING DEFAULT_MODEL))"
  obtain q0 where q0: "MODEL_PRICING DEFAULT_MODEL = Some q0"
    using MODEL_PRICING_default by blast
  have pM: "\<exists>M'. MODEL_PRICING M' = Some p"
    using q0 by (auto simp: p_def split: option.splits)
  then obtain M' where M': "MODEL_PRICING M' = Some p" by blast
  note r = MODEL_PRICING_rates [OF M']
  have eq: "fst (calculateCost U M w) = Inr (calculateCostWithPricing U (Entry p))"
    using q0 assms
    by (auto simp: calculateCost_def MODEL_PRICING_at_def p_def DEFAULT_MODEL_def Let_def
        split: option.splits)
  have fb: "MODEL_PRICING M = None \<longrightarrow>
        fst (calculateCost U M w) = fst (calculateCost U DEFAULT_MODEL w)"
    using q0 assms
    by (auto simp: calculateCost_def MODEL_PRICING_at_def DEFAULT_MODEL_def Let_def
        split: option.splits)
  have rr: "cacheReadPer1M p = Some (the (cacheReadPer1M p))" "0 < the (cacheReadPer1M p)"
    and rw: "cacheWritePer1M p = Some (the (cacheWritePer1M p))" "0 < the (cacheWritePer1M p)"
    using r by simp_all
  note cf = calculateCostWithPricing_eq [OF rr rw, of U]
  have nn: "0 \<le> real (or_nat (cacheReadTokens U) 0) * (the (cacheReadPer1M p) / 1000000)
        + real (or_nat (cacheWriteTokens U) 0) * (the (cacheWritePer1M p) / 1000000)"
    using rr(2) rw(2) by (intro add_nonneg_nonneg mult_nonneg_nonneg) simp_all
  have c1: "(case cacheCost (calculateCostWithPricing U (Entry p)) of None \<Rightarrow> 0 | Some x \<Rightarrow> x) =
        real (or_nat (cacheReadTokens U) 0) * (the (cacheReadPer1M p) / 1000000)
        + real (or_nat (cacheWriteTokens U) 0) * (the (cacheWritePer1M p) / 1000000)"
    using nn by (subst cf) (simp del: times_divide_eq_right)
  have i: "inputCost (calculateCostWithPricing U (Entry p)) =
             Num (real (inputTokens U) * (inputPer1M p / 1000000))"
    and out: "outputCost (calculateCostWithPricing U (Entry p)) =
             Num (real (outputTokens U) * (outputPer1M p / 1000000))"
    and t: "totalCostUsd (calculateCostWithPricing U (Entry p)) =
         Num (real (inputTokens U) * (inputPer1M p / 1000000)
         + real (outputTokens U) * (outputPer1M p / 1000000)
         + (real (or_nat (cacheReadTokens U) 0) * (the (cacheReadPer1M p) / 1000000)
            + real (or_nat (cacheWriteTokens U) 0) * (the (cacheWritePer1M p) / 1000000)))"
    by (subst cf, simp)+
  have i0: "0 \<le> real (inputTokens U) * (inputPer1M p / 1000000)"
    using r by (intro mult_nonneg_nonneg) simp_all
  have o0: "0 \<le> real (outputTokens U) * (outputPer1M p / 1000000)"
    using r by (intro mult_nonneg_nonneg) simp_all
  show ?thesis
    apply (rule exI [of _ "calculateCostWithPricing U (Entry p)"])
    apply (rule exI [of _ p])
    apply (rule exI [of _ "real (inputTokens U) * (inputPer1M p / 1000000)"])
    apply (rule exI [of _ "real (outputTokens U) * (outputPer1M p / 1000000)"])
    using eq fb c1 i out t i0 o0 nn p_def by simp
qed

text \<open>
  For the name of a member of \<open>Object.prototype\<close> the property read finds that member:
  no warning is logged, the fallback entry is not used, and every cost is \<open>NaN\<close>.
\<close>

lemma calculateCost_prototype_member:
  assumes "M \<in> set Object_prototype_keys"
  shows "calculateCost U M w =
           (Inr \<lparr>inputCost = NaN, outputCost = NaN, cacheCost = None, totalCostUsd = NaN\<rparr>, w)"
proof -
  have "MODEL_PRICING M = None"
    using assms by (auto simp: Object_prototype_keys_def MODEL_PRICING_def)
  with assms have "MODEL_PRICING_at M = Some PrototypeMember"
    by (simp add: MODEL_PRICING_at_def)
  then show ?thesis
    by (simp add: calculateCost_def calculateCostWithPricing_def Let_def get_field_def
        get_optional_field_def to_number_def truthy_real_def)
qed

text \<open>
  Claim C5 says that \<open>calculateCost\<close> prices every model identifier that is not in the
  price table at the default model's rates, with non-negative components. The source
  tests the value of the property read \<open>MODEL_PRICING[model]\<close>, and for the model
  identifier \<open>toString\<close> this is a function inherited from \<open>Object.prototype\<close>: with
  1000 input and 500 output tokens the call logs no warning, does not use the default
  model's rates (which give 0.015, 0.0375 and the total 0.0525) and returns \<open>NaN\<close> for
  the input cost, the output cost and the total.
\<close>

theorem calculateCost_inherited_key:
  "MODEL_PRICING ''toString'' = None \<and>
   calculateCost \<lparr>inputTokens = 1000, outputTokens = 500, cacheReadTokens = None,
                   cacheWriteTokens = None\<rparr> ''toString'' world0 =
     (Inr \<lparr>inputCost = NaN, outputCost = NaN, cacheCost = None, totalCostUsd = NaN\<rparr>, world0) \<and>
   calculateCost \<lparr>inputTokens = 1000, outputTokens = 500, cacheReadTokens = None,
                   cacheWriteTokens = None\<rparr> DEFAULT_MODEL world0 =
     (Inr \<lparr>inputCost = Num 0.015, outputCost = Num 0.0375, cacheCost = None,
           totalCostUsd = Num 0.0525\<rparr>, world0)"
  by (simp add: calculateCost_def calculateCostWithPricing_def MODEL_PRICING_at_def
      MODEL_PRICING_def Object_prototype_keys_def DEFAULT_MODEL_def Let_def get_field_def
      get_optional_field_def to_number_def truthy_nat_def truthy_real_def)

section \<open>The completion step runner and the refinement loop\<close>

lemma calculateCost_default:
  "\<exists>c. calculateCost U DEFAULT_MODEL w = (Inr c, w)"
  by (simp add: calculateCost_def MODEL_PRICING_at_def MODEL_PRICING_def DEFAULT_MODEL_def)

lemma logCost_default:
  assumes "cp_model params = None"
  shows "\<exists>entry. logCost params w =
           (Inr entry, trackUsage (cp_usage params) (w\<lparr>sessionCosts := sessionCosts w @ [entry]\<rparr>))
         \<and> ce_operation entry = cp_operation params
         \<and> ce_inputTokens entry = inputTokens (cp_usage params)
         \<and> ce_outputTokens entry = outputTokens (cp_usage params)"
proof -
  obtain c where c: "calculateCost (cp_usage params) DEFAULT_MODEL w = (Inr c, w)"
    using calculateCost_default by blast
  show ?thesis
    using assms c by (simp add: logCost_def createCostEntry_def or_str_def)
qed

lemma logCost_charged:
  assumes "cp_model params = None"
  shows "\<exists>entry w'. logCost params w = (Inr entry, w') \<and> charged (cp_operation params) (cp_usage params) w w'"
  using logCost_default [OF assms, of w]
  by (auto simp: charged_def trackUsage_def)

lemma sendMessage_eq:
  "sendMessage env req w = (complete env (length (calls w)) req, w\<lparr>calls := calls w @ [req]\<rparr>)"
  by (simp add: sendMessage_def)

lemma generateInitialPrompt_effect:
  "step_effect env (GeneratePromptFromBriefing (formatBriefingAsMarkdown env b) (getPRISMASystemPrompt env))
     w (fst (generateInitialPrompt env b a w)) (snd (generateInitialPrompt env b a w))"
proof (cases "complete env (length (calls w))
    (GeneratePromptFromBriefing (formatBriefingAsMarkdown env b) (getPRISMASystemPrompt env))")
  case (Inl e)
  then show ?thesis
    by (simp add: generateInitialPrompt_def sendMessage_def step_effect_def)
next
  case (Inr r)
  let ?p = "\<lparr>cp_accountId = a, cp_assistantId = b_assistantId b,
              cp_operation = prompt_generation, cp_model = None,
              cp_usage = usage r, cp_version = None,
              cp_metadata = [(''phase'', MStr ''initial'')]\<rparr>"
  have "cp_model ?p = None" by simp
  from logCost_charged [OF this, of "w\<lparr>calls := calls w @ [GeneratePromptFromBriefing (formatBriefingAsMarkdown env b) (getPRISMASystemPrompt env)]\<rparr>"]
  obtain entry w' where "logCost ?p (w\<lparr>calls := calls w @ [GeneratePromptFromBriefing (formatBriefingAsMarkdown env b) (getPRISMASystemPrompt env)]\<rparr>) = (Inr entry, w')"
    and "charged (cp_operation ?p) (cp_usage ?p) (w\<lparr>calls := calls w @ [GeneratePromptFromBriefing (formatBriefingAsMarkdown env b) (getPRISMASystemPrompt env)]\<rparr>) w'"
    by blast
  with Inr show ?thesis
    by (simp add: generateInitialPrompt_def sendMessage_def step_effect_def request_operation_def)
qed

lemma analyzeGeneratedPrompt_effect:
  "step_effect env (AnalyzePrompt p (formatBriefingAsMarkdown env b))
     w (fst (analyzeGeneratedPrompt env p b a w)) (snd (analyzeGeneratedPrompt env p b a w))"
proof (cases "complete env (length (calls w)) (AnalyzePrompt p (formatBriefingAsMarkdown env b))")
  case (Inl e)
  then show ?thesis
    by (simp add: analyzeGeneratedPrompt_def sendMessage_def step_effect_def)
next
  case (Inr r)
  let ?p = "\<lparr>cp_accountId = a, cp_assistantId = b_assistantId b,
              cp_operation = prompt_analysis, cp_model = None,
              cp_usage = usage r, cp_version = None,
              cp_metadata = [(''phase'', MStr ''analysis'')]\<rparr>"
  have "cp_model ?p = None" by simp
  from logCost_charged [OF this, of "w\<lparr>calls := calls w @ [AnalyzePrompt p (formatBriefingAsMarkdown env b)]\<rparr>"]
  obtain entry w' where "logCost ?p (w\<lparr>calls := calls w @ [AnalyzePrompt p (formatBriefingAsMarkdown env b)]\<rparr>) = (Inr entry, w')"
    and "charged (cp_operation ?p) (cp_usage ?p) (w\<lparr>calls := calls w @ [AnalyzePrompt p (formatBriefingAsMarkdown env b)]\<rparr>) w'"
    by blast
  with Inr show ?thesis
    by (simp add: analyzeGeneratedPrompt_def sendMessage_def step_effect_def request_operation_def)
qed

lemma improveGeneratedPrompt_effect:
  "step_effect env (ImprovePrompt p f (formatBriefingAsMarkdown env b) (getPRISMASystemPrompt env))
     w (fst (improveGeneratedPrompt env p f b a i w)) (snd (improveGeneratedPrompt env p f b a i w))"
proof (cases "complete env (length (calls w))
    (ImprovePrompt p f (formatBriefingAsMarkdown env b) (getPRISMASystemPrompt env))")
  case (Inl e)
  then show ?thesis
    by (simp add: improveGeneratedPrompt_def sendMessage_def step_effect_def)
next
  case (Inr r)
  let ?p = "\<lparr>cp_accountId = a, cp_assistantId = b_assistantId b,
              cp_operation = prompt_improvement, cp_model = None,
              cp_usage = usage r, cp_version = None,
              cp_metadata = [(''phase'', MStr ''improvement''), (''iteration'', MNum i)]\<rparr>"
  have "cp_model ?p = None" by simp
  from logCost_charged [OF this, of "w\<lparr>calls := calls w @ [ImprovePrompt p f (formatBriefingAsMarkdown env b) (getPRISMASystemPrompt env)]\<rparr>"]
  obtain entry w' where "logCost ?p (w\<lparr>calls := calls w @ [ImprovePrompt p f (formatBriefingAsMarkdown env b) (getPRISMASystemPrompt env)]\<rparr>) = (Inr entry, w')"
    and "charged (cp_operation ?p) (cp_usage ?p) (w\<lparr>calls := calls w @ [ImprovePrompt p f (formatBriefingAsMarkdown env b) (getPRISMASystemPrompt env)]\<rparr>) w'"
    by blast
  with Inr show ?thesis
    by (simp add: improveGeneratedPrompt_def sendMessage_def step_effect_def request_operation_def)
qed


lemma step_effect_calls:
  "step_effect env req w res w' \<Longrightarrow> calls w' = calls w @ [req] \<and> logs w' = logs w"
  by (auto simp: step_effect_def charged_def split: sum.splits)

lemma step_effect_Inr:
  "step_effect env req w (Inr (t, u)) w' \<Longrightarrow>
     \<exists>r. complete env (length (calls w)) req = Inr r \<and> t = content r \<and> u = usage r \<and>
       (\<exists>entry. sessionCosts w' = sessionCosts w @ [entry] \<and> ce_operation entry = request_operation req \<and>
          ce_inputTokens entry = inputTokens u \<and> ce_outputTokens entry = outputTokens u) \<and>
       inputTokens (sessionUsage w') = inputTokens (sessionUsage w) + inputTokens u \<and>
       outputTokens (sessionUsage w') = outputTokens (sessionUsage w) + outputTokens u"
  by (auto simp: step_effect_def charged_def split: sum.splits)

lemma step_effect_indep:
  "step_effect env req w res w' \<Longrightarrow> step_effect env req v res' v' \<Longrightarrow>
     length (calls w) = length (calls v) \<Longrightarrow> res = res' \<and> length (calls w') = length (calls v')"
  by (auto simp: step_effect_def charged_def split: sum.splits)

lemma refine_done: "\<not> i < m \<Longrightarrow> refine env b a m i st w = (Inr st, w)"
  by (simp add: refine.simps)

lemma refine_round:
  assumes "i < m" and "refine env b a m i st w = (Inr st', w')"
  shows "\<exists>an au w1 ip iu w2.
           analyzeGeneratedPrompt env (currentPrompt st) b a w = (Inr (an, au), w1) \<and>
           improveGeneratedPrompt env (currentPrompt st) an b a (i + 1) w1 = (Inr (ip, iu), w2) \<and>
           refine env b a m (i + 1)
             \<lparr>currentPrompt = ip,
              iterations = iterations st @
                [\<lparr>iterationNumber = i + 1, feedback = an,
                  changes = ''Iteration '' @ string_of_int (i + 1) @ '' improvements applied'',
                  promptSnapshot = ip\<rparr>],
              totalUsage = addUsage (addUsage (totalUsage st) au) iu\<rparr> w2 = (Inr st', w')"
  using assms
  by (subst (asm) refine.simps) (auto split: prod.splits sum.splits)

lemma refine_success:
  "refine env b a m i st w = (Inr st', w') \<Longrightarrow> i \<le> m \<Longrightarrow>
     (\<exists>cs. calls w' = calls w @ cs \<and>
        map request_operation cs = concat (replicate (nat (m - i)) [prompt_analysis, prompt_improvement])) \<and>
     (\<exists>es. sessionCosts w' = sessionCosts w @ es \<and>
        map ce_operation es = concat (replicate (nat (m - i)) [prompt_analysis, prompt_improvement])) \<and>
     map iterationNumber (iterations st') = map iterationNumber (iterations st) @ [i + 1..m] \<and>
     logs w' = logs w \<and>
     (i < m \<longrightarrow> calls w' \<noteq> [] \<and>
        (\<exists>r. complete env (length (calls w') - 1) (last (calls w')) = Inr r \<and>
             currentPrompt st' = content r) \<and>
        request_operation (last (calls w')) = prompt_improvement)"
proof (induction env b a m i st w arbitrary: st' w' rule: refine.induct)
  case (1 env b a m i st w)
  show ?case
  proof (cases "i < m")
    case False
    with "1.prems" have "i = m" by simp
    with "1.prems" show ?thesis by (simp add: refine_done)
  next
    case True
    from refine_round [OF True "1.prems"(1)]
    obtain an au w1 ip iu w2 where
      A: "analyzeGeneratedPrompt env (currentPrompt st) b a w = (Inr (an, au), w1)" and
      I: "improveGeneratedPrompt env (currentPrompt st) an b a (i + 1) w1 = (Inr (ip, iu), w2)" and
      R: "refine env b a m (i + 1)
             \<lparr>currentPrompt = ip,
              iterations = iterations st @
                [\<lparr>iterationNumber = i + 1, feedback = an,
                  changes = ''Iteration '' @ string_of_int (i + 1) @ '' improvements applied'',
                  promptSnapshot = ip\<rparr>],
              totalUsage = addUsage (addUsage (totalUsage st) au) iu\<rparr> w2 = (Inr st', w')"
      by blast
    let ?areq = "AnalyzePrompt (currentPrompt st) (formatBriefingAsMarkdown env b)"
    let ?ireq = "ImprovePrompt (currentPrompt st) an (formatBriefingAsMarkdown env b) (getPRISMASystemPrompt env)"
    let ?st2 = "\<lparr>currentPrompt = ip,
              iterations = iterations st @
                [\<lparr>iterationNumber = i + 1, feedback = an,
                  changes = ''Iteration '' @ string_of_int (i + 1) @ '' improvements applied'',
                  promptSnapshot = ip\<rparr>],
              totalUsage = addUsage (addUsage (totalUsage st) au) iu\<rparr>"
    have ea: "step_effect env ?areq w (Inr (an, au)) w1"
      using analyzeGeneratedPrompt_effect [of env "currentPrompt st" b w a] A by simp
    have ei: "step_effect env ?ireq w1 (Inr (ip, iu)) w2"
      using improveGeneratedPrompt_effect [of env "currentPrompt st" an b w1 a "i + 1"] I by simp
    note ca = step_effect_calls [OF ea] and ci = step_effect_calls [OF ei]
    note fa = step_effect_Inr [OF ea] and fi = step_effect_Inr [OF ei]
    have c2: "calls w2 = calls w @ [?areq, ?ireq]" using ca ci by simp
    have l2: "logs w2 = logs w" using ca ci by simp
    obtain ea' ei' where s2: "sessionCosts w2 = sessionCosts w @ [ea', ei']"
      "ce_operation ea' = prompt_analysis" "ce_operation ei' = prompt_improvement"
      using fa fi by (auto simp: request_operation_def)
    obtain r where r: "complete env (length (calls w1)) ?ireq = Inr r" "ip = content r"
      using fi by blast
    have n: "nat (m - i) = Suc (nat (m - (i + 1)))" using True by simp
    have u: "[i + 1..m] = (i + 1) # [i + 1 + 1..m]" using True by (simp add: upto_rec1)
    have le: "i + 1 \<le> m" using True by simp
    note IH = "1.IH" [OF True A [symmetric] refl refl I [symmetric] refl refl R le]
    from IH obtain cs where cs: "calls w' = calls w2 @ cs"
      "map request_operation cs = concat (replicate (nat (m - (i + 1))) [prompt_analysis, prompt_improvement])"
      by blast
    from IH obtain es where es: "sessionCosts w' = sessionCosts w2 @ es"
      "map ce_operation es = concat (replicate (nat (m - (i + 1))) [prompt_analysis, prompt_improvement])"
      by blast
    from IH have its: "map iterationNumber (iterations st') = map iterationNumber (iterations ?st2) @ [i + 1 + 1..m]"
      and lg: "logs w' = logs w2" by simp_all
    have P1: "\<exists>cs. calls w' = calls w @ cs \<and>
        map request_operation cs = concat (replicate (nat (m - i)) [prompt_analysis, prompt_improvement])"
      by (rule exI [of _ "[?areq, ?ireq] @ cs"]) (simp add: cs c2 n request_operation_def)
    have P2: "\<exists>es. sessionCosts w' = sessionCosts w @ es \<and>
        map ce_operation es = concat (replicate (nat (m - i)) [prompt_analysis, prompt_improvement])"
      by (rule exI [of _ "[ea', ei'] @ es"]) (simp add: es s2 n)
    have P3: "map iterationNumber (iterations st') = map iterationNumber (iterations st) @ [i + 1..m]"
      using its u by simp
    have P4: "logs w' = logs w" using lg l2 by simp
    have P5: "calls w' \<noteq> [] \<and>
        (\<exists>r. complete env (length (calls w') - 1) (last (calls w')) = Inr r \<and>
             currentPrompt st' = content r) \<and>
        request_operation (last (calls w')) = prompt_improvement"
    proof (cases "i + 1 < m")
      case True
      with IH show ?thesis by simp
    next
      case False
      then have "refine env b a m (i + 1) ?st2 w2 = (Inr ?st2, w2)"
        by (rule refine_done)
      with R have w': "w' = w2" and st': "currentPrompt st' = ip" by auto
      from c2 w' st' r ca show ?thesis
        by (simp add: request_operation_def)
    qed
    from P1 P2 P3 P4 P5 show ?thesis by blast
  qed
qed

lemma refine_indep:
  "length (calls w) = length (calls v) \<Longrightarrow>
     fst (refine env b a m i st w) = fst (refine env b a m i st v)"
proof (induction env b a m i st w arbitrary: v rule: refine.induct)
  case (1 env b a m i st w)
  show ?case
  proof (cases "i < m")
    case False
    then show ?thesis by (simp add: refine_done)
  next
    case True
    let ?areq = "AnalyzePrompt (currentPrompt st) (formatBriefingAsMarkdown env b)"
    obtain ra w1 where A: "analyzeGeneratedPrompt env (currentPrompt st) b a w = (ra, w1)"
      by (cases "analyzeGeneratedPrompt env (currentPrompt st) b a w")
    obtain ra' v1 where A': "analyzeGeneratedPrompt env (currentPrompt st) b a v = (ra', v1)"
      by (cases "analyzeGeneratedPrompt env (currentPrompt st) b a v")
    have ea: "step_effect env ?areq w ra w1"
      using analyzeGeneratedPrompt_effect [of env "currentPrompt st" b w a] A by simp
    have ea': "step_effect env ?areq v ra' v1"
      using analyzeGeneratedPrompt_effect [of env "currentPrompt st" b v a] A' by simp
    from step_effect_indep [OF ea ea' "1.prems"]
    have ra: "ra' = ra" and l1: "length (calls w1) = length (calls v1)" by simp_all
    show ?thesis
    proof (cases ra)
      case (Inl e)
      with A A' ra True show ?thesis by (simp add: refine.simps [of env b a m i st])
    next
      case (Inr p)
      obtain an au where p: "p = (an, au)" by (cases p)
      let ?ireq = "ImprovePrompt (currentPrompt st) an (formatBriefingAsMarkdown env b) (getPRISMASystemPrompt env)"
      obtain ri w2 where I: "improveGeneratedPrompt env (currentPrompt st) an b a (i + 1) w1 = (ri, w2)"
        by (cases "improveGeneratedPrompt env (currentPrompt st) an b a (i + 1) w1")
      obtain ri' v2 where I': "improveGeneratedPrompt env (currentPrompt st) an b a (i + 1) v1 = (ri', v2)"
        by (cases "improveGeneratedPrompt env (currentPrompt st) an b a (i + 1) v1")
      have ei: "step_effect env ?ireq w1 ri w2"
        using improveGeneratedPrompt_effect [of env "currentPrompt st" an b w1 a "i + 1"] I by simp
      have ei': "step_effect env ?ireq v1 ri' v2"
        using improveGeneratedPrompt_effect [of env "currentPrompt st" an b v1 a "i + 1"] I' by simp
      from step_effect_indep [OF ei ei' l1]
      have ri: "ri' = ri" and l2: "length (calls w2) = length (calls v2)" by simp_all
      show ?thesis
      proof (cases ri)
        case (Inl e)
        with A A' ra I I' ri True \<open>ra = Inr p\<close> p show ?thesis
          by (simp add: refine.simps [of env b a m i st])
      next
        case (Inr q)
        obtain ip iu where q: "q = (ip, iu)" by (cases q)
        have A0: "(Inr (an, au), w1) = analyzeGeneratedPrompt env (currentPrompt st) b a w"
          using A \<open>ra = Inr p\<close> p by simp
        have I0: "(Inr (ip, iu), w2) = improveGeneratedPrompt env (currentPrompt st) an b a (i + 1) w1"
          using I Inr q by simp
        note IH = "1.IH" [OF True A0 refl refl I0 refl refl l2]
        with A A' ra I I' ri True \<open>ra = Inr p\<close> p Inr q show ?thesis
          by (simp add: refine.simps [of env b a m i st])
      qed
    qed
  qed
qed

lemma generatePromptWithIteration_fst:
  "fst (generatePromptWithIteration env b a k w) =
     (case fst (generateInitialPrompt env b a w) of
        Inl e \<Rightarrow> Inl e
      | Inr p \<Rightarrow>
          (case fst (refine env b a (or_int k 1) 0
                       \<lparr>currentPrompt = fst p, iterations = [],
                        totalUsage = addUsage \<lparr>inputTokens = 0, outputTokens = 0,
                           cacheReadTokens = None, cacheWriteTokens = None\<rparr> (snd p)\<rparr>
                       (snd (generateInitialPrompt env b a w))) of
             Inl e \<Rightarrow> Inl e
           | Inr st \<Rightarrow>
               Inr \<lparr>gp_accountId = a, gp_assistantId = b_assistantId b,
                    gp_content = currentPrompt st, gp_version = ''draft'',
                    gp_briefingId = b_id b, gp_iterations = or_int k 1,
                    gp_model = ''claude-opus-4-5-20251101'',
                    simpleIterations = iterations st\<rparr>))"
  by (simp add: generatePromptWithIteration_def Let_def split: prod.splits sum.splits)

lemma generatePromptWithIteration_indep:
  assumes "length (calls w) = length (calls v)"
  shows "fst (generatePromptWithIteration env b a k w) = fst (generatePromptWithIteration env b a k v)"
proof -
  let ?req = "GeneratePromptFromBriefing (formatBriefingAsMarkdown env b) (getPRISMASystemPrompt env)"
  from step_effect_indep [OF generateInitialPrompt_effect [of env b w a]
      generateInitialPrompt_effect [of env b v a] assms]
  have rg: "fst (generateInitialPrompt env b a w) = fst (generateInitialPrompt env b a v)"
    and l1: "length (calls (snd (generateInitialPrompt env b a w))) =
             length (calls (snd (generateInitialPrompt env b a v)))" by simp_all
  show ?thesis
    unfolding generatePromptWithIteration_fst rg
    by (simp add: refine_indep [OF l1] split: sum.splits)
qed


text \<open>
  Claim C4. For \<open>maxIterations = k > 0\<close>, a run of the refinement loop that returns
  has sent, after the calls made before it, one generation request followed by \<open>k\<close>
  pairs of an analysis and an improvement request (\<open>1 + 2k\<close> requests); the returned
  prompt is the provider's answer to the last of them; and it returns \<open>k\<close> iteration
  records numbered \<open>1, \<dots>, k\<close> in this order.
\<close>

theorem refinement_rounds:
  assumes "0 < k" and "generatePromptWithIteration env b a (Some k) w = (Inr gp, w')"
  shows "(\<exists>cs. calls w' = calls w @ cs \<and> length cs = 1 + 2 * nat k \<and>
            map request_operation cs =
              prompt_generation # concat (replicate (nat k) [prompt_analysis, prompt_improvement]) \<and>
            (\<exists>r. complete env (length (calls w) + 2 * nat k) (last cs) = Inr r \<and>
                 gp_content gp = content r)) \<and>
         map iterationNumber (simpleIterations gp) = [1..k] \<and>
         length (simpleIterations gp) = nat k"
proof -
  let ?req = "GeneratePromptFromBriefing (formatBriefingAsMarkdown env b) (getPRISMASystemPrompt env)"
  have k1: "or_int (Some k) 1 = k" using assms(1) by (simp add: or_int_def)
  from assms(2) obtain ip iu w1 st where
    G: "generateInitialPrompt env b a w = (Inr (ip, iu), w1)" and
    R: "refine env b a k 0 \<lparr>currentPrompt = ip, iterations = [],
          totalUsage = addUsage \<lparr>inputTokens = 0, outputTokens = 0,
             cacheReadTokens = None, cacheWriteTokens = None\<rparr> iu\<rparr> w1 = (Inr st, w')" and
    gp: "gp_content gp = currentPrompt st" "simpleIterations gp = iterations st"
    by (auto simp: generatePromptWithIteration_def k1 Let_def split: prod.splits sum.splits)
  have e: "step_effect env ?req w (Inr (ip, iu)) w1"
    using generateInitialPrompt_effect [of env b w a] G by simp
  note c1 = step_effect_calls [OF e]
  have le: "(0::int) \<le> k" using assms(1) by simp
  note S = refine_success [OF R le]
  from S obtain cs where cs: "calls w' = calls w1 @ cs"
    "map request_operation cs = concat (replicate (nat (k - 0)) [prompt_analysis, prompt_improvement])"
    by blast
  have lcs: "length cs = 2 * nat k"
  proof -
    have "length cs = length (map request_operation cs)" by simp
    also have "\<dots> = 2 * nat k" unfolding cs(2) by (simp add: length_concat sum_list_replicate)
    finally show ?thesis .
  qed
  from S assms(1) obtain r where r: "calls w' \<noteq> []"
    "complete env (length (calls w') - 1) (last (calls w')) = Inr r" "currentPrompt st = content r"
    by auto
  have ne: "cs \<noteq> []" using lcs assms(1) by auto
  have last: "last (calls w') = last (?req # cs)" using cs(1) c1 ne by simp
  have len: "length (calls w') - 1 = length (calls w) + 2 * nat k" using cs(1) c1 lcs by simp
  have its: "map iterationNumber (simpleIterations gp) = [1..k]"
    using S gp by simp
  have "length (simpleIterations gp) = length (map iterationNumber (simpleIterations gp))" by simp
  also have "\<dots> = nat k" unfolding its using assms(1) by simp
  finally have li: "length (simpleIterations gp) = nat k" .
  have "calls w' = calls w @ (?req # cs) \<and> length (?req # cs) = 1 + 2 * nat k \<and>
            map request_operation (?req # cs) =
              prompt_generation # concat (replicate (nat k) [prompt_analysis, prompt_improvement]) \<and>
            (\<exists>r. complete env (length (calls w) + 2 * nat k) (last (?req # cs)) = Inr r \<and>
                 gp_content gp = content r)"
    using cs c1 lcs r last len gp by (simp add: request_operation_def)
  then have "\<exists>cs. calls w' = calls w @ cs \<and> length cs = 1 + 2 * nat k \<and>
            map request_operation cs =
              prompt_generation # concat (replicate (nat k) [prompt_analysis, prompt_improvement]) \<and>
            (\<exists>r. complete env (length (calls w) + 2 * nat k) (last cs) = Inr r \<and>
                 gp_content gp = content r)"
    by (rule exI)
  with its li show ?thesis by blast
qed

lemmas generator_eval =
  generatePromptWithIteration_def generateInitialPrompt_def analyzeGeneratedPrompt_def
  improveGeneratedPrompt_def sendMessage_def logCost_def createCostEntry_def calculateCost_def
  calculateCostWithPricing_def trackUsage_def MODEL_PRICING_at_def MODEL_PRICING_def
  get_field_def get_optional_field_def to_number_def DEFAULT_MODEL_def or_str_def
  or_int_def or_nat_def truthy_nat_def truthy_real_def addUsage_def Let_def refine.simps

lemmas stub_eval = stub_env_def stub_complete_def stub_briefing_def stub_payload_def world0_def
  no_config_def

theorem refinement_rounds_witness:
  "(0::int) < 2 \<and>
   (\<exists>gp w'. generatePromptWithIteration stub_env stub_briefing ''acme'' (Some 2) world0 = (Inr gp, w') \<and>
      length (calls w') = 5 \<and> map iterationNumber (simpleIterations gp) = [1, 2] \<and>
      length (simpleIterations gp) = 2)"
proof -
  have "\<exists>gp w'. generatePromptWithIteration stub_env stub_briefing ''acme'' (Some 2) world0 = (Inr gp, w')"
    by (simp add: generator_eval stub_eval)
  then obtain gp w' where
    ev: "generatePromptWithIteration stub_env stub_briefing ''acme'' (Some 2) world0 = (Inr gp, w')"
    by blast
  have k: "(0::int) < 2" by simp
  from refinement_rounds [OF k ev] obtain cs where
    "calls w' = calls world0 @ cs" "length cs = 1 + 2 * nat 2"
    "map iterationNumber (simpleIterations gp) = [1..2]" "length (simpleIterations gp) = nat 2"
    by blast
  then have "length (calls w') = 5 \<and> map iterationNumber (simpleIterations gp) = [1, 2] \<and>
      length (simpleIterations gp) = 2"
    by (simp add: world0_def upto_rec1)
  with ev k show ?thesis by simp
qed

text \<open>
  Claim C1 says that \<open>maxIterations = 0\<close> makes one generation call and returns its
  text with no iteration record. The source computes \<open>params.maxIterations || 1\<close>, and
  \<open>0\<close> is falsy: on the stub environment a run with \<open>maxIterations = 0\<close> is the run
  with \<open>maxIterations = 1\<close>, it sends three requests, returns the improved text and one
  iteration record.
\<close>

theorem zero_maxIterations_runs_one_round:
  "generatePromptWithIteration stub_env stub_briefing ''acme'' (Some 0) world0 =
     generatePromptWithIteration stub_env stub_briefing ''acme'' (Some 1) world0 \<and>
   length (calls (snd (generatePromptWithIteration stub_env stub_briefing ''acme'' (Some 0) world0))) = 3 \<and>
   (\<exists>gp. fst (generatePromptWithIteration stub_env stub_briefing ''acme'' (Some 0) world0) = Inr gp \<and>
      gp_content gp = ''IMPROVED'' \<and> map iterationNumber (simpleIterations gp) = [1])"
  by (simp add: generator_eval stub_eval)

lemma frame_refl [simp]: "frame w w"
  by (simp add: frame_def)

lemma frame_trans: "frame w w1 \<Longrightarrow> frame w1 w2 \<Longrightarrow> frame w w2"
  by (auto simp: frame_def)

lemma frame_warn [simp]: "frame w (logger_warn m w)"
  by (simp add: frame_def logger_warn_def)

lemma frame_error [simp]: "frame w (logger_error m w)"
  by (simp add: frame_def logger_error_def)

lemma frameD:
  "frame w w' \<Longrightarrow> sessionCosts w' = sessionCosts w"
  "frame w w' \<Longrightarrow> sessionUsage w' = sessionUsage w"
  "frame w w' \<Longrightarrow> calls w' = calls w"
  "frame w w' \<Longrightarrow> x \<in> set (logs w) \<Longrightarrow> x \<in> set (logs w')"
  by (auto simp: frame_def)

lemma logStep_steps [simp]:
  "fst (logStep env cfg ctx n s e sw) = fst sw @ [\<lparr>ps_name = n, ps_status = s, ps_error = e\<rparr>]"
  by (simp add: logStep_def Let_def split: option.splits sum.splits)

lemma logStep_None [simp]:
  "logStep env cfg None n s e sw = (fst sw @ [\<lparr>ps_name = n, ps_status = s, ps_error = e\<rparr>], snd sw)"
  by (simp add: logStep_def Let_def)

lemma logStep_frame [simp]: "frame (snd sw) (snd (logStep env cfg ctx n s e sw))"
  by (simp add: logStep_def Let_def split: option.splits sum.splits)

lemma initContext_frame [simp]: "frame w (snd (initContext env cfg payload w))"
  by (simp add: initContext_def split: sum.splits)

lemma initContext_disabled [simp]:
  "\<not> enableSupabase cfg \<Longrightarrow> initContext env cfg payload w = (None, w)"
  by (simp add: initContext_def)

lemma saveCostsLoop_frame: "frame w (saveCostsLoop env ctx op i cs w)"
proof (induction cs arbitrary: i w)
  case Nil
  show ?case by simp
next
  case (Cons c cs)
  show ?case
    by (auto split: sum.splits intro: frame_trans [OF frame_warn Cons.IH] Cons.IH)
qed

lemma saveCostsToSupabase_frame [simp]: "frame w (saveCostsToSupabase env ctx op w)"
  by (simp add: saveCostsToSupabase_def saveCostsLoop_frame)

lemma getLatestPromptVersion_frame: "frame w (snd (getLatestPromptVersion env a w))"
  by (simp add: getLatestPromptVersion_def split: option.splits list.splits)

lemma getNextVersionNumber_snd:
  "snd (getNextVersionNumber env a w) =
     (case getSupabaseClient env of
        Some e \<Rightarrow> w
      | None \<Rightarrow>
          (case rpc_get_next_version_number env a of
             Inl e \<Rightarrow> snd (getLatestPromptVersion env a (logger_error ''Failed to get next version number'' w))
           | Inr data \<Rightarrow> w))"
  by (simp add: getNextVersionNumber_def split: option.splits prod.splits sum.splits)

lemma getNextVersionNumber_frame: "frame w (snd (getNextVersionNumber env a w))"
  unfolding getNextVersionNumber_snd
  by (auto split: option.splits sum.splits
      intro: frame_trans [OF frame_error getLatestPromptVersion_frame])

lemma determineVersion_frame [simp]: "frame w (snd (determineVersion env cfg ctx w))"
proof -
  have "frame w (logger_warn m (snd (getNextVersionNumber env a w)))" for m a
    by (rule frame_trans [OF getNextVersionNumber_frame frame_warn])
  then show ?thesis
    using getNextVersionNumber_frame [of w env]
    by (auto simp: determineVersion_def split: option.splits prod.splits sum.splits)
      (metis snd_conv)+
qed

lemma determineVersion_None [simp]: "determineVersion env cfg None w = ((''v1'', 1), w)"
  by (simp add: determineVersion_def)

lemma stepSavePromptVersion_None [simp]:
  "stepSavePromptVersion env cfg None payload gp injFile v n sw = sw"
  by (simp add: stepSavePromptVersion_def)

lemma logStep_frame2: "frame w (snd sw) \<Longrightarrow> frame w (snd (logStep env cfg ctx n s e sw))"
  by (rule frame_trans [OF _ logStep_frame])

lemma frame_warn2: "frame w w1 \<Longrightarrow> frame w (logger_warn m w1)"
  by (rule frame_trans [OF _ frame_warn])

lemma frame_error2: "frame w w1 \<Longrightarrow> frame w (logger_error m w1)"
  by (rule frame_trans [OF _ frame_error])

lemma stepSavePromptVersion_frame [simp]:
  "frame (snd sw) (snd (stepSavePromptVersion env cfg ctx payload gp injFile v n sw))"
  by (auto simp: stepSavePromptVersion_def Let_def split: option.splits sum.splits
      intro!: logStep_frame2 frame_warn2)

lemma stepLogCosts_frame [simp]:
  "frame (snd sw) (snd (stepLogCosts env cfg ctx payload gp v sw))"
  by (auto simp: stepLogCosts_def Let_def split: option.splits sum.splits
      intro!: logStep_frame2 frame_warn2)

lemma completeRun_frame [simp]: "frame w (completeRun env cfg ctx w)"
  by (simp add: completeRun_def split: option.splits sum.splits)

lemma completeRun_None [simp]: "completeRun env cfg None w = w"
  by (simp add: completeRun_def)

lemma createFailedResult_frame [simp]:
  "frame w (snd (createFailedResult env payload ss e ctx w))"
  by (simp add: createFailedResult_def Let_def split: option.splits sum.splits)

lemma createFailedResult_fst:
  "fst (createFailedResult env payload ss e ctx w) =
     \<lparr>pr_status = failed, pr_accountId = pi_accountId payload,
      pr_assistantId = b_assistantId (briefing payload),
      generatedPrompt = None, injectionFile = None,
      costEntries = sessionCosts w, steps = ss, pr_error = e\<rparr>"
  by (simp add: createFailedResult_def Let_def getSessionCosts_def logger_warn_def
      split: option.splits sum.splits)

lemma catchFatal_frame [simp]:
  "frame w (snd (catchFatal env payload ss e ctx w))"
  unfolding catchFatal_def by (rule frame_trans [OF frame_error createFailedResult_frame])

lemma catchFatal_fst:
  "fst (catchFatal env payload ss e ctx w) =
     \<lparr>pr_status = failed, pr_accountId = pi_accountId payload,
      pr_assistantId = b_assistantId (briefing payload),
      generatedPrompt = None, injectionFile = None,
      costEntries = sessionCosts w, steps = ss, pr_error = Some e\<rparr>"
  by (simp add: catchFatal_def createFailedResult_fst logger_error_def)

lemma frame_eq: "frame w w' \<Longrightarrow> w' = w\<lparr>logs := logs w'\<rparr>"
  by (cases w, cases w') (simp add: frame_def)

lemma modlogs_eq: "modlogs w v \<Longrightarrow> v = w\<lparr>logs := logs v\<rparr>"
  by (cases w, cases v) (simp add: modlogs_def)

lemma frame_modlogs: "frame w v \<Longrightarrow> modlogs w v"
  by (simp add: frame_def modlogs_def)

lemma modlogs_refl [simp]: "modlogs w w"
  by (simp add: modlogs_def)

lemma modlogs_trans: "modlogs w v \<Longrightarrow> modlogs v u \<Longrightarrow> modlogs w u"
  by (simp add: modlogs_def)

lemma modlogs_sym: "modlogs w v \<Longrightarrow> modlogs v w"
  by (simp add: modlogs_def)

lemmas step_unfold = sendMessage_def logCost_def createCostEntry_def calculateCost_def
  MODEL_PRICING_at_def MODEL_PRICING_def DEFAULT_MODEL_def or_str_def trackUsage_def Let_def

lemma generateInitialPrompt_modlogs:
  assumes "modlogs w v"
  shows "fst (generateInitialPrompt env b a v) = fst (generateInitialPrompt env b a w) \<and>
         modlogs (snd (generateInitialPrompt env b a w)) (snd (generateInitialPrompt env b a v)) \<and>
         logs (snd (generateInitialPrompt env b a v)) = logs v"
  by (subst (1 2 3) modlogs_eq [OF assms])
    (simp add: generateInitialPrompt_def step_unfold modlogs_def split: sum.splits)

lemma analyzeGeneratedPrompt_modlogs:
  assumes "modlogs w v"
  shows "fst (analyzeGeneratedPrompt env p b a v) = fst (analyzeGeneratedPrompt env p b a w) \<and>
         modlogs (snd (analyzeGeneratedPrompt env p b a w)) (snd (analyzeGeneratedPrompt env p b a v)) \<and>
         logs (snd (analyzeGeneratedPrompt env p b a v)) = logs v"
  by (subst (1 2 3) modlogs_eq [OF assms])
    (simp add: analyzeGeneratedPrompt_def step_unfold modlogs_def split: sum.splits)

lemma improveGeneratedPrompt_modlogs:
  assumes "modlogs w v"
  shows "fst (improveGeneratedPrompt env p f b a i v) = fst (improveGeneratedPrompt env p f b a i w) \<and>
         modlogs (snd (improveGeneratedPrompt env p f b a i w)) (snd (improveGeneratedPrompt env p f b a i v)) \<and>
         logs (snd (improveGeneratedPrompt env p f b a i v)) = logs v"
  by (subst (1 2 3) modlogs_eq [OF assms])
    (simp add: improveGeneratedPrompt_def step_unfold modlogs_def split: sum.splits)

lemma refine_step:
  "i < m \<Longrightarrow>
   refine env b a m i st w =
     (case fst (analyzeGeneratedPrompt env (currentPrompt st) b a w) of
        Inl e \<Rightarrow> (Inl e, snd (analyzeGeneratedPrompt env (currentPrompt st) b a w))
      | Inr p \<Rightarrow>
          (case fst (improveGeneratedPrompt env (currentPrompt st) (fst p) b a (i + 1)
                       (snd (analyzeGeneratedPrompt env (currentPrompt st) b a w))) of
             Inl e \<Rightarrow> (Inl e, snd (improveGeneratedPrompt env (currentPrompt st) (fst p) b a (i + 1)
                       (snd (analyzeGeneratedPrompt env (currentPrompt st) b a w))))
           | Inr q \<Rightarrow>
               refine env b a m (i + 1)
                 \<lparr>currentPrompt = fst q,
                  iterations = iterations st @
                    [\<lparr>iterationNumber = i + 1, feedback = fst p,
                      changes = ''Iteration '' @ string_of_int (i + 1) @ '' improvements applied'',
                      promptSnapshot = fst q\<rparr>],
                  totalUsage = addUsage (addUsage (totalUsage st) (snd p)) (snd q)\<rparr>
                 (snd (improveGeneratedPrompt env (currentPrompt st) (fst p) b a (i + 1)
                       (snd (analyzeGeneratedPrompt env (currentPrompt st) b a w))))))"
  by (subst refine.simps) (simp split: prod.splits sum.splits)

lemma refine_modlogs:
  "modlogs w v \<Longrightarrow>
     fst (refine env b a m i st v) = fst (refine env b a m i st w) \<and>
     modlogs (snd (refine env b a m i st w)) (snd (refine env b a m i st v)) \<and>
     logs (snd (refine env b a m i st v)) = logs v"
proof (induction env b a m i st w arbitrary: v rule: refine.induct)
  case (1 env b a m i st w)
  show ?case
  proof (cases "i < m")
    case False
    with "1.prems" show ?thesis by (simp add: refine_done)
  next
    case True
    let ?A = "analyzeGeneratedPrompt env (currentPrompt st) b a w"
    let ?A' = "analyzeGeneratedPrompt env (currentPrompt st) b a v"
    note ma = analyzeGeneratedPrompt_modlogs [OF "1.prems", of env "currentPrompt st" b a]
    show ?thesis
    proof (cases "fst ?A")
      case (Inl e)
      with ma True show ?thesis by (simp add: refine_step)
    next
      case (Inr p)
      let ?I = "improveGeneratedPrompt env (currentPrompt st) (fst p) b a (i + 1) (snd ?A)"
      let ?I' = "improveGeneratedPrompt env (currentPrompt st) (fst p) b a (i + 1) (snd ?A')"
      have m1: "modlogs (snd ?A) (snd ?A')" using ma by simp
      note mi = improveGeneratedPrompt_modlogs [OF m1, of env "currentPrompt st" "fst p" b a "i + 1"]
      show ?thesis
      proof (cases "fst ?I")
        case (Inl e)
        with ma mi True Inr show ?thesis by (simp add: refine_step)
      next
        case (Inr q)
        have m2: "modlogs (snd ?I) (snd ?I')" using mi by simp
        note IH = "1.IH" [OF True prod.collapse \<open>fst ?A = Inr p\<close>
            prod.collapse prod.collapse Inr prod.collapse m2]
        with ma mi True Inr \<open>fst ?A = Inr p\<close> show ?thesis by (simp add: refine_step)
      qed
    qed
  qed
qed

lemma generatePromptWithIteration_snd:
  "snd (generatePromptWithIteration env b a k w) =
     (case fst (generateInitialPrompt env b a w) of
        Inl e \<Rightarrow> snd (generateInitialPrompt env b a w)
      | Inr p \<Rightarrow>
          snd (refine env b a (or_int k 1) 0
                       \<lparr>currentPrompt = fst p, iterations = [],
                        totalUsage = addUsage \<lparr>inputTokens = 0, outputTokens = 0,
                           cacheReadTokens = None, cacheWriteTokens = None\<rparr> (snd p)\<rparr>
                       (snd (generateInitialPrompt env b a w))))"
  by (simp add: generatePromptWithIteration_def Let_def split: prod.splits sum.splits)

lemma generatePromptWithIteration_modlogs:
  assumes "modlogs w v"
  shows "fst (generatePromptWithIteration env b a k v) = fst (generatePromptWithIteration env b a k w) \<and>
     modlogs (snd (generatePromptWithIteration env b a k w)) (snd (generatePromptWithIteration env b a k v)) \<and>
     logs (snd (generatePromptWithIteration env b a k v)) = logs v"
proof -
  note mg = generateInitialPrompt_modlogs [OF assms, of env b a]
  then have m1: "modlogs (snd (generateInitialPrompt env b a w)) (snd (generateInitialPrompt env b a v))"
    by simp
  show ?thesis
  proof (cases "fst (generateInitialPrompt env b a w)")
    case (Inl e)
    with mg show ?thesis
      by (simp add: generatePromptWithIteration_fst generatePromptWithIteration_snd)
  next
    case (Inr p)
    note mr = refine_modlogs [OF m1, of env b a "or_int k 1" 0
        "\<lparr>currentPrompt = fst p, iterations = [],
          totalUsage = addUsage \<lparr>inputTokens = 0, outputTokens = 0,
             cacheReadTokens = None, cacheWriteTokens = None\<rparr> (snd p)\<rparr>"]
    with mg Inr show ?thesis
      by (simp add: generatePromptWithIteration_fst generatePromptWithIteration_snd)
  qed
qed

lemma resetSession_frame [simp]:
  "calls (resetSession w) = calls w" "logs (resetSession w) = logs w"
  "sessionCosts (resetSession w) = []"
  by (simp_all add: resetSession_def)

lemma runPipeline_generation_fails:
  assumes acct: "loadAccountConfig env (pi_accountId payload) = Inr (Some ac)"
    and key: "fst (validateApiKeyConfigured env)"
    and gen: "fst (generatePromptWithIteration env (briefing payload) (pi_accountId payload)
                 (Some (cfg_maxIterations (mergeConfig config))) w0) = Inl e"
  shows "pr_status (fst (runPipeline env payload config w0)) = failed \<and>
         pr_error (fst (runPipeline env payload config w0)) = Some e \<and>
         generatedPrompt (fst (runPipeline env payload config w0)) = None \<and>
         injectionFile (fst (runPipeline env payload config w0)) = None \<and>
         steps (fst (runPipeline env payload config w0)) =
           [\<lparr>ps_name = ''Load Account Config'', ps_status = running, ps_error = None\<rparr>,
            \<lparr>ps_name = ''Load Account Config'', ps_status = completed, ps_error = None\<rparr>,
            \<lparr>ps_name = ''Generate Prompt'', ps_status = running, ps_error = None\<rparr>]"
proof -
  define cfg where "cfg = mergeConfig config"
  define cw where "cw = initContext env cfg payload (resetSession w0)"
  define sw3 where "sw3 = logStep env cfg (fst cw) ''Generate Prompt'' running None
     (logStep env cfg (fst cw) ''Load Account Config'' completed None
       (logStep env cfg (fst cw) ''Load Account Config'' running None ([], snd cw)))"
  have fr: "frame (resetSession w0) (snd sw3)"
    unfolding sw3_def by (intro logStep_frame2) (simp add: cw_def)
  have "length (calls (snd sw3)) = length (calls w0)"
    using frameD(3) [OF fr] by simp
  from generatePromptWithIteration_indep [OF this, of env "briefing payload" "pi_accountId payload"
      "Some (cfg_maxIterations (mergeConfig config))"] gen
  have g: "fst (generatePromptWithIteration env (briefing payload) (pi_accountId payload)
                 (Some (cfg_maxIterations cfg)) (snd sw3)) = Inl e"
    by (simp add: cfg_def)
  then obtain w4 where G: "generatePromptWithIteration env (briefing payload) (pi_accountId payload)
                 (Some (cfg_maxIterations cfg)) (snd sw3) = (Inl e, w4)"
    by (cases "generatePromptWithIteration env (briefing payload) (pi_accountId payload)
                 (Some (cfg_maxIterations cfg)) (snd sw3)") auto
  have R: "runPipeline env payload config w0 = catchFatal env payload (fst sw3) e (fst cw) w4"
    unfolding runPipeline_def Let_def cfg_def [symmetric] cw_def [symmetric] sw3_def [symmetric]
    using acct key G by simp
  show ?thesis
    unfolding R catchFatal_fst by (simp add: sw3_def)
qed

lemma createFailedResult_costs:
  "costEntries (fst (createFailedResult env payload ss e ctx w)) =
     sessionCosts (snd (createFailedResult env payload ss e ctx w))"
  by (simp add: createFailedResult_def Let_def getSessionCosts_def)

lemma catchFatal_costs:
  "costEntries (fst (catchFatal env payload ss e ctx w)) =
     sessionCosts (snd (catchFatal env payload ss e ctx w))"
  by (simp add: catchFatal_def createFailedResult_costs)

lemma runPipeline_costs:
  "costEntries (fst (runPipeline env payload config w0)) = sessionCosts (snd (runPipeline env payload config w0))"
  unfolding runPipeline_def Let_def
  by (simp add: createFailedResult_costs catchFatal_costs getSessionCosts_def
      split: sum.splits option.splits prod.splits)

lemma determineVersion_frame2: "frame w w1 \<Longrightarrow> frame w (snd (determineVersion env cfg ctx w1))"
  by (rule frame_trans [OF _ determineVersion_frame])

lemma saveCostsToSupabase_frame2: "frame w w1 \<Longrightarrow> frame w (saveCostsToSupabase env ctx op w1)"
  by (rule frame_trans [OF _ saveCostsToSupabase_frame])

lemma stepSavePromptVersion_frame2:
  "frame w (snd sw) \<Longrightarrow> frame w (snd (stepSavePromptVersion env cfg ctx payload gp injFile v n sw))"
  by (rule frame_trans [OF _ stepSavePromptVersion_frame])

lemma stepLogCosts_frame2:
  "frame w (snd sw) \<Longrightarrow> frame w (snd (stepLogCosts env cfg ctx payload gp v sw))"
  by (rule frame_trans [OF _ stepLogCosts_frame])

lemma completeRun_frame2: "frame w w1 \<Longrightarrow> frame w (completeRun env cfg ctx w1)"
  by (rule frame_trans [OF _ completeRun_frame])

lemma catchFatal_frame2: "frame w w1 \<Longrightarrow> frame w (snd (catchFatal env payload ss e ctx w1))"
  by (rule frame_trans [OF _ catchFatal_frame])

lemma createFailedResult_frame2:
  "frame w w1 \<Longrightarrow> frame w (snd (createFailedResult env payload ss e ctx w1))"
  by (rule frame_trans [OF _ createFailedResult_frame])

lemma initContext_frame2: "frame w w1 \<Longrightarrow> frame w (snd (initContext env cfg payload w1))"
  by (rule frame_trans [OF _ initContext_frame])

lemmas frame_intros = logStep_frame2 determineVersion_frame2 saveCostsToSupabase_frame2
  stepSavePromptVersion_frame2 stepLogCosts_frame2 completeRun_frame2 catchFatal_frame2
  createFailedResult_frame2 initContext_frame2 frame_warn2 frame_error2

text \<open>The part of \<open>runPipeline\<close> that follows a returned generation.\<close>

lemma runPipeline_ledger:
  assumes acct: "loadAccountConfig env (pi_accountId payload) = Inr (Some ac)"
    and key: "fst (validateApiKeyConfigured env)"
  shows "modlogs (snd (generatePromptWithIteration env (briefing payload) (pi_accountId payload)
                   (Some (cfg_maxIterations (mergeConfig config))) (resetSession w0)))
           (snd (runPipeline env payload config w0))"
proof -
  define cfg where "cfg = mergeConfig config"
  define cw where "cw = initContext env cfg payload (resetSession w0)"
  define sw3 where "sw3 = logStep env cfg (fst cw) ''Generate Prompt'' running None
     (logStep env cfg (fst cw) ''Load Account Config'' completed None
       (logStep env cfg (fst cw) ''Load Account Config'' running None ([], snd cw)))"
  have fr: "frame (resetSession w0) (snd sw3)"
    unfolding sw3_def by (intro logStep_frame2) (simp add: cw_def)
  obtain r4 w4 where G: "generatePromptWithIteration env (briefing payload) (pi_accountId payload)
                 (Some (cfg_maxIterations cfg)) (snd sw3) = (r4, w4)"
    by (cases "generatePromptWithIteration env (briefing payload) (pi_accountId payload)
                 (Some (cfg_maxIterations cfg)) (snd sw3)")
  from generatePromptWithIteration_modlogs [OF frame_modlogs [OF fr], of env "briefing payload"
      "pi_accountId payload" "Some (cfg_maxIterations cfg)"] G
  have m: "modlogs (snd (generatePromptWithIteration env (briefing payload) (pi_accountId payload)
                   (Some (cfg_maxIterations cfg)) (resetSession w0))) w4"
    by simp
  have "frame w4 (snd (runPipeline env payload config w0))"
    unfolding runPipeline_def Let_def cfg_def [symmetric] cw_def [symmetric] sw3_def [symmetric]
    using acct key G
    by (auto split: sum.splits option.splits intro!: frame_intros)
  from modlogs_trans [OF m frame_modlogs [OF this]] show ?thesis
    by (simp add: cfg_def)
qed

lemma runPipeline_early_ledger:
  assumes "\<not> ((\<exists>ac. loadAccountConfig env (pi_accountId payload) = Inr (Some ac)) \<and>
              fst (validateApiKeyConfigured env))"
  shows "frame (resetSession w0) (snd (runPipeline env payload config w0))"
  unfolding runPipeline_def Let_def
  using assms
  by (auto split: sum.splits option.splits intro!: frame_intros)

lemma stepSavePromptVersion_steps:
  "fst (stepSavePromptVersion env cfg ctx payload gp injFile v n sw) =
     fst sw @
     (case ctx of
        None \<Rightarrow> []
      | Some c \<Rightarrow>
          if enableSupabase cfg then
            [\<lparr>ps_name = ''Save Prompt Version'', ps_status = running, ps_error = None\<rparr>,
             (case createPromptVersion env (promptVersionRow env c payload gp injFile v n) of
                Inl e \<Rightarrow> \<lparr>ps_name = ''Save Prompt Version'', ps_status = failed,
                           ps_error = Some ''Failed to save to Supabase (non-fatal)''\<rparr>
              | Inr _ \<Rightarrow> \<lparr>ps_name = ''Save Prompt Version'', ps_status = completed,
                           ps_error = None\<rparr>)]
          else [])"
  by (simp add: stepSavePromptVersion_def Let_def split: option.splits sum.splits)

lemma stepLogCosts_steps:
  "fst (stepLogCosts env cfg ctx payload gp v sw) =
     fst sw @
     (if enableCostTracking cfg then
        [\<lparr>ps_name = ''Log Costs'', ps_status = running, ps_error = None\<rparr>,
         (case logCostsToSheets env (pi_accountId payload) (b_assistantId (briefing payload))
                 cfg v (briefing payload) (gp_content gp)
                 (snd (logStep env cfg ctx ''Log Costs'' running None sw)) of
            Inl e \<Rightarrow> \<lparr>ps_name = ''Log Costs'', ps_status = failed,
                       ps_error = Some ''Failed to log to Google Sheets (non-fatal)''\<rparr>
          | Inr _ \<Rightarrow> \<lparr>ps_name = ''Log Costs'', ps_status = completed, ps_error = None\<rparr>)]
      else [])"
  by (simp add: stepLogCosts_def Let_def split: option.splits sum.splits)

lemma runPipeline_completed:
  assumes acct: "loadAccountConfig env (pi_accountId payload) = Inr (Some ac)"
    and key: "fst (validateApiKeyConfigured env)"
    and gen: "fst (generatePromptWithIteration env (briefing payload) (pi_accountId payload)
                 (Some (cfg_maxIterations (mergeConfig config))) w0) = Inr gp"
    and inj: "\<And>v. \<exists>f. createInjectionFromPrompt env gp v = Inr f"
  shows "\<exists>sw10 ctx v n f.
           fst sw10 =
             [\<lparr>ps_name = ''Load Account Config'', ps_status = running, ps_error = None\<rparr>,
              \<lparr>ps_name = ''Load Account Config'', ps_status = completed, ps_error = None\<rparr>,
              \<lparr>ps_name = ''Generate Prompt'', ps_status = running, ps_error = None\<rparr>,
              \<lparr>ps_name = ''Generate Prompt'', ps_status = completed, ps_error = None\<rparr>,
              \<lparr>ps_name = ''Determine Version'', ps_status = running, ps_error = None\<rparr>,
              \<lparr>ps_name = ''Determine Version'', ps_status = completed, ps_error = None\<rparr>,
              \<lparr>ps_name = ''Create Injection File'', ps_status = running, ps_error = None\<rparr>,
              \<lparr>ps_name = ''Create Injection File'', ps_status = completed, ps_error = None\<rparr>] \<and>
           ctx = fst (initContext env (mergeConfig config) payload (resetSession w0)) \<and>
           fst (runPipeline env payload config w0) =
             \<lparr>pr_status = completed, pr_accountId = pi_accountId payload,
              pr_assistantId = b_assistantId (briefing payload),
              generatedPrompt = Some gp, injectionFile = Some f,
              costEntries = sessionCosts (snd (runPipeline env payload config w0)),
              steps = fst (stepLogCosts env (mergeConfig config) ctx payload gp v
                        (stepSavePromptVersion env (mergeConfig config) ctx payload gp f v n sw10)),
              pr_error = None\<rparr>"
proof -
  define cfg where "cfg = mergeConfig config"
  define cw where "cw = initContext env cfg payload (resetSession w0)"
  define sw3 where "sw3 = logStep env cfg (fst cw) ''Generate Prompt'' running None
     (logStep env cfg (fst cw) ''Load Account Config'' completed None
       (logStep env cfg (fst cw) ''Load Account Config'' running None ([], snd cw)))"
  have fr: "frame (resetSession w0) (snd sw3)"
    unfolding sw3_def by (intro logStep_frame2) (simp add: cw_def)
  have "length (calls (snd sw3)) = length (calls w0)"
    using frameD(3) [OF fr] by simp
  from generatePromptWithIteration_indep [OF this, of env "briefing payload" "pi_accountId payload"
      "Some (cfg_maxIterations (mergeConfig config))"] gen
  have g: "fst (generatePromptWithIteration env (briefing payload) (pi_accountId payload)
                 (Some (cfg_maxIterations cfg)) (snd sw3)) = Inr gp"
    by (simp add: cfg_def)
  then obtain w4 where G: "generatePromptWithIteration env (briefing payload) (pi_accountId payload)
                 (Some (cfg_maxIterations cfg)) (snd sw3) = (Inr gp, w4)"
    by (cases "generatePromptWithIteration env (briefing payload) (pi_accountId payload)
                 (Some (cfg_maxIterations cfg)) (snd sw3)") auto
  define sw5 where "sw5 = logStep env cfg (fst cw) ''Generate Prompt'' completed None (fst sw3, w4)"
  define w6 where "w6 = (case fst cw of None \<Rightarrow> snd sw5
     | Some ctx \<Rightarrow> if enableSupabase cfg
         then saveCostsToSupabase env ctx ''prompt_generation'' (snd sw5) else snd sw5)"
  define sw7 where "sw7 = logStep env cfg (fst cw) ''Determine Version'' running None (fst sw5, w6)"
  define vw where "vw = determineVersion env cfg (fst cw) (snd sw7)"
  define sw9 where "sw9 = logStep env cfg (fst cw) ''Create Injection File'' running None
     (logStep env cfg (fst cw) ''Determine Version'' completed None (fst sw7, snd vw))"
  obtain f where F: "createInjectionFromPrompt env gp (fst (fst vw)) = Inr f"
    using inj by blast
  define sw10 where "sw10 = logStep env cfg (fst cw) ''Create Injection File'' completed None sw9"
  have R: "runPipeline env payload config w0 =
      (\<lparr>pr_status = completed, pr_accountId = pi_accountId payload,
              pr_assistantId = b_assistantId (briefing payload),
              generatedPrompt = Some gp, injectionFile = Some f,
              costEntries = getSessionCosts (completeRun env cfg (fst cw)
                (snd (stepLogCosts env cfg (fst cw) payload gp (fst (fst vw))
                        (stepSavePromptVersion env cfg (fst cw) payload gp f (fst (fst vw))
                           (snd (fst vw)) sw10)))),
              steps = fst (stepLogCosts env cfg (fst cw) payload gp (fst (fst vw))
                        (stepSavePromptVersion env cfg (fst cw) payload gp f (fst (fst vw))
                           (snd (fst vw)) sw10)),
              pr_error = None\<rparr>,
       completeRun env cfg (fst cw)
                (snd (stepLogCosts env cfg (fst cw) payload gp (fst (fst vw))
                        (stepSavePromptVersion env cfg (fst cw) payload gp f (fst (fst vw))
                           (snd (fst vw)) sw10))))"
    using acct key G F
    unfolding runPipeline_def Let_def sw10_def sw9_def vw_def sw7_def w6_def sw5_def sw3_def
      cw_def cfg_def
    by simp
  have S: "fst sw10 =
             [\<lparr>ps_name = ''Load Account Config'', ps_status = running, ps_error = None\<rparr>,
              \<lparr>ps_name = ''Load Account Config'', ps_status = completed, ps_error = None\<rparr>,
              \<lparr>ps_name = ''Generate Prompt'', ps_status = running, ps_error = None\<rparr>,
              \<lparr>ps_name = ''Generate Prompt'', ps_status = completed, ps_error = None\<rparr>,
              \<lparr>ps_name = ''Determine Version'', ps_status = running, ps_error = None\<rparr>,
              \<lparr>ps_name = ''Determine Version'', ps_status = completed, ps_error = None\<rparr>,
              \<lparr>ps_name = ''Create Injection File'', ps_status = running, ps_error = None\<rparr>,
              \<lparr>ps_name = ''Create Injection File'', ps_status = completed, ps_error = None\<rparr>]"
    by (simp add: sw10_def sw9_def sw7_def sw5_def sw3_def)
  show ?thesis
    apply (rule exI [of _ sw10])
    apply (rule exI [of _ "fst cw"])
    apply (rule exI [of _ "fst (fst vw)"])
    apply (rule exI [of _ "snd (fst vw)"])
    apply (rule exI [of _ f])
    using S R by (simp add: cw_def cfg_def getSessionCosts_def)
qed

lemma initContext_fst:
  "fst (initContext env cfg payload w) = fst (initContext env cfg payload w')"
  by (simp add: initContext_def split: sum.splits)

lemma initContext_Some:
  "fst (initContext env cfg payload w) = Some c \<Longrightarrow> enableSupabase cfg"
  by (simp add: initContext_def split: if_splits sum.splits)

lemma getLatestPromptVersion_value:
  "fst (getLatestPromptVersion env a w) =
     (case getSupabaseClient env of
        Some e \<Rightarrow> Inl e
      | None \<Rightarrow>
          (case select_error env a of
             Some e \<Rightarrow> Inl e
           | None \<Rightarrow>
               (case map sint (prompt_versions env a) of
                  [] \<Rightarrow> Inr None
                | r # rs \<Rightarrow> Inr (Some (fold max rs r)))))"
  by (simp add: getLatestPromptVersion_def split: option.splits list.splits)

lemma getNextVersionNumber_value:
  "fst (getNextVersionNumber env a w) =
     (case getSupabaseClient env of
        Some e \<Rightarrow> Inl e
      | None \<Rightarrow>
          (case rpc_get_next_version_number env a of
             Inl e \<Rightarrow>
               (case fst (getLatestPromptVersion env a
                            (logger_error ''Failed to get next version number'' w)) of
                  Inl e' \<Rightarrow> Inl e'
                | Inr latest \<Rightarrow> Inr (or_int latest 0 + 1))
           | Inr data \<Rightarrow> Inr data))"
  by (simp add: getNextVersionNumber_def split: option.splits prod.splits sum.splits)

lemma getNextVersionNumber_fst:
  "fst (getNextVersionNumber env a w) = fst (getNextVersionNumber env a w')"
  unfolding getNextVersionNumber_value getLatestPromptVersion_value by (rule refl)

lemma determineVersion_value:
  "fst (determineVersion env cfg ctx w) =
     (case ctx of
        None \<Rightarrow> (''v1'', 1)
      | Some c \<Rightarrow>
          if enableSupabase cfg then
            (case fst (getNextVersionNumber env (sas_id (assistant c)) w) of
               Inl e \<Rightarrow> (''v1'', 1)
             | Inr n \<Rightarrow> (''v'' @ string_of_int n, n))
          else (''v1'', 1))"
  by (simp add: determineVersion_def split: option.splits prod.splits sum.splits)

lemma determineVersion_fst:
  "fst (determineVersion env cfg ctx w) = fst (determineVersion env cfg ctx w')"
  unfolding determineVersion_value getNextVersionNumber_value getLatestPromptVersion_value
  by (rule refl)

lemma logCostsToSheets_ledger:
  assumes "sessionCosts w = sessionCosts v"
  shows "logCostsToSheets env a b c ver br pc w = logCostsToSheets env a b c ver br pc v"
  unfolding logCostsToSheets_def getSessionCosts_def assms by (rule refl)

text \<open>
  The result of a run whose refinement loop returned: the packaging function is called
  with the assigned version; if it throws the run fails, otherwise the run completes
  and steps 5 and 6 are recorded as \<open>save_trace\<close> and \<open>log_trace\<close> say.
\<close>

lemma runPipeline_after_generation:
  assumes acct: "loadAccountConfig env (pi_accountId payload) = Inr (Some ac)"
    and key: "fst (validateApiKeyConfigured env)"
    and gen: "fst (generatePromptWithIteration env (briefing payload) (pi_accountId payload)
                 (Some (cfg_maxIterations (mergeConfig config))) w0) = Inr gp"
  shows "fst (runPipeline env payload config w0) =
     (case createInjectionFromPrompt env gp (fst (assignedVersion env payload config)) of
        Inl e \<Rightarrow>
          \<lparr>pr_status = failed, pr_accountId = pi_accountId payload,
           pr_assistantId = b_assistantId (briefing payload),
           generatedPrompt = None, injectionFile = None,
           costEntries = sessionCosts (ledgerWorld env payload config w0),
           steps = passed ''Load Account Config'' @ passed ''Generate Prompt'' @
                   passed ''Determine Version'' @
                   [step_entry ''Create Injection File'' running None],
           pr_error = Some e\<rparr>
      | Inr f \<Rightarrow>
          \<lparr>pr_status = completed, pr_accountId = pi_accountId payload,
           pr_assistantId = b_assistantId (briefing payload),
           generatedPrompt = Some gp, injectionFile = Some f,
           costEntries = sessionCosts (ledgerWorld env payload config w0),
           steps = passed ''Load Account Config'' @ passed ''Generate Prompt'' @
                   passed ''Determine Version'' @ passed ''Create Injection File'' @
                   save_trace env payload config gp f @ log_trace env payload config gp w0,
           pr_error = None\<rparr>)"
proof -
  define cfg where "cfg = mergeConfig config"
  define cw where "cw = initContext env cfg payload (resetSession w0)"
  define sw3 where "sw3 = logStep env cfg (fst cw) ''Generate Prompt'' running None
     (logStep env cfg (fst cw) ''Load Account Config'' completed None
       (logStep env cfg (fst cw) ''Load Account Config'' running None ([], snd cw)))"
  have ctx: "fst cw = durableContext env payload config"
    unfolding cw_def durableContext_def cfg_def by (rule initContext_fst)
  have fr: "frame (resetSession w0) (snd sw3)"
    unfolding sw3_def by (intro logStep_frame2) (simp add: cw_def)
  have "length (calls (snd sw3)) = length (calls w0)"
    using frameD(3) [OF fr] by simp
  from generatePromptWithIteration_indep [OF this, of env "briefing payload" "pi_accountId payload"
      "Some (cfg_maxIterations (mergeConfig config))"] gen
  have g: "fst (generatePromptWithIteration env (briefing payload) (pi_accountId payload)
                 (Some (cfg_maxIterations cfg)) (snd sw3)) = Inr gp"
    by (simp add: cfg_def)
  then obtain w4 where G: "generatePromptWithIteration env (briefing payload) (pi_accountId payload)
                 (Some (cfg_maxIterations cfg)) (snd sw3) = (Inr gp, w4)"
    by (cases "generatePromptWithIteration env (briefing payload) (pi_accountId payload)
                 (Some (cfg_maxIterations cfg)) (snd sw3)") auto
  from generatePromptWithIteration_modlogs [OF frame_modlogs [OF fr], of env "briefing payload"
      "pi_accountId payload" "Some (cfg_maxIterations cfg)"] G
  have led: "sessionCosts w4 = sessionCosts (ledgerWorld env payload config w0)"
    by (simp add: ledgerWorld_def cfg_def modlogs_def)
  define sw5 where "sw5 = logStep env cfg (fst cw) ''Generate Prompt'' completed None (fst sw3, w4)"
  define w6 where "w6 = (case fst cw of None \<Rightarrow> snd sw5
     | Some ctx \<Rightarrow> if enableSupabase cfg
         then saveCostsToSupabase env ctx ''prompt_generation'' (snd sw5) else snd sw5)"
  define sw7 where "sw7 = logStep env cfg (fst cw) ''Determine Version'' running None (fst sw5, w6)"
  define vw where "vw = determineVersion env cfg (fst cw) (snd sw7)"
  define sw9 where "sw9 = logStep env cfg (fst cw) ''Create Injection File'' running None
     (logStep env cfg (fst cw) ''Determine Version'' completed None (fst sw7, snd vw))"
  define sw10 where "sw10 = logStep env cfg (fst cw) ''Create Injection File'' completed None sw9"
  have ver: "fst vw = assignedVersion env payload config"
    unfolding vw_def assignedVersion_def ctx cfg_def by (rule determineVersion_fst)
  have f6: "frame w4 w6"
    unfolding w6_def sw5_def
    by (auto split: option.splits intro!: frame_intros)
  have f7: "frame w4 (snd sw7)"
    unfolding sw7_def by (intro frame_intros) (simp add: f6)
  have fv: "frame w4 (snd vw)"
    unfolding vw_def by (rule determineVersion_frame2 [OF f7])
  have f9: "frame w4 (snd sw9)"
    unfolding sw9_def by (intro frame_intros) (simp add: fv)
  have f10: "frame w4 (snd sw10)"
    unfolding sw10_def by (intro frame_intros f9)
  have S9: "fst sw9 = passed ''Load Account Config'' @ passed ''Generate Prompt'' @
                   passed ''Determine Version'' @
                   [step_entry ''Create Injection File'' running None]"
    by (simp add: sw9_def sw7_def sw5_def sw3_def passed_def step_entry_def)
  have S10: "fst sw10 = passed ''Load Account Config'' @ passed ''Generate Prompt'' @
                   passed ''Determine Version'' @ passed ''Create Injection File''"
    by (simp add: sw10_def S9 passed_def step_entry_def)
  show ?thesis
  proof (cases "createInjectionFromPrompt env gp (fst (fst vw))")
    case (Inl e)
    have R: "runPipeline env payload config w0 = catchFatal env payload (fst sw9) e (fst cw) (snd sw9)"
      using acct key G Inl
      unfolding runPipeline_def Let_def sw9_def vw_def sw7_def w6_def sw5_def sw3_def
        cw_def cfg_def
      by simp
    have "sessionCosts (snd sw9) = sessionCosts w4"
      using frameD(1) [OF f9] .
    then show ?thesis
      using Inl unfolding R catchFatal_fst ver S9 led by simp
  next
    case (Inr f)
    define sw11 where "sw11 = stepSavePromptVersion env cfg (fst cw) payload gp f (fst (fst vw))
                           (snd (fst vw)) sw10"
    define sw12 where "sw12 = stepLogCosts env cfg (fst cw) payload gp (fst (fst vw)) sw11"
    have R: "runPipeline env payload config w0 =
      (\<lparr>pr_status = completed, pr_accountId = pi_accountId payload,
              pr_assistantId = b_assistantId (briefing payload),
              generatedPrompt = Some gp, injectionFile = Some f,
              costEntries = getSessionCosts (completeRun env cfg (fst cw) (snd sw12)),
              steps = fst sw12,
              pr_error = None\<rparr>,
       completeRun env cfg (fst cw) (snd sw12))"
      using acct key G Inr
      unfolding runPipeline_def Let_def sw12_def sw11_def sw10_def sw9_def vw_def sw7_def w6_def
        sw5_def sw3_def cw_def cfg_def
      by simp
    have f11: "frame w4 (snd sw11)"
      unfolding sw11_def by (intro frame_intros f10)
    have f11': "frame w4 (snd (logStep env cfg (fst cw) ''Log Costs'' running None sw11))"
      by (intro frame_intros f11)
    have f12: "frame w4 (snd sw12)"
      unfolding sw12_def by (intro frame_intros f11)
    have f13: "frame w4 (completeRun env cfg (fst cw) (snd sw12))"
      by (intro frame_intros f12)
    have costs: "getSessionCosts (completeRun env cfg (fst cw) (snd sw12)) =
                   sessionCosts (ledgerWorld env payload config w0)"
      using frameD(1) [OF f13] led by (simp add: getSessionCosts_def)
    have s11: "fst sw11 = fst sw10 @ save_trace env payload config gp f"
    proof (cases "durableContext env payload config")
      case None
      then show ?thesis
        unfolding sw11_def stepSavePromptVersion_steps ctx save_trace_def by simp
    next
      case (Some c)
      then have "enableSupabase cfg"
        using initContext_Some [of env cfg payload world0 c]
        by (simp add: durableContext_def cfg_def)
      with Some show ?thesis
        unfolding sw11_def stepSavePromptVersion_steps ctx save_trace_def ver
        by (simp add: step_entry_def split: sum.splits)
    qed
    have lc: "logCostsToSheets env (pi_accountId payload) (b_assistantId (briefing payload))
                 cfg (fst (fst vw)) (briefing payload) (gp_content gp)
                 (snd (logStep env cfg (fst cw) ''Log Costs'' running None sw11)) =
              logCostsToSheets env (pi_accountId payload) (b_assistantId (briefing payload))
                 (mergeConfig config) (fst (assignedVersion env payload config))
                 (briefing payload) (gp_content gp) (ledgerWorld env payload config w0)"
      unfolding ver cfg_def [symmetric]
      by (rule logCostsToSheets_ledger) (simp add: frameD(1) [OF f11'] led)
    have s12: "fst sw12 = fst sw11 @ log_trace env payload config gp w0"
      unfolding sw12_def stepLogCosts_steps lc log_trace_def
      by (simp add: cfg_def step_entry_def split: sum.splits)
    show ?thesis
      using Inr unfolding ver
      by (simp add: R costs s12 s11 S10)
  qed
qed

lemmas witness_eval = stub_eval generator_eval mergeConfig_def DEFAULT_CONFIG_def
  string_of_int_def string_of_nat.simps digit_char_def

text \<open>
  Claim C2. In a run whose account is found, whose API key is configured, whose
  refinement loop returns a prompt and whose packaging returns, the result has status
  \<open>completed\<close> and carries the generated prompt, whatever the Save Prompt Version and
  Log Costs steps do. When the run has a durable context and the insert of the row
  that it builds for the prompt version fails, \<open>steps\<close> has the failed entry of Save
  Prompt Version; when cost tracking is on and the spreadsheet flush of the run's
  ledger fails, \<open>steps\<close> has the failed entry of Log Costs. The failures are those of
  the calls that this run makes: with the version that step 3 assigned, the row that
  step 5 built from it, and the ledger that the refinement loop left.
\<close>

theorem auxiliary_failures_leave_run_completed:
  assumes acct: "loadAccountConfig env (pi_accountId payload) = Inr (Some ac)"
    and key: "fst (validateApiKeyConfigured env)"
    and gen: "fst (generatePromptWithIteration env (briefing payload) (pi_accountId payload)
                 (Some (cfg_maxIterations (mergeConfig config))) w0) = Inr gp"
    and inj: "createInjectionFromPrompt env gp (fst (assignedVersion env payload config)) = Inr f"
  shows "pr_status (fst (runPipeline env payload config w0)) = completed \<and>
         generatedPrompt (fst (runPipeline env payload config w0)) = Some gp \<and>
         (\<forall>ctx e. durableContext env payload config = Some ctx \<and>
            createPromptVersion env
              (promptVersionRow env ctx payload gp f (fst (assignedVersion env payload config))
                 (snd (assignedVersion env payload config))) = Inl e \<longrightarrow>
            \<lparr>ps_name = ''Save Prompt Version'', ps_status = failed,
             ps_error = Some ''Failed to save to Supabase (non-fatal)''\<rparr>
              \<in> set (steps (fst (runPipeline env payload config w0)))) \<and>
         (\<forall>e. enableCostTracking (mergeConfig config) \<and>
            logCostsToSheets env (pi_accountId payload) (b_assistantId (briefing payload))
              (mergeConfig config) (fst (assignedVersion env payload config)) (briefing payload)
              (gp_content gp) (ledgerWorld env payload config w0) = Inl e \<longrightarrow>
            \<lparr>ps_name = ''Log Costs'', ps_status = failed,
             ps_error = Some ''Failed to log to Google Sheets (non-fatal)''\<rparr>
              \<in> set (steps (fst (runPipeline env payload config w0))))"
proof -
  note R = runPipeline_after_generation [OF acct key gen, unfolded inj sum.case]
  have st: "pr_status (fst (runPipeline env payload config w0)) = completed"
    and g: "generatedPrompt (fst (runPipeline env payload config w0)) = Some gp"
    and steps: "steps (fst (runPipeline env payload config w0)) =
                  passed ''Load Account Config'' @ passed ''Generate Prompt'' @
                  passed ''Determine Version'' @ passed ''Create Injection File'' @
                  save_trace env payload config gp f @ log_trace env payload config gp w0"
    by (subst R, simp)+
  have save: "\<lparr>ps_name = ''Save Prompt Version'', ps_status = failed,
             ps_error = Some ''Failed to save to Supabase (non-fatal)''\<rparr>
              \<in> set (steps (fst (runPipeline env payload config w0)))"
    if "durableContext env payload config = Some ctx"
      and "createPromptVersion env
              (promptVersionRow env ctx payload gp f (fst (assignedVersion env payload config))
                 (snd (assignedVersion env payload config))) = Inl e" for ctx e
    unfolding steps using that by (simp add: save_trace_def step_entry_def)
  have logc: "\<lparr>ps_name = ''Log Costs'', ps_status = failed,
             ps_error = Some ''Failed to log to Google Sheets (non-fatal)''\<rparr>
              \<in> set (steps (fst (runPipeline env payload config w0)))"
    if "enableCostTracking (mergeConfig config)"
      and "logCostsToSheets env (pi_accountId payload) (b_assistantId (briefing payload))
              (mergeConfig config) (fst (assignedVersion env payload config)) (briefing payload)
              (gp_content gp) (ledgerWorld env payload config w0) = Inl e" for e
    unfolding steps using that by (simp add: log_trace_def step_entry_def)
  from st g save logc show ?thesis by blast
qed

lemma broken_sinks_generation:
  "fst (generatePromptWithIteration broken_sinks_env (briefing stub_payload) (pi_accountId stub_payload)
         (Some (cfg_maxIterations (mergeConfig no_config))) world0) = Inr stub_prompt"
  by (simp add: broken_sinks_env_def stub_prompt_def witness_eval)

lemma broken_sinks_context:
  "\<exists>c. durableContext broken_sinks_env stub_payload no_config = Some c"
  by (simp add: durableContext_def initContext_def initializeSupabaseContext_def
      broken_sinks_env_def stub_eval mergeConfig_def DEFAULT_CONFIG_def)

lemma broken_sinks_version:
  "assignedVersion broken_sinks_env stub_payload no_config = (''v1'', 1)"
proof -
  obtain c where c: "durableContext broken_sinks_env stub_payload no_config = Some c"
    using broken_sinks_context by blast
  show ?thesis
    unfolding assignedVersion_def c determineVersion_value getNextVersionNumber_value
    by (simp add: rpc_get_next_version_number_def get_next_version_number_def
        broken_sinks_env_def stub_env_def mergeConfig_def DEFAULT_CONFIG_def no_config_def
        string_of_int_def string_of_nat.simps digit_char_def)
qed

lemma broken_sinks_ledger:
  "map ce_operation (sessionCosts (ledgerWorld broken_sinks_env stub_payload no_config world0)) =
     [prompt_generation, prompt_analysis, prompt_improvement]"
  by (simp add: ledgerWorld_def broken_sinks_env_def resetSession_def witness_eval)

theorem auxiliary_failures_leave_run_completed_witness:
  "pr_status (fst (runPipeline broken_sinks_env stub_payload no_config world0)) = completed \<and>
   generatedPrompt (fst (runPipeline broken_sinks_env stub_payload no_config world0)) = Some stub_prompt \<and>
   \<lparr>ps_name = ''Save Prompt Version'', ps_status = failed,
    ps_error = Some ''Failed to save to Supabase (non-fatal)''\<rparr>
      \<in> set (steps (fst (runPipeline broken_sinks_env stub_payload no_config world0))) \<and>
   \<lparr>ps_name = ''Log Costs'', ps_status = failed,
    ps_error = Some ''Failed to log to Google Sheets (non-fatal)''\<rparr>
      \<in> set (steps (fst (runPipeline broken_sinks_env stub_payload no_config world0)))"
proof -
  have h1: "loadAccountConfig broken_sinks_env (pi_accountId stub_payload) =
              Inr (Some \<lparr>ac_id = ''acme'', ac_name = ''acme'', ac_assistants = []\<rparr>)"
    by (simp add: broken_sinks_env_def stub_eval)
  have h2: "fst (validateApiKeyConfigured broken_sinks_env)"
    by (simp add: broken_sinks_env_def stub_eval)
  have h4: "createInjectionFromPrompt broken_sinks_env stub_prompt
              (fst (assignedVersion broken_sinks_env stub_payload no_config)) =
            Inr \<lparr>if_accountId = ''acme'', if_assistantId = ''bot'', if_version = ''v1'',
                 if_filePath = Some ''injection.ts'', if_promptContent = Some ''IMPROVED''\<rparr>"
    unfolding broken_sinks_version
    by (simp add: broken_sinks_env_def stub_env_def stub_prompt_def)
  obtain c where c: "durableContext broken_sinks_env stub_payload no_config = Some c"
    using broken_sinks_context by blast
  have a3: "createPromptVersion broken_sinks_env
              (promptVersionRow broken_sinks_env c stub_payload stub_prompt
                 \<lparr>if_accountId = ''acme'', if_assistantId = ''bot'', if_version = ''v1'',
                  if_filePath = Some ''injection.ts'', if_promptContent = Some ''IMPROVED''\<rparr>
                 (fst (assignedVersion broken_sinks_env stub_payload no_config))
                 (snd (assignedVersion broken_sinks_env stub_payload no_config))) =
            Inl ''duplicate key''"
    unfolding broken_sinks_version
    by (simp add: promptVersionRow_def broken_sinks_env_def)
  have a1: "enableCostTracking (mergeConfig no_config)"
    by (simp add: mergeConfig_def DEFAULT_CONFIG_def no_config_def)
  have ne: "sessionCosts (ledgerWorld broken_sinks_env stub_payload no_config world0) \<noteq> []"
    using broken_sinks_ledger by auto
  have a4: "logCostsToSheets broken_sinks_env (pi_accountId stub_payload)
              (b_assistantId (briefing stub_payload)) (mergeConfig no_config)
              (fst (assignedVersion broken_sinks_env stub_payload no_config))
              (briefing stub_payload) (gp_content stub_prompt)
              (ledgerWorld broken_sinks_env stub_payload no_config world0) = Inl ''quota exceeded''"
    using ne unfolding broken_sinks_version
    by (simp add: logCostsToSheets_def getSessionCosts_def broken_sinks_env_def stub_env_def
        truthy_str_def)
  from auxiliary_failures_leave_run_completed [OF h1 h2 broken_sinks_generation h4]
    c a3 a1 a4
  show ?thesis by blast
qed

text \<open>
  Claim C3. In a run that reaches Generate Prompt (account found, API key configured)
  and whose refinement loop throws \<open>e\<close>, the result has status \<open>failed\<close>, the error
  \<open>e\<close>, no generated prompt and no injection file, and the recorded steps stop at the
  running entry of Generate Prompt: no later step was entered.
\<close>

theorem generate_failure_is_fatal:
  assumes "loadAccountConfig env (pi_accountId payload) = Inr (Some ac)"
    and "fst (validateApiKeyConfigured env)"
    and "fst (generatePromptWithIteration env (briefing payload) (pi_accountId payload)
                 (Some (cfg_maxIterations (mergeConfig config))) w0) = Inl e"
  shows "pr_status (fst (runPipeline env payload config w0)) = failed \<and>
         pr_error (fst (runPipeline env payload config w0)) = Some e \<and>
         generatedPrompt (fst (runPipeline env payload config w0)) = None \<and>
         injectionFile (fst (runPipeline env payload config w0)) = None \<and>
         steps (fst (runPipeline env payload config w0)) =
           [\<lparr>ps_name = ''Load Account Config'', ps_status = running, ps_error = None\<rparr>,
            \<lparr>ps_name = ''Load Account Config'', ps_status = completed, ps_error = None\<rparr>,
            \<lparr>ps_name = ''Generate Prompt'', ps_status = running, ps_error = None\<rparr>]"
  using assms by (rule runPipeline_generation_fails)

lemma flaky_acct:
  "loadAccountConfig flaky_env (pi_accountId stub_payload) =
     Inr (Some \<lparr>ac_id = ''acme'', ac_name = ''acme'', ac_assistants = []\<rparr>)"
  "fst (validateApiKeyConfigured flaky_env)"
  by (simp_all add: flaky_env_def stub_eval)

lemma flaky_generation:
  "fst (generatePromptWithIteration flaky_env (briefing stub_payload) (pi_accountId stub_payload)
         (Some (cfg_maxIterations (mergeConfig no_config))) world0) = Inl ''overloaded''"
  by (simp add: flaky_env_def failing_second_def witness_eval)

theorem generate_failure_is_fatal_witness:
  "pr_status (fst (runPipeline flaky_env stub_payload no_config world0)) = failed \<and>
   pr_error (fst (runPipeline flaky_env stub_payload no_config world0)) = Some ''overloaded'' \<and>
   generatedPrompt (fst (runPipeline flaky_env stub_payload no_config world0)) = None \<and>
   injectionFile (fst (runPipeline flaky_env stub_payload no_config world0)) = None \<and>
   length (steps (fst (runPipeline flaky_env stub_payload no_config world0))) = 3"
  using generate_failure_is_fatal [OF flaky_acct flaky_generation] by simp

text \<open>
  Claim C10. The cost entries of a failed result are the session ledger as the run
  left it. If the run reached Generate Prompt, they are the entries the refinement
  loop recorded, from the reset ledger, up to the failure; if it failed before, the
  ledger is the reset, empty one.
\<close>

theorem failed_result_keeps_costs:
  assumes "pr_status (fst (runPipeline env payload config w0)) = failed"
  shows "costEntries (fst (runPipeline env payload config w0)) =
           sessionCosts (snd (runPipeline env payload config w0)) \<and>
         ((\<exists>ac. loadAccountConfig env (pi_accountId payload) = Inr (Some ac)) \<and>
          fst (validateApiKeyConfigured env) \<longrightarrow>
            costEntries (fst (runPipeline env payload config w0)) =
              sessionCosts (snd (generatePromptWithIteration env (briefing payload)
                 (pi_accountId payload) (Some (cfg_maxIterations (mergeConfig config)))
                 (resetSession w0)))) \<and>
         (\<not> ((\<exists>ac. loadAccountConfig env (pi_accountId payload) = Inr (Some ac)) \<and>
              fst (validateApiKeyConfigured env)) \<longrightarrow>
            costEntries (fst (runPipeline env payload config w0)) = [])"
proof -
  have a: "costEntries (fst (runPipeline env payload config w0)) =
      sessionCosts (snd (generatePromptWithIteration env (briefing payload)
                 (pi_accountId payload) (Some (cfg_maxIterations (mergeConfig config)))
                 (resetSession w0)))"
    if "\<exists>ac. loadAccountConfig env (pi_accountId payload) = Inr (Some ac)"
      and k: "fst (validateApiKeyConfigured env)"
  proof -
    from that obtain ac where "loadAccountConfig env (pi_accountId payload) = Inr (Some ac)"
      by blast
    from runPipeline_ledger [OF this k, where config = config and ?w0.0 = w0] show ?thesis
      by (simp add: runPipeline_costs modlogs_def)
  qed
  have b: "costEntries (fst (runPipeline env payload config w0)) = []"
    if "\<not> ((\<exists>ac. loadAccountConfig env (pi_accountId payload) = Inr (Some ac)) \<and>
              fst (validateApiKeyConfigured env))"
    using frameD(1) [OF runPipeline_early_ledger [OF that, where config = config and ?w0.0 = w0]]
    by (simp add: runPipeline_costs)
  from a b runPipeline_costs [of env payload config w0] show ?thesis by blast
qed

theorem failed_result_keeps_costs_witness:
  "pr_status (fst (runPipeline flaky_env stub_payload no_config world0)) = failed \<and>
   map ce_operation (costEntries (fst (runPipeline flaky_env stub_payload no_config world0))) =
     [prompt_generation]"
proof -
  have f: "pr_status (fst (runPipeline flaky_env stub_payload no_config world0)) = failed"
    using runPipeline_generation_fails [OF flaky_acct flaky_generation] by simp
  have g: "map ce_operation (sessionCosts (snd (generatePromptWithIteration flaky_env
             (briefing stub_payload) (pi_accountId stub_payload)
             (Some (cfg_maxIterations (mergeConfig no_config))) (resetSession world0)))) =
           [prompt_generation]"
    by (simp add: flaky_env_def failing_second_def resetSession_def witness_eval)
  from failed_result_keeps_costs [OF f] flaky_acct
  have "costEntries (fst (runPipeline flaky_env stub_payload no_config world0)) =
          sessionCosts (snd (generatePromptWithIteration flaky_env
             (briefing stub_payload) (pi_accountId stub_payload)
             (Some (cfg_maxIterations (mergeConfig no_config))) (resetSession world0)))"
    by blast
  with f g show ?thesis by simp
qed

lemma stub_generation:
  assumes "complete env = stub_complete"
  shows "\<exists>gp w'. generatePromptWithIteration env b a (Some 1) w = (Inr gp, w') \<and>
           length (simpleIterations gp) = 1 \<and>
           map ce_operation (sessionCosts w') =
             map ce_operation (sessionCosts w) @ [prompt_generation, prompt_analysis, prompt_improvement] \<and>
           inputTokens (sessionUsage w') = inputTokens (sessionUsage w) + 300 \<and>
           outputTokens (sessionUsage w') = outputTokens (sessionUsage w) + 150"
  by (simp add: generator_eval assms stub_complete_def)

text \<open>
  Claim C7. A run of the pipeline with \<open>maxIterations = 1\<close> against the stub provider
  (fixed texts, 100 input and 50 output tokens on every call), with the account found,
  the API key configured and packaging returning, leaves exactly three cost entries in
  the session ledger (generation, analysis, improvement, in this order), which are the
  result's cost entries, totals of 300 input and 150 output tokens, and a generated
  prompt with exactly one iteration record. The other collaborators are arbitrary.
\<close>

theorem stub_run_one_iteration:
  assumes acct: "loadAccountConfig env (pi_accountId payload) = Inr (Some ac)"
    and key: "fst (validateApiKeyConfigured env)"
    and prov: "complete env = stub_complete"
    and it: "cfg_maxIterations (mergeConfig config) = 1"
    and inj: "\<And>gp v. \<exists>f. createInjectionFromPrompt env gp v = Inr f"
  shows "pr_status (fst (runPipeline env payload config w0)) = completed \<and>
         map ce_operation (sessionCosts (snd (runPipeline env payload config w0))) =
           [prompt_generation, prompt_analysis, prompt_improvement] \<and>
         costEntries (fst (runPipeline env payload config w0)) =
           sessionCosts (snd (runPipeline env payload config w0)) \<and>
         inputTokens (sessionUsage (snd (runPipeline env payload config w0))) = 300 \<and>
         outputTokens (sessionUsage (snd (runPipeline env payload config w0))) = 150 \<and>
         (\<exists>gp. generatedPrompt (fst (runPipeline env payload config w0)) = Some gp \<and>
               length (simpleIterations gp) = 1)"
proof -
  from stub_generation [OF prov, of "briefing payload" "pi_accountId payload" w0]
  obtain gp where gen: "fst (generatePromptWithIteration env (briefing payload) (pi_accountId payload)
                 (Some (cfg_maxIterations (mergeConfig config))) w0) = Inr gp"
    and one: "length (simpleIterations gp) = 1"
    by (auto simp: it)
  from runPipeline_completed [OF acct key gen inj]
  have st: "pr_status (fst (runPipeline env payload config w0)) = completed"
    and g: "generatedPrompt (fst (runPipeline env payload config w0)) = Some gp"
    by auto
  from stub_generation [OF prov, of "briefing payload" "pi_accountId payload" "resetSession w0"]
  have led: "map ce_operation (sessionCosts (snd (generatePromptWithIteration env (briefing payload)
                 (pi_accountId payload) (Some (cfg_maxIterations (mergeConfig config)))
                 (resetSession w0)))) = [prompt_generation, prompt_analysis, prompt_improvement]"
    and tin: "inputTokens (sessionUsage (snd (generatePromptWithIteration env (briefing payload)
                 (pi_accountId payload) (Some (cfg_maxIterations (mergeConfig config)))
                 (resetSession w0)))) = 300"
    and tout: "outputTokens (sessionUsage (snd (generatePromptWithIteration env (briefing payload)
                 (pi_accountId payload) (Some (cfg_maxIterations (mergeConfig config)))
                 (resetSession w0)))) = 150"
    by (auto simp: it resetSession_def)
  from runPipeline_ledger [OF acct key, where config = config and ?w0.0 = w0]
  have m: "sessionCosts (snd (runPipeline env payload config w0)) =
             sessionCosts (snd (generatePromptWithIteration env (briefing payload)
                 (pi_accountId payload) (Some (cfg_maxIterations (mergeConfig config)))
                 (resetSession w0)))"
    "sessionUsage (snd (runPipeline env payload config w0)) =
             sessionUsage (snd (generatePromptWithIteration env (briefing payload)
                 (pi_accountId payload) (Some (cfg_maxIterations (mergeConfig config)))
                 (resetSession w0)))"
    by (simp_all add: modlogs_def)
  from st g one led tin tout runPipeline_costs [of env payload config w0] show ?thesis
    unfolding m by simp
qed

theorem stub_run_one_iteration_witness:
  "map ce_operation (costEntries (fst (runPipeline stub_env stub_payload no_config world0))) =
     [prompt_generation, prompt_analysis, prompt_improvement] \<and>
   inputTokens (sessionUsage (snd (runPipeline stub_env stub_payload no_config world0))) = 300 \<and>
   outputTokens (sessionUsage (snd (runPipeline stub_env stub_payload no_config world0))) = 150 \<and>
   (\<exists>gp. generatedPrompt (fst (runPipeline stub_env stub_payload no_config world0)) = Some gp \<and>
         length (simpleIterations gp) = 1)"
proof -
  have h1: "loadAccountConfig stub_env (pi_accountId stub_payload) =
              Inr (Some \<lparr>ac_id = ''acme'', ac_name = ''acme'', ac_assistants = []\<rparr>)"
    by (simp add: stub_eval)
  have h2: "fst (validateApiKeyConfigured stub_env)"
    by (simp add: stub_eval)
  have h3: "complete stub_env = stub_complete"
    by (simp add: stub_env_def)
  have h4: "cfg_maxIterations (mergeConfig no_config) = 1"
    by (simp add: mergeConfig_def DEFAULT_CONFIG_def no_config_def)
  have h5: "\<exists>f. createInjectionFromPrompt stub_env gp v = Inr f" for gp v
    by (simp add: stub_eval)
  from stub_run_one_iteration [OF h1 h2 h3 h4 h5, of world0]
  show ?thesis by simp
qed

lemma step_trace_well_sequenced:
  "well_sequenced (map fst stepDefinitions) (step_trace env payload config w0)"
  by (simp add: step_trace_def passed_def step_entry_def save_trace_def log_trace_def
      stepDefinitions_def split: sum.splits option.splits)

lemma runPipeline_steps:
  "steps (fst (runPipeline env payload config w0)) = step_trace env payload config w0"
proof (cases "loadAccountConfig env (pi_accountId payload)")
  case (Inl e)
  then show ?thesis
    unfolding runPipeline_def Let_def step_trace_def
    by (simp add: catchFatal_fst step_entry_def)
next
  case (Inr found)
  show ?thesis
  proof (cases found)
    case None
    with Inr show ?thesis
      unfolding runPipeline_def Let_def step_trace_def
      by (simp add: createFailedResult_fst step_entry_def)
  next
    case (Some ac)
    with Inr have acct: "loadAccountConfig env (pi_accountId payload) = Inr (Some ac)" by simp
    show ?thesis
    proof (cases "fst (validateApiKeyConfigured env)")
      case False
      with acct show ?thesis
        unfolding runPipeline_def Let_def step_trace_def
        by (simp add: createFailedResult_fst step_entry_def)
    next
      case True
      show ?thesis
      proof (cases "fst (generatePromptWithIteration env (briefing payload) (pi_accountId payload)
                 (Some (cfg_maxIterations (mergeConfig config))) w0)")
        case (Inl e)
        from runPipeline_generation_fails [OF acct True Inl] show ?thesis
          unfolding step_trace_def
          by (simp add: acct True Inl passed_def step_entry_def)
      next
        case (Inr gp)
        show ?thesis
          unfolding runPipeline_after_generation [OF acct True Inr] step_trace_def
          by (simp add: acct True Inr split: sum.splits)
      qed
    qed
  qed
qed

text \<open>
  Claim C9. In every run the \<open>steps\<close> array of the result is \<open>step_trace\<close>: the running
  entry of Load Account Config; after its completed entry the running entry of
  Generate Prompt; after its completed entry the block of Determine Version and the
  running entry of Create Injection File; after its completed entry the block of Save
  Prompt Version when the run has a durable context, then the block of Log Costs when
  cost tracking is on. A step that fails or throws before Save Prompt Version ends the
  array. So the array is a sequence of blocks in the order of the fixed list (the
  names of \<open>stepDefinitions\<close>), no name twice; each block is the running entry of the
  step followed by its completed or failed entry, and only the last block may lack the
  terminal entry (the step that threw).
\<close>

theorem steps_follow_fixed_sequence:
  "steps (fst (runPipeline env payload config w0)) = step_trace env payload config w0 \<and>
   well_sequenced (map fst stepDefinitions) (steps (fst (runPipeline env payload config w0)))"
  unfolding runPipeline_steps using step_trace_well_sequenced by blast

lemma logCostsToSheets_cong:
  assumes "sessionCosts w = sessionCosts v" "googleFolderName c = googleFolderName c'"
    "googleSpreadsheetName c = googleSpreadsheetName c'"
  shows "logCostsToSheets env a b c ver br pc w = logCostsToSheets env a b c' ver br pc v"
  unfolding logCostsToSheets_def getSessionCosts_def assms by (rule refl)

lemma stepLogCosts_None_cong:
  assumes "sessionCosts w = sessionCosts v" "googleFolderName c = googleFolderName c'"
    "googleSpreadsheetName c = googleSpreadsheetName c'" "enableCostTracking c = enableCostTracking c'"
  shows "fst (stepLogCosts env c None payload gp ver (ss, w)) =
         fst (stepLogCosts env c' None payload gp ver (ss, v))"
  unfolding stepLogCosts_steps
  using assms(4) logCostsToSheets_cong [OF assms(1-3), of env "pi_accountId payload"
      "b_assistantId (briefing payload)" ver "briefing payload" "gp_content gp"]
  by simp

text \<open>The result of a run without a durable context, branch by branch.\<close>

lemma no_context_load_throws:
  assumes "initContext env (mergeConfig config) payload (resetSession w0) = (None, w)"
    and "loadAccountConfig env (pi_accountId payload) = Inl e"
  shows "fst (runPipeline env payload config w0) =
          \<lparr>pr_status = failed, pr_accountId = pi_accountId payload,
           pr_assistantId = b_assistantId (briefing payload),
           generatedPrompt = None, injectionFile = None, costEntries = sessionCosts w,
           steps = [\<lparr>ps_name = ''Load Account Config'', ps_status = running, ps_error = None\<rparr>],
           pr_error = Some e\<rparr>"
  using assms unfolding runPipeline_def Let_def
  by (simp add: catchFatal_fst)

lemma no_context_account_missing:
  assumes "initContext env (mergeConfig config) payload (resetSession w0) = (None, w)"
    and "loadAccountConfig env (pi_accountId payload) = Inr None"
  shows "fst (runPipeline env payload config w0) =
          \<lparr>pr_status = failed, pr_accountId = pi_accountId payload,
           pr_assistantId = b_assistantId (briefing payload),
           generatedPrompt = None, injectionFile = None, costEntries = sessionCosts w,
           steps = [\<lparr>ps_name = ''Load Account Config'', ps_status = running, ps_error = None\<rparr>,
                    \<lparr>ps_name = ''Load Account Config'', ps_status = failed,
                     ps_error = Some ''Account not found''\<rparr>],
           pr_error = Some ''Account not found''\<rparr>"
  using assms unfolding runPipeline_def Let_def
  by (simp add: createFailedResult_fst)

lemma no_context_key_missing:
  assumes "initContext env (mergeConfig config) payload (resetSession w0) = (None, w)"
    and "loadAccountConfig env (pi_accountId payload) = Inr (Some ac)"
    and "\<not> fst (validateApiKeyConfigured env)"
  shows "fst (runPipeline env payload config w0) =
            \<lparr>pr_status = failed, pr_accountId = pi_accountId payload,
             pr_assistantId = b_assistantId (briefing payload),
             generatedPrompt = None, injectionFile = None, costEntries = sessionCosts w,
             steps = [\<lparr>ps_name = ''Load Account Config'', ps_status = running, ps_error = None\<rparr>,
                      \<lparr>ps_name = ''Load Account Config'', ps_status = failed,
                       ps_error = snd (validateApiKeyConfigured env)\<rparr>],
             pr_error = snd (validateApiKeyConfigured env)\<rparr>"
  using assms unfolding runPipeline_def Let_def
  by (simp add: createFailedResult_fst)

lemma no_context_generation_throws:
  assumes "initContext env (mergeConfig config) payload (resetSession w0) = (None, w)"
    and "loadAccountConfig env (pi_accountId payload) = Inr (Some ac)"
    and "fst (validateApiKeyConfigured env)"
    and "generatePromptWithIteration env (briefing payload) (pi_accountId payload)
           (Some (cfg_maxIterations (mergeConfig config))) w = (Inl e, w4)"
  shows "fst (runPipeline env payload config w0) =
                 \<lparr>pr_status = failed, pr_accountId = pi_accountId payload,
                  pr_assistantId = b_assistantId (briefing payload),
                  generatedPrompt = None, injectionFile = None, costEntries = sessionCosts w4,
                  steps = [\<lparr>ps_name = ''Load Account Config'', ps_status = running, ps_error = None\<rparr>,
                           \<lparr>ps_name = ''Load Account Config'', ps_status = completed, ps_error = None\<rparr>,
                           \<lparr>ps_name = ''Generate Prompt'', ps_status = running, ps_error = None\<rparr>],
                  pr_error = Some e\<rparr>"
  using assms unfolding runPipeline_def Let_def
  by (simp add: catchFatal_fst)

lemma no_context_packaging_throws:
  assumes "initContext env (mergeConfig config) payload (resetSession w0) = (None, w)"
    and "loadAccountConfig env (pi_accountId payload) = Inr (Some ac)"
    and "fst (validateApiKeyConfigured env)"
    and "generatePromptWithIteration env (briefing payload) (pi_accountId payload)
           (Some (cfg_maxIterations (mergeConfig config))) w = (Inr gp, w4)"
    and "createInjectionFromPrompt env gp ''v1'' = Inl e"
  shows "fst (runPipeline env payload config w0) =
                      \<lparr>pr_status = failed, pr_accountId = pi_accountId payload,
                       pr_assistantId = b_assistantId (briefing payload),
                       generatedPrompt = None, injectionFile = None, costEntries = sessionCosts w4,
                       steps =
                         [\<lparr>ps_name = ''Load Account Config'', ps_status = running, ps_error = None\<rparr>,
                          \<lparr>ps_name = ''Load Account Config'', ps_status = completed, ps_error = None\<rparr>,
                          \<lparr>ps_name = ''Generate Prompt'', ps_status = running, ps_error = None\<rparr>,
                          \<lparr>ps_name = ''Generate Prompt'', ps_status = completed, ps_error = None\<rparr>,
                          \<lparr>ps_name = ''Determine Version'', ps_status = running, ps_error = None\<rparr>,
                          \<lparr>ps_name = ''Determine Version'', ps_status = completed, ps_error = None\<rparr>,
                          \<lparr>ps_name = ''Create Injection File'', ps_status = running, ps_error = None\<rparr>],
                       pr_error = Some e\<rparr>"
  using assms unfolding runPipeline_def Let_def
  by (simp add: catchFatal_fst)

lemma no_context_completed:
  assumes "initContext env (mergeConfig config) payload (resetSession w0) = (None, w)"
    and "loadAccountConfig env (pi_accountId payload) = Inr (Some ac)"
    and "fst (validateApiKeyConfigured env)"
    and "generatePromptWithIteration env (briefing payload) (pi_accountId payload)
           (Some (cfg_maxIterations (mergeConfig config))) w = (Inr gp, w4)"
    and "createInjectionFromPrompt env gp ''v1'' = Inr f"
  shows "fst (runPipeline env payload config w0) =
                      \<lparr>pr_status = completed, pr_accountId = pi_accountId payload,
                       pr_assistantId = b_assistantId (briefing payload),
                       generatedPrompt = Some gp, injectionFile = Some f, costEntries = sessionCosts w4,
                       steps = fst (stepLogCosts env (mergeConfig config) None payload gp ''v1''
                         ([\<lparr>ps_name = ''Load Account Config'', ps_status = running, ps_error = None\<rparr>,
                           \<lparr>ps_name = ''Load Account Config'', ps_status = completed, ps_error = None\<rparr>,
                           \<lparr>ps_name = ''Generate Prompt'', ps_status = running, ps_error = None\<rparr>,
                           \<lparr>ps_name = ''Generate Prompt'', ps_status = completed, ps_error = None\<rparr>,
                           \<lparr>ps_name = ''Determine Version'', ps_status = running, ps_error = None\<rparr>,
                           \<lparr>ps_name = ''Determine Version'', ps_status = completed, ps_error = None\<rparr>,
                           \<lparr>ps_name = ''Create Injection File'', ps_status = running, ps_error = None\<rparr>,
                           \<lparr>ps_name = ''Create Injection File'', ps_status = completed, ps_error = None\<rparr>],
                          w4)),
                       pr_error = None\<rparr>"
proof -
  have c: "sessionCosts (snd (stepLogCosts env cfg None payload gp v (ss, w4))) = sessionCosts w4"
    for cfg v ss
    using frameD(1) [OF stepLogCosts_frame [of "(ss, w4)" env cfg None payload gp v]] by simp
  show ?thesis
    using assms unfolding runPipeline_def Let_def
    by (simp add: getSessionCosts_def c)
qed

lemma runPipeline_logs_mono:
  assumes "x \<in> set (logs (snd (initContext env (mergeConfig config) payload (resetSession w0))))"
  shows "x \<in> set (logs (snd (runPipeline env payload config w0)))"
proof (cases "(\<exists>ac. loadAccountConfig env (pi_accountId payload) = Inr (Some ac)) \<and>
              fst (validateApiKeyConfigured env)")
  case False
  have "frame (snd (initContext env (mergeConfig config) payload (resetSession w0)))
          (snd (runPipeline env payload config w0))"
    unfolding runPipeline_def Let_def
    using False
    by (auto split: sum.splits option.splits intro!: frame_intros)
  from frameD(4) [OF this assms] show ?thesis .
next
  case True
  then obtain ac where acct: "loadAccountConfig env (pi_accountId payload) = Inr (Some ac)"
    and key: "fst (validateApiKeyConfigured env)" by blast
  define cfg where "cfg = mergeConfig config"
  define cw where "cw = initContext env cfg payload (resetSession w0)"
  define sw3 where "sw3 = logStep env cfg (fst cw) ''Generate Prompt'' running None
     (logStep env cfg (fst cw) ''Load Account Config'' completed None
       (logStep env cfg (fst cw) ''Load Account Config'' running None ([], snd cw)))"
  have fr: "frame (snd cw) (snd sw3)"
    unfolding sw3_def by (intro logStep_frame2) simp
  obtain r4 w4 where G: "generatePromptWithIteration env (briefing payload) (pi_accountId payload)
                 (Some (cfg_maxIterations cfg)) (snd sw3) = (r4, w4)"
    by (cases "generatePromptWithIteration env (briefing payload) (pi_accountId payload)
                 (Some (cfg_maxIterations cfg)) (snd sw3)")
  from generatePromptWithIteration_modlogs [OF modlogs_refl, of env "briefing payload"
      "pi_accountId payload" "Some (cfg_maxIterations cfg)" "snd sw3"] G
  have l4: "logs w4 = logs (snd sw3)" by simp
  have post: "frame w4 (snd (runPipeline env payload config w0))"
    unfolding runPipeline_def Let_def cfg_def [symmetric] cw_def [symmetric] sw3_def [symmetric]
    using acct key G
    by (auto split: sum.splits option.splits intro!: frame_intros)
  have "x \<in> set (logs (snd sw3))"
    using frameD(4) [OF fr] assms by (simp add: cw_def cfg_def)
  then have "x \<in> set (logs w4)" by (simp add: l4)
  from frameD(4) [OF post this] show ?thesis .
qed

text \<open>
  Claim C8. With durable persistence enabled, if establishing the context throws,
  the warning is logged, and the result of the run is the result of the same run with
  durable persistence switched off.
\<close>

theorem context_failure_is_not_fatal:
  assumes en: "enableSupabase (mergeConfig config)"
    and fail: "initializeSupabaseContext env payload = Inl e"
  shows "fst (runPipeline env payload config w0) =
           fst (runPipeline env payload (config\<lparr>part_enableSupabase := Some False\<rparr>) w0) \<and>
         (Warn, ''Failed to initialize Supabase context, continuing without persistence'')
           \<in> set (logs (snd (runPipeline env payload config w0)))"
proof -
  let ?configB = "config\<lparr>part_enableSupabase := Some False\<rparr>"
  let ?msg = "''Failed to initialize Supabase context, continuing without persistence''"
  let ?wA = "logger_warn ?msg (resetSession w0)"
  let ?wB = "resetSession w0"
  have cB: "mergeConfig ?configB = (mergeConfig config)\<lparr>enableSupabase := False\<rparr>"
    by (simp add: mergeConfig_def)
  have iA: "initContext env (mergeConfig config) payload (resetSession w0) = (None, ?wA)"
    using en fail by (simp add: initContext_def)
  have iB: "initContext env (mergeConfig ?configB) payload (resetSession w0) = (None, ?wB)"
    by (simp add: cB initContext_def)
  have mi [simp]: "cfg_maxIterations (mergeConfig ?configB) = cfg_maxIterations (mergeConfig config)"
    by (simp add: cB)
  have m: "modlogs ?wB ?wA"
    by (simp add: modlogs_def logger_warn_def)
  have c0: "sessionCosts ?wA = sessionCosts ?wB"
    by (simp add: logger_warn_def)
  have logged: "(Warn, ?msg) \<in> set (logs (snd (runPipeline env payload config w0)))"
    by (rule runPipeline_logs_mono) (simp add: iA logger_warn_def)
  have eq: "fst (runPipeline env payload config w0) = fst (runPipeline env payload ?configB w0)"
  proof (cases "loadAccountConfig env (pi_accountId payload)")
    case (Inl e')
    show ?thesis
      unfolding no_context_load_throws [OF iA Inl] no_context_load_throws [OF iB Inl] c0 ..
  next
    case (Inr found)
    show ?thesis
    proof (cases found)
      case None
      with Inr have l: "loadAccountConfig env (pi_accountId payload) = Inr None" by simp
      show ?thesis
        unfolding no_context_account_missing [OF iA l] no_context_account_missing [OF iB l] c0 ..
    next
      case (Some ac)
      with Inr have l: "loadAccountConfig env (pi_accountId payload) = Inr (Some ac)" by simp
      show ?thesis
      proof (cases "fst (validateApiKeyConfigured env)")
        case False
        show ?thesis
          unfolding no_context_key_missing [OF iA l False] no_context_key_missing [OF iB l False] c0 ..
      next
        case True
        obtain r4 w4B where GB0: "generatePromptWithIteration env (briefing payload)
            (pi_accountId payload) (Some (cfg_maxIterations (mergeConfig config))) ?wB = (r4, w4B)"
          by (cases "generatePromptWithIteration env (briefing payload)
            (pi_accountId payload) (Some (cfg_maxIterations (mergeConfig config))) ?wB")
        obtain r4' w4A where GA0: "generatePromptWithIteration env (briefing payload)
            (pi_accountId payload) (Some (cfg_maxIterations (mergeConfig config))) ?wA = (r4', w4A)"
          by (cases "generatePromptWithIteration env (briefing payload)
            (pi_accountId payload) (Some (cfg_maxIterations (mergeConfig config))) ?wA")
        from generatePromptWithIteration_modlogs [OF m, of env "briefing payload"
            "pi_accountId payload" "Some (cfg_maxIterations (mergeConfig config))"] GA0 GB0
        have r: "r4' = r4" and c4: "sessionCosts w4A = sessionCosts w4B"
          by (simp_all add: modlogs_def)
        have GA: "generatePromptWithIteration env (briefing payload)
            (pi_accountId payload) (Some (cfg_maxIterations (mergeConfig config))) ?wA = (r4, w4A)"
          using GA0 r by simp
        have GB: "generatePromptWithIteration env (briefing payload)
            (pi_accountId payload) (Some (cfg_maxIterations (mergeConfig ?configB))) ?wB = (r4, w4B)"
          using GB0 by simp
        show ?thesis
        proof (cases r4)
          case (Inl e')
          show ?thesis
            unfolding no_context_generation_throws [OF iA l True GA [unfolded Inl]]
              no_context_generation_throws [OF iB l True GB [unfolded Inl]] c4 ..
        next
          case (Inr gp)
          show ?thesis
          proof (cases "createInjectionFromPrompt env gp ''v1''")
            case (Inl e')
            show ?thesis
              unfolding no_context_packaging_throws [OF iA l True GA [unfolded Inr] Inl]
                no_context_packaging_throws [OF iB l True GB [unfolded Inr] Inl] c4 ..
          next
            case inj: (Inr f)
            have s: "fst (stepLogCosts env (mergeConfig config) None payload gp ''v1'' (ss, w4A)) =
                     fst (stepLogCosts env (mergeConfig ?configB) None payload gp ''v1'' (ss, w4B))"
              for ss
              by (rule stepLogCosts_None_cong) (simp_all add: c4 cB)
            show ?thesis
              unfolding no_context_completed [OF iA l True GA [unfolded Inr] inj]
                no_context_completed [OF iB l True GB [unfolded Inr] inj] c4 s ..
          qed
        qed
      qed
    qed
  qed
  from eq logged show ?thesis ..
qed

theorem context_failure_is_not_fatal_witness:
  "enableSupabase (mergeConfig no_config) \<and>
   initializeSupabaseContext no_db_env stub_payload = Inl ''db down'' \<and>
   fst (runPipeline no_db_env stub_payload no_config world0) =
     fst (runPipeline no_db_env stub_payload (no_config\<lparr>part_enableSupabase := Some False\<rparr>) world0) \<and>
   (Warn, ''Failed to initialize Supabase context, continuing without persistence'')
     \<in> set (logs (snd (runPipeline no_db_env stub_payload no_config world0)))"
proof -
  have h1: "enableSupabase (mergeConfig no_config)"
    by (simp add: mergeConfig_def DEFAULT_CONFIG_def no_config_def)
  have h2: "initializeSupabaseContext no_db_env stub_payload = Inl ''db down''"
    by (simp add: initializeSupabaseContext_def no_db_env_def stub_eval)
  from context_failure_is_not_fatal [OF h1 h2, of world0] h1 h2 show ?thesis by blast
qed

lemmas pipeline_eval = runPipeline_def mergeConfig_def DEFAULT_CONFIG_def initContext_def
  getSessionCosts_def determineVersion_def logCostsToSheets_def
  createVersionEntry_def stepSavePromptVersion_def stepLogCosts_def completeRun_def
  resetSession_def logger_warn_def logger_error_def truthy_str_def

lemma digit_cases: "d < 10 \<Longrightarrow> d = 0 \<or> d = 1 \<or> d = 2 \<or> d = 3 \<or> d = 4 \<or> d = 5 \<or> d = 6 \<or> d = 7
   \<or> d = 8 \<or> d = (9::nat)"
  by arith

lemma digit_char_props:
  assumes "d < 10"
  shows "digit_val (digit_char d) = d" "is_digit (digit_char d)" "\<not> is_space (digit_char d)"
    "digit_char d \<noteq> CHR ''-''" "digit_char d \<noteq> CHR ''+''"
  using digit_cases [OF assms]
  by (auto simp: digit_char_def digit_val_def is_digit_def is_space_def)

lemma string_of_nat_digits:
  "string_of_nat n \<noteq> [] \<and> (\<forall>c \<in> set (string_of_nat n). is_digit c) \<and>
   foldl (\<lambda>a c. 10 * a + digit_val c) 0 (string_of_nat n) = n \<and>
   \<not> is_space (hd (string_of_nat n)) \<and> hd (string_of_nat n) \<noteq> CHR ''-'' \<and>
   hd (string_of_nat n) \<noteq> CHR ''+''"
proof (induction n rule: string_of_nat.induct)
  case (1 n)
  show ?case
  proof (cases "n < 10")
    case True
    then show ?thesis
      by (subst (1 2 3 4 5 6) string_of_nat.simps) (simp add: digit_char_props)
  next
    case False
    have m: "n mod 10 < 10" by simp
    from "1.IH" [OF False] False m show ?thesis
      by (subst (1 2 3 4 5 6) string_of_nat.simps) (simp add: digit_char_props)
  qed
qed

lemma to_double_exact: "n \<le> 2 ^ 53 \<Longrightarrow> to_double (int n) = Fin (int n)"
  by (simp add: to_double_def round_nat_def)

lemma parseInt10_string_of_nat:
  assumes "n \<le> 2 ^ 53"
  shows "parseInt10 (string_of_nat n) = Some (Fin (int n))"
proof -
  note d = string_of_nat_digits [of n]
  have tw: "takeWhile is_digit (string_of_nat n) = string_of_nat n"
    using d by simp
  have dw: "dropWhile is_space (string_of_nat n) = string_of_nat n"
    using d by (cases "string_of_nat n") auto
  have sr: "(case string_of_nat n of
               [] \<Rightarrow> (1, [])
             | c # r \<Rightarrow> if c = CHR ''-'' then (- 1, r)
                        else if c = CHR ''+'' then (1, r) else (1 :: int, string_of_nat n)) =
            (1, string_of_nat n)"
    using d by (cases "string_of_nat n") auto
  show ?thesis
    unfolding parseInt10_def Let_def dw sr fst_conv snd_conv tw
    using d to_double_exact [OF assms] by simp
qed

lemma getNextVersion_empty: "getNextVersion [] = ''v1''"
  by (simp add: getNextVersion_def)

lemma fold_js_max_Fin:
  "fold js_max (map (\<lambda>n. Fin (int n)) ns) (Fin (int a)) = Fin (int (fold max ns a))"
  by (induction ns arbitrary: a) (simp_all add: max_def)

lemma js_toString_exact: "k \<le> 2 ^ 53 \<Longrightarrow> js_toString (Fin (int k)) = string_of_nat k"
  by (simp add: js_toString_def number_text_def)

lemma getNextVersion_succ:
  assumes "ns \<noteq> []" and safe: "\<forall>n \<in> set ns. n < 2 ^ 53"
  shows "getNextVersion (map (\<lambda>n. ''v'' @ string_of_nat n) ns) = ''v'' @ string_of_nat (Max (set ns) + 1)"
proof -
  have mf: "List.map_filter (\<lambda>v. parseInt10 (remove1 (CHR ''v'') v)) (map (\<lambda>n. ''v'' @ string_of_nat n) ns)
            = map (\<lambda>n. Fin (int n)) ns"
    using safe
    by (induction ns) (simp_all add: List.map_filter_def parseInt10_string_of_nat)
  have "fold js_max (map (\<lambda>n. Fin (int n)) ns) (Fin 0) = Fin (int (fold max ns 0))"
    using fold_js_max_Fin [of ns 0] by simp
  also have "fold max ns 0 = Max (set (0 # ns))"
    by (simp only: Max.set_eq_fold)
  also have "\<dots> = Max (set ns)"
    using assms by (simp add: max_def)
  finally have fm: "fold js_max (map (\<lambda>n. Fin (int n)) ns) (Fin 0) = Fin (int (Max (set ns)))" .
  have "Max (set ns) \<in> set ns"
    using assms by (intro Max_in) simp_all
  with safe have lt: "Max (set ns) < 2 ^ 53" by blast
  then have le: "Max (set ns) + 1 \<le> 2 ^ 53" by simp
  have a1: "js_add1 (Fin (int (Max (set ns)))) = Fin (int (Max (set ns) + 1))"
    using to_double_exact [OF le] by (simp add: js_add1_def add.commute)
  have ts: "js_toString (Fin (int (Max (set ns) + 1))) = string_of_nat (Max (set ns) + 1)"
    using le by (rule js_toString_exact)
  show ?thesis
    using assms(1) unfolding getNextVersion_def Let_def mf fm a1 ts
    by simp
qed

lemma getNextVersionNumber_rows:
  assumes "fst (getNextVersionNumber env a w) = Inr n"
  shows "n = (case map sint (prompt_versions env a) of [] \<Rightarrow> 1 | r # rs \<Rightarrow> Max (set (r # rs)) + 1)"
  using assms unfolding getNextVersionNumber_value getLatestPromptVersion_value
  by (auto simp: rpc_get_next_version_number_def get_next_version_number_def
      or_int_def Max.set_eq_fold Let_def simp del: set_simps
      split: option.splits list.splits sum.splits if_splits)

lemma determineVersion_cases:
  assumes "enableSupabase cfg"
  shows "fst (getNextVersionNumber env (sas_id (assistant ctx)) w) = Inr n \<Longrightarrow>
           fst (determineVersion env cfg (Some ctx) w) = (''v'' @ string_of_int n, n)"
    and "fst (getNextVersionNumber env (sas_id (assistant ctx)) w) = Inl e \<Longrightarrow>
           fst (determineVersion env cfg (Some ctx) w) = (''v1'', 1) \<and>
           (Warn, ''Failed to get next version from Supabase, using v1'')
             \<in> set (logs (snd (determineVersion env cfg (Some ctx) w)))"
  using assms
  by (auto simp: determineVersion_def logger_warn_def split: prod.splits sum.splits)

lemma determineVersion_disabled:
  "\<not> enableSupabase cfg \<Longrightarrow> determineVersion env cfg ctxo w = ((''v1'', 1), w)"
  by (auto simp: determineVersion_def split: option.splits)

lemma unavailable_context:
  assumes en: "enableSupabase (mergeConfig config)"
    and fail: "initializeSupabaseContext env payload = Inl e"
  shows "durableContext env payload config = None"
    and "assignedVersion env payload config = (''v1'', 1)"
    and "(Warn, ''Failed to initialize Supabase context, continuing without persistence'')
           \<in> set (logs (snd (runPipeline env payload config w0)))"
proof -
  show c: "durableContext env payload config = None"
    using en fail by (simp add: durableContext_def initContext_def)
  show "assignedVersion env payload config = (''v1'', 1)"
    by (simp add: assignedVersion_def c)
  have iA: "initContext env (mergeConfig config) payload (resetSession w0) =
     (None, logger_warn ''Failed to initialize Supabase context, continuing without persistence''
        (resetSession w0))"
    using en fail by (simp add: initContext_def)
  show "(Warn, ''Failed to initialize Supabase context, continuing without persistence'')
           \<in> set (logs (snd (runPipeline env payload config w0)))"
    by (rule runPipeline_logs_mono) (simp add: iA logger_warn_def)
qed

text \<open>
  Claim C6, as amended. \<open>getNextVersion\<close> returns \<open>v1\<close> for no prior version and
  \<open>v(n+1)\<close> when \<open>n\<close> is the largest prior version and the versions are below \<open>2^53\<close>.
  In the run, with a durable context, a durable read that returns gives \<open>n+1\<close> for the
  largest stored number \<open>n\<close> (1 for none) and the version \<open>v(n+1)\<close>; a durable read
  that throws gives \<open>(v1, 1)\<close> and the version assigner logs a warning. When durable
  persistence is enabled and its context cannot be established, the run has no
  context, the assigned version is \<open>(v1, 1)\<close> and the warning of the failed
  initialisation is in the log of the run. When durable persistence is disabled the
  version assigner returns \<open>(v1, 1)\<close> and leaves the log as it is.
\<close>

theorem version_assignment:
  "getNextVersion [] = ''v1'' \<and>
   (ns \<noteq> [] \<and> (\<forall>n \<in> set ns. n < 2 ^ 53) \<longrightarrow>
      getNextVersion (map (\<lambda>n. ''v'' @ string_of_nat n) ns) = ''v'' @ string_of_nat (Max (set ns) + 1)) \<and>
   (enableSupabase cfg \<and> fst (getNextVersionNumber env (sas_id (assistant ctx)) w) = Inr n \<longrightarrow>
      fst (determineVersion env cfg (Some ctx) w) = (''v'' @ string_of_int n, n) \<and>
      n = (case map sint (prompt_versions env (sas_id (assistant ctx))) of
             [] \<Rightarrow> 1 | r # rs \<Rightarrow> Max (set (r # rs)) + 1)) \<and>
   (enableSupabase cfg' \<and> fst (getNextVersionNumber env' (sas_id (assistant ctx')) w') = Inl e \<longrightarrow>
      fst (determineVersion env' cfg' (Some ctx') w') = (''v1'', 1) \<and>
      (Warn, ''Failed to get next version from Supabase, using v1'')
        \<in> set (logs (snd (determineVersion env' cfg' (Some ctx') w')))) \<and>
   (enableSupabase (mergeConfig config) \<and> initializeSupabaseContext env2 payload = Inl e2 \<longrightarrow>
      durableContext env2 payload config = None \<and>
      assignedVersion env2 payload config = (''v1'', 1) \<and>
      (Warn, ''Failed to initialize Supabase context, continuing without persistence'')
        \<in> set (logs (snd (runPipeline env2 payload config w0)))) \<and>
   (\<not> enableSupabase cfg'' \<longrightarrow>
      determineVersion env'' cfg'' ctxo w'' = ((''v1'', 1), w''))"
proof -
  have a: "ns \<noteq> [] \<and> (\<forall>n \<in> set ns. n < 2 ^ 53) \<longrightarrow>
      getNextVersion (map (\<lambda>n. ''v'' @ string_of_nat n) ns) = ''v'' @ string_of_nat (Max (set ns) + 1)"
    using getNextVersion_succ by blast
  have b: "enableSupabase cfg \<and> fst (getNextVersionNumber env (sas_id (assistant ctx)) w) = Inr n \<longrightarrow>
      fst (determineVersion env cfg (Some ctx) w) = (''v'' @ string_of_int n, n) \<and>
      n = (case map sint (prompt_versions env (sas_id (assistant ctx))) of
             [] \<Rightarrow> 1 | r # rs \<Rightarrow> Max (set (r # rs)) + 1)"
    using determineVersion_cases(1) [of cfg env ctx w n] getNextVersionNumber_rows [of env _ w n]
    by blast
  have c: "enableSupabase cfg' \<and> fst (getNextVersionNumber env' (sas_id (assistant ctx')) w') = Inl e \<longrightarrow>
      fst (determineVersion env' cfg' (Some ctx') w') = (''v1'', 1) \<and>
      (Warn, ''Failed to get next version from Supabase, using v1'')
        \<in> set (logs (snd (determineVersion env' cfg' (Some ctx') w')))"
    using determineVersion_cases(2) [of cfg' env' ctx' w' e] by blast
  have d: "enableSupabase (mergeConfig config) \<and> initializeSupabaseContext env2 payload = Inl e2 \<longrightarrow>
      durableContext env2 payload config = None \<and>
      assignedVersion env2 payload config = (''v1'', 1) \<and>
      (Warn, ''Failed to initialize Supabase context, continuing without persistence'')
        \<in> set (logs (snd (runPipeline env2 payload config w0)))"
    using unavailable_context by blast
  have f: "\<not> enableSupabase cfg'' \<longrightarrow>
      determineVersion env'' cfg'' ctxo w'' = ((''v1'', 1), w'')"
    using determineVersion_disabled by blast
  from getNextVersion_empty a b c d f show ?thesis by blast
qed

lemma rounding_at_2_53: "to_double 9007199254740993 = Fin 9007199254740992"
  by (simp add: to_double_def round_nat_def bit_length.simps Let_def)

lemma getNextVersion_2_53: "getNextVersion [''v9007199254740992''] = ''v9007199254740992''"
proof -
  have p: "parseInt10 ''9007199254740992'' = Some (Fin 9007199254740992)"
    by (simp add: parseInt10_def is_space_def is_digit_def digit_val_def to_double_def round_nat_def)
  have t: "js_toString (Fin 9007199254740992) = ''9007199254740992''"
    by (simp add: js_toString_def number_text_def string_of_nat.simps digit_char_def)
  show ?thesis
    by (simp add: getNextVersion_def List.map_filter_def p js_add1_def rounding_at_2_53 t)
qed

theorem version_assignment_witness:
  "getNextVersion (map (\<lambda>n. ''v'' @ string_of_nat n) [1, 3]) = ''v4'' \<and>
   enableSupabase DEFAULT_CONFIG \<and>
   fst (getNextVersionNumber versions_env (sas_id (assistant stub_ctx)) world0) = Inr 3 \<and>
   fst (determineVersion versions_env DEFAULT_CONFIG (Some stub_ctx) world0) = (''v3'', 3) \<and>
   fst (getNextVersionNumber unreadable_env (sas_id (assistant stub_ctx)) world0) = Inl ''select failed'' \<and>
   fst (determineVersion unreadable_env DEFAULT_CONFIG (Some stub_ctx) world0) = (''v1'', 1) \<and>
   (Warn, ''Failed to get next version from Supabase, using v1'')
     \<in> set (logs (snd (determineVersion unreadable_env DEFAULT_CONFIG (Some stub_ctx) world0))) \<and>
   enableSupabase (mergeConfig no_config) \<and>
   initializeSupabaseContext no_db_env stub_payload = Inl ''db down'' \<and>
   assignedVersion no_db_env stub_payload no_config = (''v1'', 1) \<and>
   (Warn, ''Failed to initialize Supabase context, continuing without persistence'')
     \<in> set (logs (snd (runPipeline no_db_env stub_payload no_config world0))) \<and>
   \<not> enableSupabase (mergeConfig (no_config\<lparr>part_enableSupabase := Some False\<rparr>)) \<and>
   determineVersion stub_env (mergeConfig (no_config\<lparr>part_enableSupabase := Some False\<rparr>))
     None world0 = ((''v1'', 1), world0)"
proof -
  have h1: "[1, 3] \<noteq> ([] :: nat list) \<and> (\<forall>n \<in> set [1, 3 :: nat]. n < 2 ^ 53)" by simp
  have h2: "enableSupabase DEFAULT_CONFIG" by (simp add: DEFAULT_CONFIG_def)
  have h3: "fst (getNextVersionNumber versions_env (sas_id (assistant stub_ctx)) world0) = Inr 3"
    by (simp add: getNextVersionNumber_def rpc_get_next_version_number_def
        get_next_version_number_def versions_env_def stub_env_def)
  have h4: "fst (getNextVersionNumber unreadable_env (sas_id (assistant stub_ctx)) world0) =
              Inl ''select failed''"
    by (simp add: getNextVersionNumber_def rpc_get_next_version_number_def
        getLatestPromptVersion_def unreadable_env_def stub_env_def)
  have h5: "enableSupabase (mergeConfig no_config)"
    by (simp add: mergeConfig_def DEFAULT_CONFIG_def no_config_def)
  have h6: "initializeSupabaseContext no_db_env stub_payload = Inl ''db down''"
    by (simp add: initializeSupabaseContext_def no_db_env_def stub_eval)
  have h7: "\<not> enableSupabase (mergeConfig (no_config\<lparr>part_enableSupabase := Some False\<rparr>))"
    by (simp add: mergeConfig_def no_config_def)
  have s4: "string_of_nat (Max (set [1, 3]) + 1) = ''4''" "string_of_int 3 = ''3''"
    by (simp_all add: string_of_int_def string_of_nat.simps digit_char_def)
  from version_assignment [of "[1, 3]" DEFAULT_CONFIG versions_env stub_ctx world0 3
      DEFAULT_CONFIG unreadable_env stub_ctx world0 "''select failed''" no_config no_db_env
      stub_payload "''db down''" world0
      "mergeConfig (no_config\<lparr>part_enableSupabase := Some False\<rparr>)" stub_env None world0]
    h1 h2 h3 h4 h5 h6 h7 s4
  show ?thesis by simp
qed

text \<open>
  Claim C6, as stated, fails. With durable persistence switched off the version
  assigner falls back to \<open>(v1, 1)\<close>, the run completes with version \<open>v1\<close>, and no warning
  is logged anywhere in the run. When the call of the stored function fails and the
  manual query answers, the version assigner does not fall back: with the stored
  versions 1 and 2 it assigns \<open>(v3, 3)\<close> and the log has an error record, no warning.
  And \<open>getNextVersion\<close> computes in doubles: for the prior version
  \<open>v9007199254740992\<close>, which is \<open>2^53\<close>, it returns the same version.
\<close>

theorem version_fallback_without_warning:
  "fst (determineVersion stub_env (mergeConfig (no_config\<lparr>part_enableSupabase := Some False\<rparr>))
          None world0) = (''v1'', 1) \<and>
   pr_status (fst (runPipeline stub_env stub_payload
                     (no_config\<lparr>part_enableSupabase := Some False\<rparr>) world0)) = completed \<and>
   map_option if_version (injectionFile (fst (runPipeline stub_env stub_payload
                     (no_config\<lparr>part_enableSupabase := Some False\<rparr>) world0))) = Some ''v1'' \<and>
   logs (snd (runPipeline stub_env stub_payload
                (no_config\<lparr>part_enableSupabase := Some False\<rparr>) world0)) = [] \<and>
   determineVersion rpc_down_env DEFAULT_CONFIG (Some stub_ctx) world0 =
     ((''v3'', 3), world0\<lparr>logs := [(Error, ''Failed to get next version number'')]\<rparr>) \<and>
   getNextVersion [''v9007199254740992''] = ''v9007199254740992''"
proof -
  have a: "fst (determineVersion stub_env (mergeConfig (no_config\<lparr>part_enableSupabase := Some False\<rparr>))
          None world0) = (''v1'', 1) \<and>
   pr_status (fst (runPipeline stub_env stub_payload
                     (no_config\<lparr>part_enableSupabase := Some False\<rparr>) world0)) = completed \<and>
   map_option if_version (injectionFile (fst (runPipeline stub_env stub_payload
                     (no_config\<lparr>part_enableSupabase := Some False\<rparr>) world0))) = Some ''v1'' \<and>
   logs (snd (runPipeline stub_env stub_payload
                (no_config\<lparr>part_enableSupabase := Some False\<rparr>) world0)) = []"
    by (simp add: pipeline_eval generator_eval stub_eval)
  have b: "determineVersion rpc_down_env DEFAULT_CONFIG (Some stub_ctx) world0 =
     ((''v3'', 3), world0\<lparr>logs := [(Error, ''Failed to get next version number'')]\<rparr>)"
    by (simp add: determineVersion_def getNextVersionNumber_def rpc_get_next_version_number_def
        getLatestPromptVersion_def rpc_down_env_def stub_env_def DEFAULT_CONFIG_def or_int_def
        logger_error_def world0_def string_of_int_def string_of_nat.simps digit_char_def)
  have c: "getNextVersion [''v9007199254740992''] = ''v9007199254740992''"
    by (rule getNextVersion_2_53)
  from a b c show ?thesis by blast
qed

end
